theory Spec2Isabelle
  imports Complex_Main "HOL-Library.Word"
begin

unbundle bit_operations_syntax

section \<open>Numeric conventions\<close>

text \<open>
  The shaders compute on 32-bit floats. This development reads every GLSL \<open>float\<close> as
  a real number, so the theorems about shader arithmetic are statements about the
  formulas the shaders evaluate, not about rounding. Host-side integers keep their
  widths (\<open>uint16_t\<close> is \<open>16 word\<close>, \<open>uint32_t\<close> is \<open>32 word\<close>).
\<close>

section \<open>GLSL vectors and matrices\<close>

text \<open>
  \<open>vec2\<close>, \<open>vec3\<close>, \<open>vec4\<close> with the componentwise operators of GLSL; \<open>mat2\<close>,
  \<open>mat3\<close>, \<open>mat4\<close> are stored by columns, as the GLSL constructors take them.
\<close>

datatype vec2 = Vec2 (x2: real) (y2: real)

datatype vec3 = Vec3 (vx: real) (vy: real) (vz: real)

datatype vec4 = Vec4 (x4: real) (y4: real) (z4: real) (w4: real)

datatype mat2 = Mat2 (m2c0: vec2) (m2c1: vec2)

datatype mat3 = Mat3 (col0: vec3) (col1: vec3) (col2: vec3)

datatype mat4 = Mat4 (m4c0: vec4) (m4c1: vec4) (m4c2: vec4) (m4c3: vec4)

instantiation vec3 :: "{zero, plus, minus, uminus, times, inverse}"
begin

definition zero_vec3 :: vec3 where
  "zero_vec3 = Vec3 0 0 0"

definition plus_vec3 :: "vec3 \<Rightarrow> vec3 \<Rightarrow> vec3" where
  "plus_vec3 a b = Vec3 (vx a + vx b) (vy a + vy b) (vz a + vz b)"

definition minus_vec3 :: "vec3 \<Rightarrow> vec3 \<Rightarrow> vec3" where
  "minus_vec3 a b = Vec3 (vx a - vx b) (vy a - vy b) (vz a - vz b)"

definition uminus_vec3 :: "vec3 \<Rightarrow> vec3" where
  "uminus_vec3 a = Vec3 (- vx a) (- vy a) (- vz a)"

definition times_vec3 :: "vec3 \<Rightarrow> vec3 \<Rightarrow> vec3" where
  "times_vec3 a b = Vec3 (vx a * vx b) (vy a * vy b) (vz a * vz b)"

definition divide_vec3 :: "vec3 \<Rightarrow> vec3 \<Rightarrow> vec3" where
  "divide_vec3 a b = Vec3 (vx a / vx b) (vy a / vy b) (vz a / vz b)"

definition inverse_vec3 :: "vec3 \<Rightarrow> vec3" where
  "inverse_vec3 a = Vec3 (inverse (vx a)) (inverse (vy a)) (inverse (vz a))"

instance ..

end

text \<open>\<open>vec3(s)\<close>, \<open>s * v\<close> and \<open>v / s\<close> with a scalar \<open>s\<close>.\<close>

definition vec3_of :: "real \<Rightarrow> vec3" where
  "vec3_of s = Vec3 s s s"

definition smul :: "real \<Rightarrow> vec3 \<Rightarrow> vec3" where
  "smul s v = Vec3 (s * vx v) (s * vy v) (s * vz v)"

definition sdiv :: "vec3 \<Rightarrow> real \<Rightarrow> vec3" where
  "sdiv v s = Vec3 (vx v / s) (vy v / s) (vz v / s)"

definition vec4_of :: "real \<Rightarrow> vec4" where
  "vec4_of s = Vec4 s s s s"

definition vec4_xyz_w :: "vec3 \<Rightarrow> real \<Rightarrow> vec4" where
  "vec4_xyz_w v w = Vec4 (vx v) (vy v) (vz v) w"

definition xyz :: "vec4 \<Rightarrow> vec3" where
  "xyz v = Vec3 (x4 v) (y4 v) (z4 v)"

definition dot2 :: "vec2 \<Rightarrow> vec2 \<Rightarrow> real" where
  "dot2 a b = x2 a * x2 b + y2 a * y2 b"

definition dot :: "vec3 \<Rightarrow> vec3 \<Rightarrow> real" where
  "dot a b = vx a * vx b + vy a * vy b + vz a * vz b"

definition cross :: "vec3 \<Rightarrow> vec3 \<Rightarrow> vec3" where
  "cross a b = Vec3 (vy a * vz b - vz a * vy b) (vz a * vx b - vx a * vz b) (vx a * vy b - vy a * vx b)"

definition length3 :: "vec3 \<Rightarrow> real" where
  "length3 v = sqrt (dot v v)"

definition normalize3 :: "vec3 \<Rightarrow> vec3" where
  "normalize3 v = sdiv v (length3 v)"

text \<open>\<open>reflect(I, N) = I - 2 * dot(N, I) * N\<close>, the GLSL built-in.\<close>

definition reflect :: "vec3 \<Rightarrow> vec3 \<Rightarrow> vec3" where
  "reflect I n = I - smul (2 * dot n I) n"

definition clamp :: "real \<Rightarrow> real \<Rightarrow> real \<Rightarrow> real" where
  "clamp x lo hi = min (max x lo) hi"

definition saturate :: "real \<Rightarrow> real" where
  "saturate x = clamp x 0 1"

definition saturate3 :: "vec3 \<Rightarrow> vec3" where
  "saturate3 v = Vec3 (saturate (vx v)) (saturate (vy v)) (saturate (vz v))"

text \<open>\<open>mix(a, b, t) = a * (1 - t) + b * t\<close> with a scalar \<open>t\<close>.\<close>

definition mix :: "vec3 \<Rightarrow> vec3 \<Rightarrow> real \<Rightarrow> vec3" where
  "mix a b t = smul (1 - t) a + smul t b"

definition mat3_of :: "real \<Rightarrow> mat3" where
  "mat3_of s = Mat3 (Vec3 s 0 0) (Vec3 0 s 0) (Vec3 0 0 s)"

text \<open>Matrix times column vector, and row vector times matrix.\<close>

definition mat2_vec :: "mat2 \<Rightarrow> vec2 \<Rightarrow> vec2" where
  "mat2_vec M v = Vec2 (x2 (m2c0 M) * x2 v + x2 (m2c1 M) * y2 v)
                       (y2 (m2c0 M) * x2 v + y2 (m2c1 M) * y2 v)"

definition vec_mat2 :: "vec2 \<Rightarrow> mat2 \<Rightarrow> vec2" where
  "vec_mat2 v M = Vec2 (dot2 v (m2c0 M)) (dot2 v (m2c1 M))"

definition mat3_vec :: "mat3 \<Rightarrow> vec3 \<Rightarrow> vec3" where
  "mat3_vec M v = smul (vx v) (col0 M) + smul (vy v) (col1 M) + smul (vz v) (col2 M)"

definition vec_mat3 :: "vec3 \<Rightarrow> mat3 \<Rightarrow> vec3" where
  "vec_mat3 v M = Vec3 (dot v (col0 M)) (dot v (col1 M)) (dot v (col2 M))"

definition mat3_mul :: "mat3 \<Rightarrow> mat3 \<Rightarrow> mat3" where
  "mat3_mul A B = Mat3 (mat3_vec A (col0 B)) (mat3_vec A (col1 B)) (mat3_vec A (col2 B))"

definition transpose3 :: "mat3 \<Rightarrow> mat3" where
  "transpose3 M = Mat3 (Vec3 (vx (col0 M)) (vx (col1 M)) (vx (col2 M)))
                       (Vec3 (vy (col0 M)) (vy (col1 M)) (vy (col2 M)))
                       (Vec3 (vz (col0 M)) (vz (col1 M)) (vz (col2 M)))"

definition mat4_vec :: "mat4 \<Rightarrow> vec4 \<Rightarrow> vec4" where
  "mat4_vec M v =
     Vec4 (x4 (m4c0 M) * x4 v + x4 (m4c1 M) * y4 v + x4 (m4c2 M) * z4 v + x4 (m4c3 M) * w4 v)
          (y4 (m4c0 M) * x4 v + y4 (m4c1 M) * y4 v + y4 (m4c2 M) * z4 v + y4 (m4c3 M) * w4 v)
          (z4 (m4c0 M) * x4 v + z4 (m4c1 M) * y4 v + z4 (m4c2 M) * z4 v + z4 (m4c3 M) * w4 v)
          (w4 (m4c0 M) * x4 v + w4 (m4c1 M) * y4 v + w4 (m4c2 M) * z4 v + w4 (m4c3 M) * w4 v)"

text \<open>\<open>mat3(m)\<close> of a \<open>mat4\<close>: its upper-left block.\<close>

definition mat3_of_mat4 :: "mat4 \<Rightarrow> mat3" where
  "mat3_of_mat4 M = Mat3 (xyz (m4c0 M)) (xyz (m4c1 M)) (xyz (m4c2 M))"

section \<open>ray\_common.glsl: the mirror matrix\<close>

text \<open>
  \<^verbatim>\<open>mat3 buildMirrorMatrix(vec3 normal) {
    return mat3(-2.0 * (vec3(normal.x) * normal) + vec3(1.0, 0.0, 0.0),
                -2.0 * (vec3(normal.y) * normal) + vec3(0.0, 1.0, 0.0),
                -2.0 * (vec3(normal.z) * normal) + vec3(0.0, 0.0, 1.0)); }\<close>
\<close>

definition buildMirrorMatrix :: "vec3 \<Rightarrow> mat3" where
  "buildMirrorMatrix normal =
     Mat3 (smul (-2) (vec3_of (vx normal) * normal) + Vec3 1 0 0)
          (smul (-2) (vec3_of (vy normal) * normal) + Vec3 0 1 0)
          (smul (-2) (vec3_of (vz normal) * normal) + Vec3 0 0 1)"

section \<open>nrd.glsl: environment term and base colour conversion\<close>

text \<open>
  \<open>FLT_MIN\<close> is the constant that nrd.glsl declares (\<open>1e-15\<close>), not the IEEE one.
\<close>

definition FLT_MIN :: real where
  "FLT_MIN = 1 / 10 ^ 15"

definition PositiveRcp :: "real \<Rightarrow> real" where
  "PositiveRcp x = 1 / max x FLT_MIN"

text \<open>
  \<open>EnvironmentTerm_Rtg\<close> calls \<open>mul\<close>, a macro of the HLSL compatibility layer of
  NRD.hlsli, which is not part of this repository. It is a parameter here: \<open>mul2\<close> on
  \<open>mat2\<close> and \<open>vec2\<close>, \<open>mul3\<close> on \<open>mat3\<close> and \<open>vec3\<close>. The two candidates are
  \<open>mat2_vec\<close>/\<open>mat3_vec\<close> and \<open>\<lambda>M v. vec_mat2 v M\<close>/\<open>\<lambda>M v. vec_mat3 v M\<close>.
\<close>

definition EnvironmentTerm_Rtg ::
  "(mat2 \<Rightarrow> vec2 \<Rightarrow> vec2) \<Rightarrow> (mat3 \<Rightarrow> vec3 \<Rightarrow> vec3) \<Rightarrow> vec3 \<Rightarrow> real \<Rightarrow> real \<Rightarrow> vec3" where
  "EnvironmentTerm_Rtg mul2 mul3 Rf0 NoV linearRoughness =
     (let m = saturate (linearRoughness * linearRoughness);
          X = Vec4 1 NoV (NoV * NoV) (NoV * (NoV * NoV));
          Y = Vec4 1 m (m * m) (m * (m * m));
          M1 = Mat2 (Vec2 0.99044 (-1.28514)) (Vec2 1.29678 (-0.755907));
          M2 = Mat3 (Vec3 1.0 2.92338 59.4188) (Vec3 20.3225 (-27.0302) 222.592)
                    (Vec3 121.563 626.13 316.627);
          M3 = Mat2 (Vec2 0.0365463 3.32707) (Vec2 9.0632 (-9.04756));
          M4 = Mat3 (Vec3 1.0 3.59685 (-1.36772)) (Vec3 9.04401 (-16.3174) 9.22949)
                    (Vec3 5.56589 19.7886 (-20.2123));
          X_xy = Vec2 (x4 X) (y4 X);
          Y_xy = Vec2 (x4 Y) (y4 Y);
          X_xyw = Vec3 (x4 X) (y4 X) (w4 X);
          X_xzw = Vec3 (x4 X) (z4 X) (w4 X);
          Y_xyw = Vec3 (x4 Y) (y4 Y) (w4 Y);
          bias = dot2 (mul2 M1 X_xy) Y_xy * PositiveRcp (dot (mul3 M2 X_xyw) Y_xyw);
          scale = dot2 (mul2 M3 X_xy) Y_xy * PositiveRcp (dot (mul3 M4 X_xzw) Y_xyw)
      in saturate3 (smul scale Rf0 + vec3_of bias))"

definition STL_RF0_DIELECTRICS :: real where
  "STL_RF0_DIELECTRICS = 0.04"

text \<open>The two \<open>out\<close> parameters \<open>albedo\<close> and \<open>Rf0\<close> are returned as a pair.\<close>

definition ConvertBaseColorMetalnessToAlbedoRf0 :: "vec3 \<Rightarrow> real \<Rightarrow> vec3 \<times> vec3" where
  "ConvertBaseColorMetalnessToAlbedoRf0 baseColor metalness =
     (let albedo = smul (saturate (1.0 - metalness)) baseColor;
          Rf0 = mix (vec3_of STL_RF0_DIELECTRICS) baseColor metalness
      in (albedo, Rf0))"

definition gDiffHitDistParams :: vec4 where
  "gDiffHitDistParams = Vec4 3.0 0.1 20.0 (-25.0)"

definition gSpecHitDistParams :: vec4 where
  "gSpecHitDistParams = Vec4 3.0 0.1 20.0 (-25.0)"

definition USE_SANITIZATION :: bool where
  "USE_SANITIZATION = True"

section \<open>host\_device.h\<close>

definition NRD_RELAX :: int where "NRD_RELAX = 0"

definition NRD_REBLUR :: int where "NRD_REBLUR = 1"

definition NRD_REFERENCE :: int where "NRD_REFERENCE = 2"

definition GRID_SIZE :: nat where "GRID_SIZE = 16"

text \<open>
  \<open>FrameInfo\<close>; \<open>NB_LIGHTS\<close> is 0, so the struct has no \<open>light\<close> array.
\<close>

record FrameInfo =
  view :: mat4
  proj :: mat4
  viewInv :: mat4
  projInv :: mat4
  clearColor :: vec4
  jitter :: vec2
  envRotation :: real

record RtxPushConstant =
  frame :: int
  maxLuminance :: real
  maxDepth :: "32 word"
  pc_method :: int
  meterToUnitsMultiplier :: real
  overrideRoughness :: real
  overrideMetallic :: real
  mouseCoord :: "int \<times> int"

section \<open>ray\_common.glsl: the payloads\<close>

record HitPayload =
  seed :: "32 word"
  hitT :: real
  contrib :: vec3
  weight :: vec3
  rayOrigin :: vec3
  rayDirection :: vec3
  bsdfPDF :: real

record HitPayloadNrd =
  nrd_renderNodeIndex :: "32 word"
  nrd_renderPrimIndex :: "32 word"
  nrd_hitT :: real
  nrd_tangent :: vec3
  normal_envmapRadiance :: vec3
  nrd_uv :: vec2
  nrd_bitangentSign :: real

section \<open>The library and the hardware, as parameters\<close>

text \<open>
  \<open>HitState\<close> is declared in nrd.rgen and in get\_hit.glsl with the same fields.
\<close>

record HitState =
  pos :: vec3
  nrm :: vec3
  geonrm :: vec3
  uv :: vec2
  tangent :: vec3
  bitangent :: vec3
  bitangentSign :: real

text \<open>
  \<open>PbrMaterial\<close> is a struct of nvvkhl (pbr\_mat\_struct.h). The fields below are the ones
  the shaders of this repository read or write; \<open>rest\<close> stands for all the others, which
  only the library functions see.
\<close>

record 'x PbrMaterial =
  baseColor :: vec3
  specularColor :: vec3
  emissive :: vec3
  roughness :: vec2
  metallic :: real
  N :: vec3
  Ng :: vec3
  rest :: 'x

text \<open>
  The results of \<open>bsdfSample\<close> and \<open>bsdfEvaluate\<close> (the \<open>inout\<close> structs
  \<open>BsdfSampleData\<close> and \<open>BsdfEvaluateData\<close> of nvvkhl, whose inputs \<open>k1\<close>, \<open>k2\<close>, \<open>xi\<close>
  are arguments here).
\<close>

record BsdfSampleData =
  k2 :: vec3
  pdf :: real
  bsdf_over_pdf :: vec3
  event_type :: int

record BsdfEvaluateData =
  bsdf_diffuse :: vec3
  bsdf_glossy :: vec3
  ev_pdf :: real

text \<open>
  A ray as \<open>traceRayEXT\<close> takes it, and what the traversal of the acceleration structure
  reports for the closest hit: the built-ins \<open>gl_HitTEXT\<close>, \<open>gl_InstanceID\<close>,
  \<open>gl_InstanceCustomIndexEXT\<close>, and the result of \<open>GetHitState\<close> there.
\<close>

record Ray =
  rayFlags :: "32 word"
  sbtRecordOffset :: nat
  missIndex :: nat
  ray_origin :: vec3
  Tmin :: real
  ray_direction :: vec3
  Tmax :: real

record Hit =
  gl_HitTEXT :: real
  gl_InstanceID :: "32 word"
  gl_InstanceCustomIndexEXT :: "32 word"
  hitState :: HitState

text \<open>
  Everything the shaders call that is not code of this repository: the nvvkhl shader
  library, NRD.hlsli, and the ray-tracing hardware. \<open>intersect\<close> is the traversal of the
  acceleration structure (\<open>None\<close> for a miss). \<open>evaluateMaterial\<close> takes the render node
  index, from which the shader fetches the material, and the hit's normal, tangent,
  bitangent and texture coordinate. \<open>envTexture\<close> is \<open>texture(hdrTexture, uv)\<close>.
\<close>

record 'x externals =
  NRD_INF :: real
  MICROFACET_MIN_ROUGHNESS :: real
  BSDF_EVENT_ABSORB :: int
  LOBE_DIFFUSE_REFLECTION :: nat
  mul2 :: "mat2 \<Rightarrow> vec2 \<Rightarrow> vec2"
  mul3 :: "mat3 \<Rightarrow> vec3 \<Rightarrow> vec3"
  xxhash32 :: "32 word \<Rightarrow> 32 word \<Rightarrow> int \<Rightarrow> 32 word"
  rand :: "32 word \<Rightarrow> real \<times> 32 word"
  intersect :: "Ray \<Rightarrow> Hit option"
  evaluateMaterial :: "32 word \<Rightarrow> vec3 \<Rightarrow> vec3 \<Rightarrow> vec3 \<Rightarrow> vec2 \<Rightarrow> 'x PbrMaterial"
  offsetRay :: "vec3 \<Rightarrow> vec3 \<Rightarrow> vec3"
  bsdfSample :: "vec3 \<Rightarrow> vec3 \<Rightarrow> 'x PbrMaterial \<Rightarrow> BsdfSampleData"
  brdf_diffuse_sample :: "vec3 \<Rightarrow> vec3 \<Rightarrow> 'x PbrMaterial \<Rightarrow> vec3 \<Rightarrow> BsdfSampleData"
  bsdfEvaluate :: "vec3 \<Rightarrow> vec3 \<Rightarrow> vec3 \<Rightarrow> 'x PbrMaterial \<Rightarrow> BsdfEvaluateData"
  computeLobeWeights :: "'x PbrMaterial \<Rightarrow> real \<Rightarrow> vec3 \<Rightarrow> nat \<Rightarrow> real"
  lib_powerHeuristic :: "real \<Rightarrow> real \<Rightarrow> real"
  environmentSample :: "vec3 \<Rightarrow> vec4 \<times> vec3"
  rotate_y :: "vec3 \<Rightarrow> vec3 \<Rightarrow> real \<Rightarrow> vec3"
  getSphericalUv :: "vec3 \<Rightarrow> vec2"
  envTexture :: "vec2 \<Rightarrow> vec4"
  toSrgb :: "vec3 \<Rightarrow> vec3"
  toLinear :: "vec3 \<Rightarrow> vec3"
  NRD_FrontEnd_PackNormalAndRoughness :: "vec3 \<Rightarrow> real \<Rightarrow> real \<Rightarrow> vec4"
  NRD_FrontEnd_UnpackNormalAndRoughness :: "vec4 \<Rightarrow> vec4"
  REBLUR_FrontEnd_GetNormHitDist :: "real \<Rightarrow> real \<Rightarrow> vec4 \<Rightarrow> real \<Rightarrow> real"
  REBLUR_FrontEnd_PackRadianceAndNormHitDist :: "vec3 \<Rightarrow> real \<Rightarrow> bool \<Rightarrow> vec4"
  RELAX_FrontEnd_PackRadianceAndHitDist :: "vec3 \<Rightarrow> real \<Rightarrow> bool \<Rightarrow> vec4"
  REBLUR_BackEnd_UnpackRadianceAndNormHitDist :: "vec4 \<Rightarrow> vec4"
  RELAX_BackEnd_UnpackRadiance :: "vec4 \<Rightarrow> vec4"

section \<open>pathtrace.rmiss: the power heuristic\<close>

text \<open>
  \<^verbatim>\<open>float powerHeuristic(float a, float b) { const float t = a * a; return t / (b * b + t); }\<close>
\<close>

definition powerHeuristic :: "real \<Rightarrow> real \<Rightarrow> real" where
  "powerHeuristic a b = (let t = a * a in t / (b * b + t))"

section \<open>GPU state shared by the shader stages\<close>

datatype Image =
    nrdDirectLighting | nrdObjectMotion | nrdNormalRoughness | nrdViewZ
  | nrdUDiff | nrdUSpec | nrdBaseColorMetalness

text \<open>
  One invocation of the ray-generation shader works on the two payload variables, and its
  visible effects are the \<open>imageStore\<close> calls at its pixel and the rays it traces.
  \<open>traced\<close> lists every ray given to \<open>traceRayEXT\<close>, in order; \<open>stored\<close> lists every
  \<open>imageStore\<close>, in order.
\<close>

record GpuState =
  payload :: HitPayload
  payloadNrd :: HitPayloadNrd
  traced :: "Ray list"
  stored :: "(Image \<times> vec4) list"

definition PAYLOAD_NRD :: nat where "PAYLOAD_NRD = 1"

definition PAYLOAD_PATHTRACE :: nat where "PAYLOAD_PATHTRACE = 0"

definition SBTOFFSET_NRD :: nat where "SBTOFFSET_NRD = 1"

definition SBTOFFSET_PATHTRACE :: nat where "SBTOFFSET_PATHTRACE = 0"

definition MISSINDEX_NRD :: nat where "MISSINDEX_NRD = 1"

definition MISSINDEX_PATHTRACE :: nat where "MISSINDEX_PATHTRACE = 0"

text \<open>The ray flags of \<open>GL_EXT_ray_tracing\<close> that the shaders use.\<close>

definition gl_RayFlagsTerminateOnFirstHitEXT :: "32 word" where
  "gl_RayFlagsTerminateOnFirstHitEXT = 4"

definition gl_RayFlagsSkipClosestHitShaderEXT :: "32 word" where
  "gl_RayFlagsSkipClosestHitShaderEXT = 8"

definition gl_RayFlagsCullBackFacingTrianglesEXT :: "32 word" where
  "gl_RayFlagsCullBackFacingTrianglesEXT = 16"

text \<open>\<open>vec3(rand(seed), rand(seed), rand(seed))\<close>: three draws, left to right.\<close>

definition rand3 :: "'x externals \<Rightarrow> 32 word \<Rightarrow> vec3 \<times> 32 word" where
  "rand3 ex s0 =
     (let (a, s1) = rand ex s0;
          (b, s2) = rand ex s1;
          (c, s3) = rand ex s2
      in (Vec3 a b c, s3))"

section \<open>pathtrace.rmiss and nrd.rmiss\<close>

text \<open>
  \<open>main\<close> of pathtrace.rmiss. The shader uses the \<open>powerHeuristic\<close> it declares itself.
\<close>

definition pathtrace_rmiss_main ::
  "'x externals \<Rightarrow> FrameInfo \<Rightarrow> vec3 \<Rightarrow> HitPayload \<Rightarrow> HitPayload" where
  "pathtrace_rmiss_main ex frameInfo gl_WorldRayDirectionEXT p =
     (let dir = rotate_y ex gl_WorldRayDirectionEXT (Vec3 0 1 0) (- envRotation frameInfo);
          uv = getSphericalUv ex dir;
          env = envTexture ex uv;
          mis_weight = powerHeuristic (bsdfPDF p) (w4 env)
      in p\<lparr>contrib := smul mis_weight (xyz env) * xyz (clearColor frameInfo),
            hitT := NRD_INF ex\<rparr>)"

definition nrd_rmiss_main ::
  "'x externals \<Rightarrow> FrameInfo \<Rightarrow> vec3 \<Rightarrow> HitPayloadNrd \<Rightarrow> HitPayloadNrd" where
  "nrd_rmiss_main ex frameInfo gl_WorldRayDirectionEXT p =
     (let dir = rotate_y ex gl_WorldRayDirectionEXT (Vec3 0 1 0) (- envRotation frameInfo);
          uv = getSphericalUv ex dir;
          env = xyz (envTexture ex uv)
      in p\<lparr>normal_envmapRadiance := env * xyz (clearColor frameInfo),
            nrd_hitT := NRD_INF ex\<rparr>)"

section \<open>nrd.rchit\<close>

definition nrd_rchit_main :: "Hit \<Rightarrow> HitPayloadNrd \<Rightarrow> HitPayloadNrd" where
  "nrd_rchit_main h p =
     (let hit = hitState h
      in p\<lparr>nrd_renderNodeIndex := gl_InstanceID h,
            nrd_renderPrimIndex := gl_InstanceCustomIndexEXT h,
            nrd_tangent := tangent hit,
            nrd_bitangentSign := bitangentSign hit,
            nrd_hitT := gl_HitTEXT h,
            normal_envmapRadiance := nrm hit,
            nrd_uv := uv hit\<rparr>)"

section \<open>pathtrace.rchit\<close>

record ShadingResult =
  sr_weight :: vec3
  sr_contrib :: vec3
  sr_rayOrigin :: vec3
  sr_rayDirection :: vec3
  sr_bsdfPDF :: real

text \<open>
  \<open>sampleLights\<close> returns the radiance over the density, and through its \<open>out\<close> and
  \<open>inout\<close> parameters the seed, the direction to the light and the density.
\<close>

definition sampleLights ::
  "'x externals \<Rightarrow> FrameInfo \<Rightarrow> HitState \<Rightarrow> 32 word \<Rightarrow> vec3 \<times> 32 word \<times> vec3 \<times> real" where
  "sampleLights ex frameInfo state seed0 =
     (let (rand_val, seed1) = rand3 ex seed0;
          (radiance_pdf, dirToLight0) = environmentSample ex rand_val;
          radiance = xyz radiance_pdf;
          lightPdf = w4 radiance_pdf;
          dirToLight = rotate_y ex dirToLight0 (Vec3 0 1 0) (envRotation frameInfo);
          radiance = radiance * xyz (clearColor frameInfo)
      in (sdiv radiance lightPdf, seed1, dirToLight, lightPdf))"

text \<open>
  \<open>shading\<close>, in two parts. The local \<open>result\<close> is declared without an initialiser;
  \<open>result0\<close> is whatever it holds then. \<open>trace\<close> is \<open>traceRayEXT\<close> as a
  closest-hit shader may call it. \<open>shading_light\<close> is the first part: the emission, the
  light sample, its evaluation and the shadow ray.
\<close>

definition shading_light ::
  "(Ray \<Rightarrow> GpuState \<Rightarrow> GpuState) \<Rightarrow> 'x externals \<Rightarrow> FrameInfo \<Rightarrow> ShadingResult \<Rightarrow>
   vec3 \<Rightarrow> real \<Rightarrow> 'x PbrMaterial \<Rightarrow> HitState \<Rightarrow> GpuState \<Rightarrow> ShadingResult \<times> GpuState" where
  "shading_light trace ex frameInfo result0 gl_WorldRayDirectionEXT gl_HitT pm hit st0 =
     (let result = result0\<lparr>sr_contrib := emissive pm\<rparr>;
          contribution = vec3_of 0;
          (lightRadianceOverPdf, seed1, dirToLight, lightPdf) =
             sampleLights ex frameInfo hit (seed (payload st0));
          st = st0\<lparr>payload := (payload st0)\<lparr>seed := seed1\<rparr>\<rparr>;
          lightValid = (dot dirToLight (N pm) > 0 \<and> lightPdf > 0)
      in if lightValid then
           (let (xi, seed2) = rand3 ex (seed (payload st));
                st = st\<lparr>payload := (payload st)\<lparr>seed := seed2\<rparr>\<rparr>;
                evalData = bsdfEvaluate ex (- gl_WorldRayDirectionEXT) dirToLight xi pm
            in if ev_pdf evalData > 0 then
                 (let misWeight = lib_powerHeuristic ex lightPdf (ev_pdf evalData);
                      w = smul misWeight lightRadianceOverPdf;
                      contribution = contribution + w * (bsdf_diffuse evalData + bsdf_glossy evalData);
                      ray_flag = gl_RayFlagsTerminateOnFirstHitEXT OR gl_RayFlagsSkipClosestHitShaderEXT
                                 OR gl_RayFlagsCullBackFacingTrianglesEXT;
                      st = st\<lparr>payload := (payload st)\<lparr>hitT := 0\<rparr>\<rparr>;
                      shadowRayOrigin = offsetRay ex (pos hit) (geonrm hit);
                      st = trace \<lparr>rayFlags = ray_flag, sbtRecordOffset = SBTOFFSET_PATHTRACE,
                                  missIndex = MISSINDEX_PATHTRACE, ray_origin = shadowRayOrigin,
                                  Tmin = 0.001, ray_direction = dirToLight, Tmax = NRD_INF ex\<rparr> st;
                      result = (if \<bar>hitT (payload st)\<bar> = NRD_INF ex
                                then result\<lparr>sr_contrib := sr_contrib result + contribution\<rparr>
                                else result);
                      st = st\<lparr>payload := (payload st)\<lparr>hitT := gl_HitT\<rparr>\<rparr>
                  in (result, st))
               else (result, st))
         else (result, st))"

text \<open>
  The BSDF sample that \<open>shading\<close> draws for the follow-up ray, from the seed in the
  payload, and the seed after the three draws.
\<close>

definition shading_sample ::
  "'x externals \<Rightarrow> vec3 \<Rightarrow> 'x PbrMaterial \<Rightarrow> GpuState \<Rightarrow> BsdfSampleData \<times> 32 word" where
  "shading_sample ex gl_WorldRayDirectionEXT pm st =
     (let (xi, seed3) = rand3 ex (seed (payload st))
      in (bsdfSample ex (- gl_WorldRayDirectionEXT) xi pm, seed3))"

definition shading ::
  "(Ray \<Rightarrow> GpuState \<Rightarrow> GpuState) \<Rightarrow> 'x externals \<Rightarrow> FrameInfo \<Rightarrow> ShadingResult \<Rightarrow>
   vec3 \<Rightarrow> real \<Rightarrow> 'x PbrMaterial \<Rightarrow> HitState \<Rightarrow> GpuState \<Rightarrow> ShadingResult \<times> GpuState" where
  "shading trace ex frameInfo result0 gl_WorldRayDirectionEXT gl_HitT pm hit st0 =
     (let (result, st) =
             shading_light trace ex frameInfo result0 gl_WorldRayDirectionEXT gl_HitT pm hit st0;
          (sampleData, seed3) = shading_sample ex gl_WorldRayDirectionEXT pm st;
          st = st\<lparr>payload := (payload st)\<lparr>seed := seed3\<rparr>\<rparr>
      in if event_type sampleData = BSDF_EVENT_ABSORB ex then
           (result, st\<lparr>payload := (payload st)\<lparr>hitT := - hitT (payload st)\<rparr>\<rparr>)
         else
           (let result = result\<lparr>sr_weight := bsdf_over_pdf sampleData,
                                 sr_rayDirection := k2 sampleData,
                                 sr_bsdfPDF := pdf sampleData\<rparr>;
                offsetDir = (if dot (sr_rayDirection result) (N pm) > 0
                             then geonrm hit else - geonrm hit);
                result = result\<lparr>sr_rayOrigin := offsetRay ex (pos hit) offsetDir\<rparr>
            in (result, st)))"

text \<open>
  \<open>main\<close> of pathtrace.rchit, run for the hit \<open>h\<close> of the ray \<open>r\<close>.
  \<open>rchit_material\<close> is the material of the hit with the overrides of the push constant.
\<close>

definition rchit_material :: "'x externals \<Rightarrow> RtxPushConstant \<Rightarrow> Hit \<Rightarrow> 'x PbrMaterial" where
  "rchit_material ex pc h =
     (let hit = hitState h;
          pm = evaluateMaterial ex (gl_InstanceID h) (nrm hit) (tangent hit) (bitangent hit) (uv hit);
          pm = (if overrideRoughness pc > 0 then
                  (let c = clamp (overrideRoughness pc) 0.001 1.0
                   in pm\<lparr>roughness := Vec2 (c * c) (c * c)\<rparr>)
                else pm);
          pm = (if overrideMetallic pc > 0 then pm\<lparr>metallic := overrideMetallic pc\<rparr> else pm)
      in pm)"

definition pathtrace_rchit_main ::
  "(Ray \<Rightarrow> GpuState \<Rightarrow> GpuState) \<Rightarrow> 'x externals \<Rightarrow> FrameInfo \<Rightarrow> RtxPushConstant \<Rightarrow>
   ShadingResult \<Rightarrow> Ray \<Rightarrow> Hit \<Rightarrow> GpuState \<Rightarrow> GpuState" where
  "pathtrace_rchit_main trace ex frameInfo pc result0 r h st0 =
     (let hit = hitState h;
          pm = rchit_material ex pc h;
          st = st0\<lparr>payload := (payload st0)\<lparr>hitT := gl_HitTEXT h\<rparr>\<rparr>;
          (result, st) = shading trace ex frameInfo result0 (ray_direction r) (gl_HitTEXT h) pm hit st
      in st\<lparr>payload := (payload st)\<lparr>weight := sr_weight result,
                                       contrib := sr_contrib result,
                                       rayOrigin := sr_rayOrigin result,
                                       rayDirection := sr_rayDirection result,
                                       bsdfPDF := sr_bsdfPDF result\<rparr>\<rparr>)"

section \<open>traceRayEXT\<close>

text \<open>
  The shader binding table built in RealtimeDenoiser.cpp puts pathtrace.rmiss at miss
  index 0 and nrd.rmiss at 1, the hit group of pathtrace.rchit at offset 0 and that of
  nrd.rchit at 1. A ray is recorded in \<open>traced\<close>; a miss runs the miss shader; a hit runs
  the closest-hit shader unless the ray carries \<open>gl_RayFlagsSkipClosestHitShaderEXT\<close>.
  The first argument is the recursion depth still available
  (\<open>maxPipelineRayRecursionDepth\<close> is 2): the ray-generation shader traces at 2, a
  closest-hit shader at 1.
\<close>

primrec traceRayEXT ::
  "nat \<Rightarrow> 'x externals \<Rightarrow> FrameInfo \<Rightarrow> RtxPushConstant \<Rightarrow> ShadingResult \<Rightarrow> Ray \<Rightarrow> GpuState \<Rightarrow> GpuState" where
  "traceRayEXT 0 ex frameInfo pc result0 r st = st"
| "traceRayEXT (Suc d) ex frameInfo pc result0 r st =
     (let st1 = st\<lparr>traced := traced st @ [r]\<rparr>
      in case intersect ex r of
           None \<Rightarrow>
             (if missIndex r = MISSINDEX_NRD
              then st1\<lparr>payloadNrd := nrd_rmiss_main ex frameInfo (ray_direction r) (payloadNrd st1)\<rparr>
              else st1\<lparr>payload := pathtrace_rmiss_main ex frameInfo (ray_direction r) (payload st1)\<rparr>)
         | Some h \<Rightarrow>
             (if rayFlags r AND gl_RayFlagsSkipClosestHitShaderEXT \<noteq> 0 then st1
              else if sbtRecordOffset r = SBTOFFSET_NRD
              then st1\<lparr>payloadNrd := nrd_rchit_main h (payloadNrd st1)\<rparr>
              else pathtrace_rchit_main (traceRayEXT d ex frameInfo pc result0)
                     ex frameInfo pc result0 r h st1))"

declare traceRayEXT.simps [simp del]

definition maxPipelineRayRecursionDepth :: nat where
  "maxPipelineRayRecursionDepth = 2"

section \<open>nrd.rgen\<close>

definition MATERIAL_ID_DEFAULT :: real where "MATERIAL_ID_DEFAULT = 0"

definition MATERIAL_ID_METAL :: real where "MATERIAL_ID_METAL = 1"

definition MATERIAL_ID_PSR :: real where "MATERIAL_ID_PSR = 2"

definition MATERIAL_ID_HAIR :: real where "MATERIAL_ID_HAIR = 3"

text \<open>
  \<open>DirectLight\<close>: host\_device.h sets \<open>NB_LIGHTS\<close> to 0, so the preprocessor removes the
  loop over the lights and the function returns \<open>vec3(0)\<close> without tracing a ray.
\<close>

definition DirectLight :: "'x PbrMaterial \<Rightarrow> HitState \<Rightarrow> vec3 \<Rightarrow> vec3" where
  "DirectLight matEval hit toEye = (let contribRadiance = vec3_of 0 in contribRadiance)"

text \<open>
  \<open>HdrContrib\<close> returns its two \<open>out\<close> parameters \<open>diffuseRadiance\<close> and
  \<open>specularRadiance\<close>, and the state.
\<close>

definition HdrContrib ::
  "(Ray \<Rightarrow> GpuState \<Rightarrow> GpuState) \<Rightarrow> 'x externals \<Rightarrow> FrameInfo \<Rightarrow> 'x PbrMaterial \<Rightarrow> vec3 \<Rightarrow> vec3 \<Rightarrow>
   GpuState \<Rightarrow> vec3 \<times> vec3 \<times> GpuState" where
  "HdrContrib trace ex frameInfo pbrMat startPos toEye st0 =
     (let (randVal, seed1) = rand3 ex (seed (payload st0));
          st = st0\<lparr>payload := (payload st0)\<lparr>seed := seed1\<rparr>\<rparr>;
          (radiance_pdf, lightDir0) = environmentSample ex randVal;
          lightContrib = xyz radiance_pdf * xyz (clearColor frameInfo);
          lightPdf = w4 radiance_pdf;
          lightDir = rotate_y ex lightDir0 (Vec3 0 1 0) (envRotation frameInfo);
          dotNL = dot lightDir (N pbrMat)
      in if dotNL > 0 \<and> lightPdf > 0 then
           (let bsdfEval = bsdfEvaluate ex toEye lightDir randVal pbrMat
            in if ev_pdf bsdfEval > 0 then
                 (let mis_weight = lib_powerHeuristic ex lightPdf (ev_pdf bsdfEval);
                      lightRadiance = sdiv (smul mis_weight lightContrib) lightPdf;
                      diffRadiance = bsdf_diffuse bsdfEval * lightRadiance;
                      specRadiance = bsdf_glossy bsdfEval * lightRadiance;
                      rayflag = gl_RayFlagsTerminateOnFirstHitEXT OR gl_RayFlagsSkipClosestHitShaderEXT
                                OR gl_RayFlagsCullBackFacingTrianglesEXT;
                      st = st\<lparr>payload := (payload st)\<lparr>hitT := 0\<rparr>\<rparr>;
                      st = trace \<lparr>rayFlags = rayflag, sbtRecordOffset = SBTOFFSET_PATHTRACE,
                                  missIndex = MISSINDEX_PATHTRACE, ray_origin = startPos,
                                  Tmin = 0.001, ray_direction = lightDir, Tmax = NRD_INF ex\<rparr> st
                  in if \<bar>hitT (payload st)\<bar> = NRD_INF ex
                     then (diffRadiance, specRadiance, st)
                     else (vec3_of 0, vec3_of 0, st))
               else (vec3_of 0, vec3_of 0, st))
         else (vec3_of 0, vec3_of 0, st))"

text \<open>
  \<open>buildHitInfo\<close> overwrites its two \<open>inout\<close> parameters completely, so it returns the
  new material and hit state.
\<close>

definition buildHitInfo ::
  "'x externals \<Rightarrow> RtxPushConstant \<Rightarrow> HitPayloadNrd \<Rightarrow> vec3 \<Rightarrow> vec3 \<Rightarrow> HitState \<Rightarrow>
   'x PbrMaterial \<times> HitState" where
  "buildHitInfo ex pc p rayOrg rayDir hitState0 =
     (let hs = hitState0\<lparr>pos := rayOrg + smul (nrd_hitT p) rayDir\<rparr>;
          hs = hs\<lparr>nrm := normal_envmapRadiance p\<rparr>;
          hs = hs\<lparr>geonrm := nrm hs\<rparr>;
          hs = hs\<lparr>uv := nrd_uv p\<rparr>;
          hs = hs\<lparr>tangent := nrd_tangent p\<rparr>;
          hs = hs\<lparr>bitangent := cross (nrm hs) (tangent hs)\<rparr>;
          hs = hs\<lparr>bitangentSign := nrd_bitangentSign p\<rparr>;
          pbrMat = evaluateMaterial ex (nrd_renderNodeIndex p) (nrm hs) (tangent hs) (bitangent hs) (uv hs);
          pbrMat = (if overrideRoughness pc > 0 then
                      (let c = clamp (overrideRoughness pc) (MICROFACET_MIN_ROUGHNESS ex) 1.0
                       in pbrMat\<lparr>roughness := Vec2 (c * c) (c * c)\<rparr>)
                    else pbrMat);
          pbrMat = (if overrideMetallic pc > 0 then pbrMat\<lparr>metallic := overrideMetallic pc\<rparr>
                    else pbrMat)
      in (pbrMat, hs))"

text \<open>
  The local variables of \<open>main\<close> that the primary-surface-replacement loop reads and
  writes, together with the GPU state.
\<close>

record 'x PsrVars =
  gpu :: GpuState
  origin :: vec3
  direction :: vec3
  pbrMat :: "'x PbrMaterial"
  hitSt :: HitState
  hitSky :: bool
  isPsr :: bool
  psrHitDist :: real
  psrThroughput :: vec3
  psrDirectRadiance :: vec3
  psrMirror :: mat3
  psrDepth :: int

text \<open>The ray of STEP 1, traced with nrd.rchit and nrd.rmiss.\<close>

definition psrRay :: "vec3 \<Rightarrow> vec3 \<Rightarrow> Ray" where
  "psrRay org dir =
     \<lparr>rayFlags = gl_RayFlagsCullBackFacingTrianglesEXT, sbtRecordOffset = SBTOFFSET_NRD,
      missIndex = MISSINDEX_NRD, ray_origin = org, Tmin = 0.01, ray_direction = dir,
      Tmax = 10 ^ 32\<rparr>"

text \<open>Is the material something other than a mirror? (The test of the \<open>if\<close> in STEP 1.)\<close>

definition notMirror :: "'x externals \<Rightarrow> 'x PbrMaterial \<Rightarrow> bool" where
  "notMirror ex m \<longleftrightarrow>
     x2 (roughness m) > MICROFACET_MIN_ROUGHNESS ex * MICROFACET_MIN_ROUGHNESS ex + 0.001
     \<or> metallic m < 1.0"

text \<open>
  The body of the \<open>do { ... } while(psrDepth < 5)\<close> loop of STEP 1, in the order of the
  source. \<open>psr_trace\<close>: reset \<open>payloadNrd.hitT\<close>, trace, set \<open>hitSky\<close>.
\<close>

definition psr_trace ::
  "'x externals \<Rightarrow> FrameInfo \<Rightarrow> RtxPushConstant \<Rightarrow> ShadingResult \<Rightarrow> 'x PsrVars \<Rightarrow> 'x PsrVars" where
  "psr_trace ex frameInfo pc result0 v0 =
     (let g = (gpu v0)\<lparr>payloadNrd := (payloadNrd (gpu v0))\<lparr>nrd_hitT := 0\<rparr>\<rparr>;
          g = traceRayEXT maxPipelineRayRecursionDepth ex frameInfo pc result0
                (psrRay (origin v0) (direction v0)) g
      in v0\<lparr>gpu := g, hitSky := (nrd_hitT (payloadNrd g) = NRD_INF ex)\<rparr>)"

text \<open>\<open>psr_sky\<close>: the statement before the \<open>break\<close> of the \<open>if(hitSky)\<close>.\<close>

definition psr_sky :: "'x PsrVars \<Rightarrow> 'x PsrVars" where
  "psr_sky v =
     v\<lparr>psrDirectRadiance :=
         psrDirectRadiance v + psrThroughput v * normal_envmapRadiance (payloadNrd (gpu v))\<rparr>"

text \<open>
  \<open>psr_hit\<close>: accumulate the hit distance, build the hit information, move the origin.
\<close>

definition psr_hit :: "'x externals \<Rightarrow> RtxPushConstant \<Rightarrow> 'x PsrVars \<Rightarrow> 'x PsrVars" where
  "psr_hit ex pc v0 =
     (let v = v0\<lparr>psrHitDist := psrHitDist v0 + nrd_hitT (payloadNrd (gpu v0))\<rparr>;
          (pm, hs) = buildHitInfo ex pc (payloadNrd (gpu v)) (origin v) (direction v) (hitSt v);
          v = v\<lparr>pbrMat := pm, hitSt := hs\<rparr>
      in v\<lparr>origin := offsetRay ex (pos hs) (Ng pm)\<rparr>)"

text \<open>
  \<open>psr_mirror\<close>: the statements after the mirror test, up to and including
  \<open>++psrDepth\<close>.
\<close>

definition psr_mirror :: "'x externals \<Rightarrow> 'x PsrVars \<Rightarrow> 'x PsrVars" where
  "psr_mirror ex v0 =
     (let pm = pbrMat v0;
          v = v0\<lparr>isPsr := True\<rparr>;
          v = v\<lparr>psrDirectRadiance := psrDirectRadiance v + psrThroughput v * emissive pm\<rparr>;
          (xi, seed1) = rand3 ex (seed (payload (gpu v)));
          v = v\<lparr>gpu := (gpu v)\<lparr>payload := (payload (gpu v))\<lparr>seed := seed1\<rparr>\<rparr>\<rparr>;
          specBsdfSample = bsdfSample ex (- direction v) xi pm;
          v = v\<lparr>psrThroughput := psrThroughput v * bsdf_over_pdf specBsdfSample\<rparr>;
          v = v\<lparr>psrMirror := mat3_mul (psrMirror v) (buildMirrorMatrix (N pm))\<rparr>;
          v = v\<lparr>direction := reflect (direction v) (N pm)\<rparr>
      in v\<lparr>psrDepth := psrDepth v + 1\<rparr>)"

lemma psrDepth_psr_trace [simp]: "psrDepth (psr_trace ex frameInfo pc result0 v) = psrDepth v"
  by (simp add: psr_trace_def Let_def)

lemma psrDepth_psr_hit [simp]: "psrDepth (psr_hit ex pc v) = psrDepth v"
  by (simp add: psr_hit_def Let_def split: prod.splits)

lemma psrDepth_psr_mirror [simp]: "psrDepth (psr_mirror ex v) = psrDepth v + 1"
  by (simp add: psr_mirror_def Let_def split: prod.splits)

text \<open>
  The loop: one call is one pass through the body, the recursive call is the jump back
  after \<open>while(psrDepth < 5)\<close>; the two \<open>break\<close>s are the branches that return.
\<close>

function psr_loop ::
  "'x externals \<Rightarrow> FrameInfo \<Rightarrow> RtxPushConstant \<Rightarrow> ShadingResult \<Rightarrow> 'x PsrVars \<Rightarrow> 'x PsrVars" where
  "psr_loop ex frameInfo pc result0 v0 =
     (let v1 = psr_trace ex frameInfo pc result0 v0
      in if hitSky v1 then psr_sky v1
         else
           (let v2 = psr_hit ex pc v1
            in if notMirror ex (pbrMat v2) then v2
               else
                 (let v3 = psr_mirror ex v2
                  in if psrDepth v3 < 5 then psr_loop ex frameInfo pc result0 v3 else v3)))"
  by pat_completeness auto
termination
  by (relation "measure (\<lambda>(ex, frameInfo, pc, result0, v). nat (5 - psrDepth v))") auto

declare psr_loop.simps [simp del]

definition imageStore :: "Image \<Rightarrow> vec4 \<Rightarrow> GpuState \<Rightarrow> GpuState" where
  "imageStore img val g = g\<lparr>stored := stored g @ [(img, val)]\<rparr>"

text \<open>The ray of one indirect path segment, traced with pathtrace.rchit and pathtrace.rmiss.\<close>

definition pathRay :: "'x externals \<Rightarrow> HitPayload \<Rightarrow> Ray" where
  "pathRay ex p =
     \<lparr>rayFlags = gl_RayFlagsCullBackFacingTrianglesEXT, sbtRecordOffset = SBTOFFSET_PATHTRACE,
      missIndex = MISSINDEX_PATHTRACE, ray_origin = rayOrigin p, Tmin = 0.001,
      ray_direction = rayDirection p, Tmax = NRD_INF ex\<rparr>"

text \<open>
  The loop \<open>for(int depth = 1; depth < pc.maxDepth; depth++)\<close> of STEP 3.3 and of STEP 4.3.
  The two loops differ in one place: before each trace the diffuse loop sets
  \<open>payload.hitT\<close> to \<open>NRD_INF\<close>, the specular loop to \<open>-NRD_INF\<close>; that value is
  \<open>resetT\<close>. \<open>pc.maxDepth\<close> is a \<open>uint\<close>, so the comparison converts \<open>depth\<close> to
  \<open>uint\<close>: \<open>depth\<close> is a 32-bit word compared as unsigned. The state of the loop is the GPU
  state, the accumulated radiance, the throughput and \<open>pathLength\<close>.
\<close>

function pathtrace_loop ::
  "'x externals \<Rightarrow> FrameInfo \<Rightarrow> RtxPushConstant \<Rightarrow> ShadingResult \<Rightarrow> real \<Rightarrow> 32 word \<Rightarrow>
   GpuState \<times> vec3 \<times> vec3 \<times> real \<Rightarrow> GpuState \<times> vec3 \<times> vec3 \<times> real" where
  "pathtrace_loop ex frameInfo pc result0 resetT depth (g0, accum0, throughput0, pathLength0) =
     (if depth < maxDepth pc then
        (let g = g0\<lparr>payload := (payload g0)\<lparr>hitT := resetT\<rparr>\<rparr>;
             g = traceRayEXT maxPipelineRayRecursionDepth ex frameInfo pc result0
                   (pathRay ex (payload g)) g;
             accum = accum0 + contrib (payload g) * throughput0;
             throughput = throughput0 * weight (payload g);
             pathLength = (if depth = 1 then \<bar>hitT (payload g)\<bar> else pathLength0)
         in if hitT (payload g) < 0 then (g, accum, throughput, pathLength)
            else pathtrace_loop ex frameInfo pc result0 resetT (depth + 1)
                   (g, accum, throughput, pathLength))
      else (g0, accum0, throughput0, pathLength0))"
  by pat_completeness auto
termination
proof (relation "measure (\<lambda>(ex, frameInfo, pc, result0, resetT, depth, s). unat (maxDepth pc) - unat depth)")
  show "wf (measure (\<lambda>(ex :: 'x externals, frameInfo :: FrameInfo, pc, result0 :: ShadingResult,
              resetT :: real, depth, s :: GpuState \<times> vec3 \<times> vec3 \<times> real).
              unat (maxDepth pc) - unat depth))"
    by simp
next
  fix ex :: "'x externals" and frameInfo :: FrameInfo and pc :: RtxPushConstant
    and result0 :: ShadingResult and resetT :: real and depth :: "32 word"
    and g0 :: GpuState and accum0 throughput0 :: vec3 and pathLength0 :: real
    and x xa :: GpuState and xb xc :: vec3 and xd :: real
  assume lt: "depth < maxDepth pc"
  from lt have "unat (depth + 1) = Suc (unat depth)"
    by (metis add.commute add_neg_numeral_special(8) add_right_cancel unatSuc
        word_order.extremum_strict)
  moreover from lt have "unat depth < unat (maxDepth pc)"
    by (simp add: word_less_nat_alt)
  ultimately show "((ex, frameInfo, pc, result0, resetT, depth + 1, xa, xb, xc, xd),
                    (ex, frameInfo, pc, result0, resetT, depth, g0, accum0, throughput0, pathLength0))
                   \<in> measure (\<lambda>(ex, frameInfo, pc, result0, resetT, depth, s).
                        unat (maxDepth pc) - unat depth)"
    by simp
qed

declare pathtrace_loop.simps [simp del]

text \<open>
  The six assignments under the comment "Resetting payload" of STEP 3.2 and of STEP 4.2,
  which are the same in both.
\<close>

definition resetPayload :: "'x externals \<Rightarrow> vec3 \<Rightarrow> BsdfSampleData \<Rightarrow> GpuState \<Rightarrow> GpuState" where
  "resetPayload ex org bsdfSampleData g =
     g\<lparr>payload := (payload g)\<lparr>contrib := vec3_of 0.0, weight := vec3_of 1.0,
                                  hitT := NRD_INF ex, rayDirection := k2 bsdfSampleData,
                                  rayOrigin := org, bsdfPDF := pdf bsdfSampleData\<rparr>\<rparr>"

text \<open>
  STEP 3.1 to 3.3: the diffuse lobe. The result is the state, \<open>diffuseAccum\<close> and
  \<open>pathLength\<close> as they stand before the de-modulation of STEP 3.4.
\<close>

definition diffuse_path ::
  "'x externals \<Rightarrow> FrameInfo \<Rightarrow> RtxPushConstant \<Rightarrow> ShadingResult \<Rightarrow> 'x PbrMaterial \<Rightarrow> vec3 \<Rightarrow>
   vec3 \<Rightarrow> real \<Rightarrow> vec3 \<Rightarrow> GpuState \<Rightarrow> GpuState \<times> vec3 \<times> real" where
  "diffuse_path ex frameInfo pc result0 pm org toEye diffuseRatio hdrDiffuseRadiance g0 =
     (let diffuseAccum = hdrDiffuseRadiance;
          pathLength = 0.0;
          (xi, seed1) = rand3 ex (seed (payload g0));
          g = g0\<lparr>payload := (payload g0)\<lparr>seed := seed1\<rparr>\<rparr>;
          diffBsdfSample = brdf_diffuse_sample ex toEye xi pm (baseColor pm)
      in if event_type diffBsdfSample \<noteq> BSDF_EVENT_ABSORB ex then
           (let g = resetPayload ex org diffBsdfSample g;
                throughput = smul diffuseRatio (bsdf_over_pdf diffBsdfSample);
                (g, diffuseAccum, throughput, pathLength) =
                   pathtrace_loop ex frameInfo pc result0 (NRD_INF ex) 1
                     (g, diffuseAccum, throughput, pathLength);
                lum = dot diffuseAccum (Vec3 0.212671 0.715160 0.072169);
                diffuseAccum = (if lum > maxLuminance pc
                                then smul (maxLuminance pc / lum) diffuseAccum else diffuseAccum)
            in (g, diffuseAccum, pathLength))
         else (g, diffuseAccum, pathLength))"

text \<open>STEP 3.4 and 3.5: de-modulation, packing and the store.\<close>

definition indirectDiffuse ::
  "'x externals \<Rightarrow> FrameInfo \<Rightarrow> RtxPushConstant \<Rightarrow> ShadingResult \<Rightarrow> 'x PbrMaterial \<Rightarrow> vec3 \<Rightarrow>
   vec3 \<Rightarrow> real \<Rightarrow> vec3 \<Rightarrow> real \<Rightarrow> GpuState \<Rightarrow> GpuState" where
  "indirectDiffuse ex frameInfo pc result0 pm org toEye diffuseRatio hdrDiffuseRadiance g_viewZ g0 =
     (let (g, diffuseAccum, pathLength) =
             diffuse_path ex frameInfo pc result0 pm org toEye diffuseRatio hdrDiffuseRadiance g0;
          diffuseAccum = diffuseAccum / (smul 0.99 (baseColor pm) + vec3_of 0.01);
          diffIndirect =
            (if pc_method pc = NRD_REBLUR then
               (let pathLength = REBLUR_FrontEnd_GetNormHitDist ex pathLength g_viewZ gDiffHitDistParams 1.0
                in REBLUR_FrontEnd_PackRadianceAndNormHitDist ex diffuseAccum pathLength USE_SANITIZATION)
             else if pc_method pc = NRD_RELAX then
               RELAX_FrontEnd_PackRadianceAndHitDist ex diffuseAccum pathLength USE_SANITIZATION
             else vec4_xyz_w diffuseAccum 1.0)
      in imageStore nrdUDiff diffIndirect g)"

text \<open>STEP 4.1 to 4.3: the specular lobe, before the de-modulation of STEP 4.4.\<close>

definition specular_path ::
  "'x externals \<Rightarrow> FrameInfo \<Rightarrow> RtxPushConstant \<Rightarrow> ShadingResult \<Rightarrow> 'x PbrMaterial \<Rightarrow> vec3 \<Rightarrow>
   vec3 \<Rightarrow> (nat \<Rightarrow> real) \<Rightarrow> real \<Rightarrow> vec3 \<Rightarrow> GpuState \<Rightarrow> GpuState \<times> vec3 \<times> real" where
  "specular_path ex frameInfo pc result0 pm org toEye lobeWeights specularRatio hdrSpecularRadiance g0 =
     (let specularAccum = hdrSpecularRadiance;
          pathLength = 0.0;
          (xi, seed1) = rand3 ex (seed (payload g0));
          g = g0\<lparr>payload := (payload g0)\<lparr>seed := seed1\<rparr>\<rparr>;
          xi = Vec3 (vx xi) (vy xi) ((1.0 - lobeWeights (LOBE_DIFFUSE_REFLECTION ex)) * vz xi);
          specBsdfSample = bsdfSample ex toEye xi pm
      in if event_type specBsdfSample \<noteq> BSDF_EVENT_ABSORB ex then
           (let g = resetPayload ex org specBsdfSample g;
                throughput = smul specularRatio (bsdf_over_pdf specBsdfSample);
                (g, specularAccum, throughput, pathLength) =
                   pathtrace_loop ex frameInfo pc result0 (- NRD_INF ex) 1
                     (g, specularAccum, throughput, pathLength);
                lum = dot specularAccum (Vec3 0.212671 0.715160 0.072169);
                specularAccum = (if lum > maxLuminance pc
                                 then smul (maxLuminance pc / lum) specularAccum else specularAccum)
            in (g, specularAccum, pathLength))
         else (g, specularAccum, pathLength))"

text \<open>STEP 4.4 and 4.5: de-modulation by the environment term, packing and the store.\<close>

definition indirectSpecular ::
  "'x externals \<Rightarrow> FrameInfo \<Rightarrow> RtxPushConstant \<Rightarrow> ShadingResult \<Rightarrow> 'x PbrMaterial \<Rightarrow> vec3 \<Rightarrow>
   vec3 \<Rightarrow> real \<Rightarrow> (nat \<Rightarrow> real) \<Rightarrow> real \<Rightarrow> vec3 \<Rightarrow> real \<Rightarrow> GpuState \<Rightarrow> GpuState" where
  "indirectSpecular ex frameInfo pc result0 pm org toEye VdotN lobeWeights specularRatio
       hdrSpecularRadiance g_viewZ g0 =
     (let (g, specularAccum, pathLength) =
             specular_path ex frameInfo pc result0 pm org toEye lobeWeights specularRatio
               hdrSpecularRadiance g0;
          (albedo, Rf0) = ConvertBaseColorMetalnessToAlbedoRf0 (baseColor pm) (metallic pm);
          Fenv = EnvironmentTerm_Rtg (mul2 ex) (mul3 ex) Rf0 (max VdotN 0.0) (sqrt (x2 (roughness pm)));
          specularAccum = specularAccum / (smul 0.99 Fenv + vec3_of 0.01);
          specIndirect =
            (if pc_method pc = NRD_REBLUR then
               (let pathLength = REBLUR_FrontEnd_GetNormHitDist ex pathLength g_viewZ gSpecHitDistParams
                                   (sqrt (x2 (roughness pm)))
                in REBLUR_FrontEnd_PackRadianceAndNormHitDist ex specularAccum pathLength USE_SANITIZATION)
             else if pc_method pc = NRD_RELAX then
               RELAX_FrontEnd_PackRadianceAndHitDist ex specularAccum pathLength USE_SANITIZATION
             else vec4_xyz_w specularAccum 1.0)
      in imageStore nrdUSpec specIndirect g)"

text \<open>
  The early out of \<open>main\<close> when the loop of STEP 1 ended at the sky: five stores, then
  \<open>return\<close>.
\<close>

definition rgen_sky_out :: "'x externals \<Rightarrow> 'x PsrVars \<Rightarrow> GpuState" where
  "rgen_sky_out ex v =
     (let g = imageStore nrdDirectLighting (vec4_xyz_w (psrDirectRadiance v) 0.0) (gpu v);
          g = imageStore nrdUDiff (vec4_of 0) g;
          g = imageStore nrdUSpec (vec4_of 0) g;
          g = imageStore nrdNormalRoughness (vec4_of 0) g;
          g = imageStore nrdViewZ (vec4_of (- NRD_INF ex)) g
      in g)"

text \<open>
  The rest of \<open>main\<close> after STEP 1, for a pixel whose primary surface (or replacement) is
  geometry: the G-buffer stores, STEP 2, STEP 3 and STEP 4.
\<close>

definition rgen_surface ::
  "'x externals \<Rightarrow> FrameInfo \<Rightarrow> RtxPushConstant \<Rightarrow> ShadingResult \<Rightarrow> vec3 \<Rightarrow> vec3 \<Rightarrow>
   'x PsrVars \<Rightarrow> GpuState" where
  "rgen_surface ex frameInfo pc result0 eyePos orgDirection v =
     (let g = gpu v;
          pm = pbrMat v;
          g_viewZ = z4 (mat4_vec (view frameInfo)
                          (vec4_xyz_w (eyePos + smul (psrHitDist v) orgDirection) 1.0));
          g = imageStore nrdViewZ (vec4_of g_viewZ) g;
          materialType = (if isPsr v then MATERIAL_ID_PSR
                          else if metallic pm = 1.0 then MATERIAL_ID_METAL else MATERIAL_ID_DEFAULT);
          worldNormal = mat3_vec (psrMirror v) (N pm);
          normalRoughness = NRD_FrontEnd_PackNormalAndRoughness ex worldNormal
                              (sqrt (x2 (roughness pm))) materialType;
          g = imageStore nrdNormalRoughness normalRoughness g;
          pm = pm\<lparr>baseColor := baseColor pm * psrThroughput v\<rparr>;
          pm = pm\<lparr>specularColor := specularColor pm * psrThroughput v\<rparr>;
          pm = pm\<lparr>emissive := emissive pm * psrThroughput v + psrDirectRadiance v\<rparr>;
          g = imageStore nrdObjectMotion (vec4_of 0) g;
          toEye = - direction v;
          VdotN = dot toEye (N pm);
          lobeWeights = computeLobeWeights ex pm VdotN (baseColor pm);
          diffuseRatio = lobeWeights (LOBE_DIFFUSE_REFLECTION ex);
          specularRatio = 1.0 - diffuseRatio;
          writeBaseColor = toSrgb ex (baseColor pm);
          g = imageStore nrdBaseColorMetalness (vec4_xyz_w writeBaseColor (metallic pm)) g;
          (hdrDiffuseRadiance, hdrSpecularRadiance, g) =
             HdrContrib (traceRayEXT maxPipelineRayRecursionDepth ex frameInfo pc result0)
               ex frameInfo pm (pos (hitSt v)) toEye g;
          directLum = DirectLight pm (hitSt v) toEye;
          directLum = directLum + (psrDirectRadiance v + emissive pm);
          g = imageStore nrdDirectLighting (vec4_xyz_w directLum 1) g;
          g = indirectDiffuse ex frameInfo pc result0 pm (origin v) toEye diffuseRatio
                hdrDiffuseRadiance g_viewZ g;
          g = indirectSpecular ex frameInfo pc result0 pm (origin v) toEye VdotN lobeWeights
                specularRatio hdrSpecularRadiance g_viewZ g
      in g)"

text \<open>
  The values of the locals of \<open>main\<close> when the loop of STEP 1 is entered. \<open>pbrMat0\<close>,
  \<open>hitState0\<close>, \<open>payload0\<close> and \<open>payloadNrd0\<close> are what the variables declared without an
  initialiser hold. The launch id and size are the \<open>xy\<close> parts of \<open>gl_LaunchIDEXT\<close> and
  \<open>gl_LaunchSizeEXT\<close>.
\<close>

definition rgen_camera_origin :: "FrameInfo \<Rightarrow> vec3" where
  "rgen_camera_origin frameInfo = xyz (mat4_vec (viewInv frameInfo) (Vec4 0.0 0.0 0.0 1.0))"

definition rgen_camera_direction :: "FrameInfo \<Rightarrow> 32 word \<times> 32 word \<Rightarrow> 32 word \<times> 32 word \<Rightarrow> vec3" where
  "rgen_camera_direction frameInfo gl_LaunchID gl_LaunchSize =
     (let pixelCenter = Vec2 (real_of_int (sint (fst gl_LaunchID)) + 0.5)
                             (real_of_int (sint (snd gl_LaunchID)) + 0.5);
          pixelCenter = Vec2 (x2 pixelCenter + x2 (jitter frameInfo))
                             (y2 pixelCenter + y2 (jitter frameInfo));
          inUV = Vec2 (x2 pixelCenter / real (unat (fst gl_LaunchSize)))
                      (y2 pixelCenter / real (unat (snd gl_LaunchSize)));
          d = Vec2 (x2 inUV * 2.0 - 1.0) (y2 inUV * 2.0 - 1.0);
          target = mat4_vec (projInv frameInfo) (Vec4 (x2 d) (y2 d) 0.01 1.0)
      in mat3_vec (mat3_of_mat4 (viewInv frameInfo)) (normalize3 (xyz target)))"

definition rgen_init ::
  "'x externals \<Rightarrow> FrameInfo \<Rightarrow> RtxPushConstant \<Rightarrow> 'x PbrMaterial \<Rightarrow> HitState \<Rightarrow> HitPayload \<Rightarrow>
   HitPayloadNrd \<Rightarrow> 32 word \<times> 32 word \<Rightarrow> 32 word \<times> 32 word \<Rightarrow> 'x PsrVars" where
  "rgen_init ex frameInfo pc pbrMat0 hitState0 payload0 payloadNrd0 gl_LaunchID gl_LaunchSize =
     \<lparr>gpu = \<lparr>payload = payload0\<lparr>seed := xxhash32 ex (fst gl_LaunchID) (snd gl_LaunchID) (frame pc)\<rparr>,
             payloadNrd = payloadNrd0, traced = [], stored = []\<rparr>,
      origin = rgen_camera_origin frameInfo,
      direction = rgen_camera_direction frameInfo gl_LaunchID gl_LaunchSize,
      pbrMat = pbrMat0,
      hitSt = hitState0,
      hitSky = False,
      isPsr = False,
      psrHitDist = 0.0,
      psrThroughput = vec3_of 1.0,
      psrDirectRadiance = vec3_of 0.0,
      psrMirror = mat3_of 1.0,
      psrDepth = 0\<rparr>"

text \<open>
  \<open>main\<close> of nrd.rgen for one launch id. The result is the GPU state at the end of the
  invocation: its \<open>stored\<close> are the stores at \<open>pixelPos\<close>, its \<open>traced\<close> the rays.
\<close>

definition rgen_main ::
  "'x externals \<Rightarrow> FrameInfo \<Rightarrow> RtxPushConstant \<Rightarrow> ShadingResult \<Rightarrow> 'x PbrMaterial \<Rightarrow> HitState \<Rightarrow>
   HitPayload \<Rightarrow> HitPayloadNrd \<Rightarrow> 32 word \<times> 32 word \<Rightarrow> 32 word \<times> 32 word \<Rightarrow> GpuState" where
  "rgen_main ex frameInfo pc result0 pbrMat0 hitState0 payload0 payloadNrd0 gl_LaunchID gl_LaunchSize =
     (let v0 = rgen_init ex frameInfo pc pbrMat0 hitState0 payload0 payloadNrd0 gl_LaunchID gl_LaunchSize;
          eyePos = origin v0;
          orgDirection = direction v0;
          v = psr_loop ex frameInfo pc result0 v0
      in if hitSky v then rgen_sky_out ex v
         else rgen_surface ex frameInfo pc result0 eyePos orgDirection v)"

section \<open>The compositing compute shader\<close>

definition ReconstructViewPosition :: "FrameInfo \<Rightarrow> vec2 \<Rightarrow> real \<Rightarrow> vec3" where
  "ReconstructViewPosition frameInfo uv0 viewZ =
     (let p = mat4_vec (projInv frameInfo) (Vec4 (x2 uv0 * 2.0 - 1.0) (y2 uv0 * 2.0 - 1.0) 0.0 1.0);
          p = Vec4 (x4 p / w4 p) (y4 p / w4 p) (z4 p / w4 p) (w4 p / w4 p);
          s = viewZ / z4 p;
          p = Vec4 (x4 p * s) (y4 p * s) (z4 p * s) (w4 p);
          p = mat4_vec (viewInv frameInfo) p
      in xyz p)"

text \<open>
  \<open>main\<close> of the compositing shader for one invocation. The images are functions of the
  pixel coordinate; the result is the value stored to \<open>oImage\<close> at \<open>fragCoord\<close>, or
  \<open>None\<close> when the invocation lies outside the image and returns at once.
\<close>

definition compositing_main ::
  "'x externals \<Rightarrow> FrameInfo \<Rightarrow> RtxPushConstant \<Rightarrow> int \<times> int \<Rightarrow> 32 word \<times> 32 word \<Rightarrow>
   (int \<times> int \<Rightarrow> vec4) \<Rightarrow> (int \<times> int \<Rightarrow> vec4) \<Rightarrow> (int \<times> int \<Rightarrow> vec4) \<Rightarrow> (int \<times> int \<Rightarrow> vec4) \<Rightarrow>
   (int \<times> int \<Rightarrow> vec4) \<Rightarrow> (int \<times> int \<Rightarrow> vec4) \<Rightarrow> ((int \<times> int) \<times> vec4) option" where
  "compositing_main ex frameInfo pc imgSize gl_GlobalInvocationID
       iDirect iDiff iSpec iBaseColor_Metalness iNormal_Roughness iViewZ =
     (let fragCoord = (sint (fst gl_GlobalInvocationID), sint (snd gl_GlobalInvocationID))
      in if fst fragCoord \<ge> fst imgSize \<or> snd fragCoord \<ge> snd imgSize then None
         else
           (let directLighting = iDirect fragCoord;
                R = xyz directLighting;
                R = (if w4 directLighting > 0 then
                       (let (indirectDiff, indirectSpec) =
                              (if pc_method pc = NRD_REBLUR then
                                 (xyz (REBLUR_BackEnd_UnpackRadianceAndNormHitDist ex (iDiff fragCoord)),
                                  xyz (REBLUR_BackEnd_UnpackRadianceAndNormHitDist ex (iSpec fragCoord)))
                               else if pc_method pc = NRD_RELAX then
                                 (xyz (RELAX_BackEnd_UnpackRadiance ex (iDiff fragCoord)),
                                  xyz (RELAX_BackEnd_UnpackRadiance ex (iSpec fragCoord)))
                               else (xyz (iDiff fragCoord), xyz (iSpec fragCoord)));
                            pixelUv = Vec2 ((real_of_int (fst fragCoord) + 0.5 + x2 (jitter frameInfo))
                                              / real_of_int (fst imgSize))
                                           ((real_of_int (snd fragCoord) + 0.5 + y2 (jitter frameInfo))
                                              / real_of_int (snd imgSize));
                            viewZ = x4 (iViewZ fragCoord);
                            Pw = ReconstructViewPosition frameInfo pixelUv viewZ;
                            V = normalize3 (xyz (m4c3 (viewInv frameInfo)) - Pw);
                            N_roughness = NRD_FrontEnd_UnpackNormalAndRoughness ex (iNormal_Roughness fragCoord);
                            baseColorMetalness = iBaseColor_Metalness fragCoord;
                            baseColor = toLinear ex (xyz baseColorMetalness);
                            (albedo, Rf0) = ConvertBaseColorMetalnessToAlbedoRf0 baseColor (w4 baseColorMetalness);
                            NoV = dot (xyz N_roughness) V;
                            Fenv = EnvironmentTerm_Rtg (mul2 ex) (mul3 ex) Rf0 NoV (w4 N_roughness);
                            diffDemodulate = smul 0.99 baseColor + vec3_of 0.01;
                            specDemodulate = smul 0.99 Fenv + vec3_of 0.01;
                            R = R + indirectDiff * diffDemodulate;
                            R = R + indirectSpec * specDemodulate
                        in R)
                     else R)
            in Some (fragCoord, vec4_xyz_w R 1.0)))"

section \<open>NRDWrapper: the types of the denoiser library and of Vulkan\<close>

text \<open>
  The structs of NRDDescs.h as far as the wrapper reads them. An array given as a pointer
  and a count is a list whose length is the count. \<open>nrd::Format\<close> and \<open>nrd::Sampler\<close>
  are the numbers of their enumerators. A \<open>nrd::ResourceType\<close> is one of the two pools
  of the denoiser or a resource of the application, \<open>USER_RESOURCE k\<close> for the
  enumerator with the value \<open>k\<close>.
\<close>

datatype DescriptorType = TEXTURE | STORAGE_TEXTURE

datatype ResourceType = USER_RESOURCE nat | TRANSIENT_POOL | PERMANENT_POOL

record ResourceDesc =
  res_descriptorType :: DescriptorType
  res_type :: ResourceType
  indexInPool :: "16 word"

record ResourceRangeDesc =
  range_descriptorType :: DescriptorType
  baseRegisterIndex :: "32 word"
  descriptorsNum :: "32 word"

record PipelineDesc =
  resourceRanges :: "ResourceRangeDesc list"
  hasConstantData :: bool

record DispatchDesc =
  dispatch_name :: string
  resources :: "ResourceDesc list"
  constantBufferData :: "8 word list"
  constantBufferDataSize :: "32 word"
  pipelineIndex :: "16 word"
  gridWidth :: "16 word"
  gridHeight :: "16 word"
  constantBufferDataMatchesPreviousDispatch :: bool

record TextureDesc =
  tex_format :: nat
  downsampleFactor :: "16 word"

record InstanceDesc =
  permanentPool :: "TextureDesc list"
  transientPool :: "TextureDesc list"
  pipelines :: "PipelineDesc list"
  samplers :: "nat list"
  constantBufferMaxDataSize :: "32 word"
  constantBufferSpaceIndex :: "32 word"
  samplersSpaceIndex :: "32 word"
  resourcesSpaceIndex :: "32 word"
  samplersBaseRegisterIndex :: "32 word"

record SPIRVBindingOffsets =
  samplerOffset :: "32 word"
  textureOffset :: "32 word"
  constantBufferOffset :: "32 word"
  storageTextureAndBufferOffset :: "32 word"

text \<open>
  Vulkan, as far as the wrapper uses it. Handles are numbers, 0 is \<open>VK_NULL_HANDLE\<close>. A
  \<open>VkFormat\<close> is the name of its enumerator. A command buffer is the list of the
  commands recorded into it.
\<close>

type_synonym VkFormat = string

datatype VkImageLayout = VK_IMAGE_LAYOUT_UNDEFINED | VK_IMAGE_LAYOUT_GENERAL

datatype VkAccess =
  VK_ACCESS_SHADER_READ_BIT | VK_ACCESS_SHADER_WRITE_BIT | VK_ACCESS_TRANSFER_WRITE_BIT

datatype VkPipelineStage = VK_PIPELINE_STAGE_COMPUTE_SHADER_BIT | VK_PIPELINE_STAGE_TRANSFER_BIT

datatype VkDescriptorType =
    VK_DESCRIPTOR_TYPE_SAMPLER
  | VK_DESCRIPTOR_TYPE_SAMPLED_IMAGE
  | VK_DESCRIPTOR_TYPE_STORAGE_IMAGE
  | VK_DESCRIPTOR_TYPE_UNIFORM_BUFFER

record VkImageMemoryBarrier =
  imb_image :: nat
  imb_srcAccessMask :: VkAccess
  imb_dstAccessMask :: VkAccess
  imb_oldLayout :: VkImageLayout
  imb_newLayout :: VkImageLayout

record VkBufferMemoryBarrier =
  bmb_srcAccessMask :: VkAccess
  bmb_dstAccessMask :: VkAccess
  bmb_buffer :: nat

record VkDescriptorImageInfo =
  imageView :: nat
  imageLayout :: VkImageLayout

text \<open>
  A \<open>VkWriteDescriptorSet\<close>. \<open>pImageInfo\<close> points into the vector
  \<open>descriptorImageInfos\<close>: it is the index there. \<open>pBufferInfo\<close> points to the one
  \<open>bufferInfo\<close> of the constant buffer: it is that buffer's handle.
\<close>

record VkWriteDescriptorSet =
  dstBinding :: "32 word"
  descriptorCount :: nat
  wds_descriptorType :: VkDescriptorType
  pImageInfo :: "nat option"
  pBufferInfo :: "nat option"

datatype VkCommand =
    CmdPipelineBarrier VkPipelineStage VkPipelineStage "VkBufferMemoryBarrier list"
      "VkImageMemoryBarrier list"
  | CmdClearColorImage nat VkImageLayout vec4
  | CmdUpdateBuffer nat nat "32 word" "8 word list"
  | CmdPushDescriptorSetKHR nat "32 word" "VkWriteDescriptorSet list" "VkDescriptorImageInfo list"
  | CmdBindPipeline nat
  | CmdDispatch "16 word" "16 word" nat

text \<open>
  The device memory the claims are about: the images (extent, format, layout and whether
  the content is still undefined or a known colour) and the bytes of the buffers.
\<close>

datatype ImageContent = UndefinedContent | Colour vec4

record VkImage =
  img_width :: "16 word"
  img_height :: "16 word"
  img_format :: VkFormat
  img_layout :: VkImageLayout
  img_content :: ImageContent

record Device =
  images :: "nat \<rightharpoonup> VkImage"
  buffers :: "nat \<rightharpoonup> 8 word list"
  nextHandle :: nat

text \<open>What a submitted command does to the device memory.\<close>

fun barrier_layout :: "VkImageMemoryBarrier \<Rightarrow> Device \<Rightarrow> Device" where
  "barrier_layout b dev =
     (case images dev (imb_image b) of
        None \<Rightarrow> dev
      | Some i \<Rightarrow> dev\<lparr>images := (images dev)(imb_image b \<mapsto> i\<lparr>img_layout := imb_newLayout b\<rparr>)\<rparr>)"

fun exec_command :: "VkCommand \<Rightarrow> Device \<Rightarrow> Device" where
  "exec_command (CmdPipelineBarrier src dst bufs imgs) dev = fold barrier_layout imgs dev"
| "exec_command (CmdClearColorImage img lay colour) dev =
     (case images dev img of
        None \<Rightarrow> dev
      | Some i \<Rightarrow> dev\<lparr>images := (images dev)(img \<mapsto> i\<lparr>img_content := Colour colour\<rparr>)\<rparr>)"
| "exec_command (CmdUpdateBuffer buf off dataSize bytes) dev =
     (case buffers dev buf of
        None \<Rightarrow> dev
      | Some old \<Rightarrow>
          dev\<lparr>buffers := (buffers dev)(buf \<mapsto>
                 take off old @ take (unat dataSize) bytes @ drop (off + unat dataSize) old)\<rparr>)"
| "exec_command (CmdPushDescriptorSetKHR lay setIndex writes infos) dev = dev"
| "exec_command (CmdBindPipeline pipeline) dev = dev"
| "exec_command (CmdDispatch w h d) dev = dev"

definition submitAndWait :: "VkCommand list \<Rightarrow> Device \<Rightarrow> Device" where
  "submitAndWait cmd dev = fold exec_command cmd dev"

section \<open>NRDWrapper.cpp\<close>

text \<open>
  The assertions of the source are kept: a failed \<open>assert\<close> ends the run with the error
  that names it. An index outside a \<open>std::vector\<close> or an array, and a division by zero,
  are undefined behaviour in C++; the model ends the run there as well.
\<close>

datatype error =
    AssertFormat
  | AssertSetIndices
  | AssertDescriptorKind
  | OutOfBounds
  | DivisionByZero



text \<open>
  \<open>NRDDescriptorTypeToVulkan\<close>: the table has one entry for each of the two enumerators,
  so its assertion cannot fail.
\<close>

fun NRDDescriptorTypeToVulkan :: "DescriptorType \<Rightarrow> VkDescriptorType" where
  "NRDDescriptorTypeToVulkan TEXTURE = VK_DESCRIPTOR_TYPE_SAMPLED_IMAGE"
| "NRDDescriptorTypeToVulkan STORAGE_TEXTURE = VK_DESCRIPTOR_TYPE_STORAGE_IMAGE"

text \<open>
  \<^verbatim>\<open>static inline uint16_t DivideRoundUp(uint32_t dividend, uint16_t divisor)
  { return uint16_t((dividend + divisor - 1) / divisor); }\<close>
  The sum is computed in \<open>uint32_t\<close> and wraps; the quotient is cut to 16 bits.
\<close>

definition DivideRoundUp :: "32 word \<Rightarrow> 16 word \<Rightarrow> error + 16 word" where
  "DivideRoundUp dividend divisor =
     (if divisor = 0 then Inl DivisionByZero
      else Inr (ucast ((dividend + ucast divisor - 1) div ucast divisor)))"

record Texture =
  tex_image :: nat
  tex_imageView :: nat


record NRDPipeline =
  numBindings :: "32 word"
  pipeline :: nat
  pipelineLayout :: nat

text \<open>
  The members of \<open>NRDWrapper\<close>. \<open>m_iDesc\<close> and \<open>m_offsets\<close> are what
  \<open>nrd::GetInstanceDesc(*m_instance)\<close> and \<open>nrd::GetLibraryDesc().spirvBindingOffsets\<close>
  return for the instance.
\<close>

record NRDWrapper =
  m_iDesc :: InstanceDesc
  m_offsets :: SPIRVBindingOffsets
  m_permanentTextures :: "Texture list"
  m_transientTextures :: "Texture list"
  m_userTexturePool :: "Texture list"
  m_samplers :: "nat list"
  m_constantBuffer :: nat
  m_pipelines :: "NRDPipeline list"
  m_constantBufferSetIndex :: "32 word"
  m_samplersSetIndex :: "32 word"
  m_resourcesSetIndex :: "32 word"









text \<open>\<open>dispatch\<close>: the local vectors and the counter \<open>numResourceUpdates\<close>.\<close>

record DispatchLocals =
  numResourceUpdates :: nat
  descriptorUpdates :: "VkWriteDescriptorSet list"
  descriptorImageInfos :: "VkDescriptorImageInfo list"
  imageBarriers :: "VkImageMemoryBarrier list"

definition transitionToShaderRead :: "nat \<Rightarrow> VkImageMemoryBarrier" where
  "transitionToShaderRead img =
     \<lparr>imb_image = img, imb_srcAccessMask = VK_ACCESS_SHADER_WRITE_BIT,
      imb_dstAccessMask = VK_ACCESS_SHADER_READ_BIT,
      imb_oldLayout = VK_IMAGE_LAYOUT_GENERAL, imb_newLayout = VK_IMAGE_LAYOUT_GENERAL\<rparr>"

definition transitionToShaderWrite :: "nat \<Rightarrow> VkImageMemoryBarrier" where
  "transitionToShaderWrite img =
     \<lparr>imb_image = img, imb_srcAccessMask = VK_ACCESS_SHADER_READ_BIT,
      imb_dstAccessMask = VK_ACCESS_SHADER_WRITE_BIT,
      imb_oldLayout = VK_IMAGE_LAYOUT_GENERAL, imb_newLayout = VK_IMAGE_LAYOUT_GENERAL\<rparr>"

text \<open>The \<open>if\<close> chain that resolves a resource to a texture of one of the three pools.\<close>

definition resolveTexture :: "NRDWrapper \<Rightarrow> ResourceDesc \<Rightarrow> error + Texture" where
  "resolveTexture w nrdResource =
     (if res_type nrdResource = TRANSIENT_POOL then
        (if unat (indexInPool nrdResource) < length (m_transientTextures w)
         then Inr (m_transientTextures w ! unat (indexInPool nrdResource)) else Inl OutOfBounds)
      else if res_type nrdResource = PERMANENT_POOL then
        (if unat (indexInPool nrdResource) < length (m_permanentTextures w)
         then Inr (m_permanentTextures w ! unat (indexInPool nrdResource)) else Inl OutOfBounds)
      else
        (case res_type nrdResource of
           USER_RESOURCE k \<Rightarrow>
             (if k < length (m_userTexturePool w) then Inr (m_userTexturePool w ! k)
              else Inl OutOfBounds)
         | _ \<Rightarrow> Inl OutOfBounds))"

text \<open>
  The body of the inner loop of \<open>dispatch\<close>, for the descriptor \<open>d\<close> of the range
  \<open>resourceRange\<close>.
\<close>

definition dispatch_descriptor ::
  "NRDWrapper \<Rightarrow> DispatchDesc \<Rightarrow> ResourceRangeDesc \<Rightarrow> 32 word \<Rightarrow> DispatchLocals \<Rightarrow>
   error + DispatchLocals" where
  "dispatch_descriptor w dispatchDesc resourceRange d s =
     (let isStorage = (range_descriptorType resourceRange = STORAGE_TEXTURE);
          rangeBaseBindingIndex = (if isStorage then storageTextureAndBufferOffset (m_offsets w)
                                   else textureOffset (m_offsets w));
          n = numResourceUpdates s
      in if \<not> n < length (resources dispatchDesc) then Inl OutOfBounds
         else if \<not> n < length (descriptorUpdates s) \<or> \<not> n < length (descriptorImageInfos s)
         then Inl OutOfBounds
         else
           (let nrdResource = resources dispatchDesc ! n;
                update = (descriptorUpdates s ! n)
                           \<lparr>dstBinding := rangeBaseBindingIndex + d,
                            descriptorCount := 1,
                            wds_descriptorType := NRDDescriptorTypeToVulkan (res_descriptorType nrdResource),
                            pImageInfo := Some n\<rparr>
            in if res_descriptorType nrdResource \<noteq> range_descriptorType resourceRange
               then Inl AssertDescriptorKind
               else
                 (case resolveTexture w nrdResource of
                    Inl e \<Rightarrow> Inl e
                  | Inr texture \<Rightarrow>
                      (let barrier = (if isStorage then transitionToShaderWrite (tex_image texture)
                                      else transitionToShaderRead (tex_image texture));
                           imageInfo = (descriptorImageInfos s ! n)
                                         \<lparr>imageView := tex_imageView texture,
                                          imageLayout := VK_IMAGE_LAYOUT_GENERAL\<rparr>
                       in Inr (s\<lparr>descriptorUpdates := (descriptorUpdates s)[n := update],
                                  descriptorImageInfos := (descriptorImageInfos s)[n := imageInfo],
                                  imageBarriers := imageBarriers s @ [barrier],
                                  numResourceUpdates := n + 1\<rparr>)))))"

text \<open>The inner loop over \<open>d\<close> and the outer loop over the resource ranges.\<close>

fun dispatch_range ::
  "NRDWrapper \<Rightarrow> DispatchDesc \<Rightarrow> ResourceRangeDesc \<Rightarrow> 32 word list \<Rightarrow> DispatchLocals \<Rightarrow>
   error + DispatchLocals" where
  "dispatch_range w dispatchDesc resourceRange [] s = Inr s"
| "dispatch_range w dispatchDesc resourceRange (d # ds) s =
     (case dispatch_descriptor w dispatchDesc resourceRange d s of
        Inl e \<Rightarrow> Inl e
      | Inr s1 \<Rightarrow> dispatch_range w dispatchDesc resourceRange ds s1)"

fun dispatch_ranges ::
  "NRDWrapper \<Rightarrow> DispatchDesc \<Rightarrow> ResourceRangeDesc list \<Rightarrow> DispatchLocals \<Rightarrow> error + DispatchLocals" where
  "dispatch_ranges w dispatchDesc [] s = Inr s"
| "dispatch_ranges w dispatchDesc (resourceRange # rs) s =
     (case dispatch_range w dispatchDesc resourceRange
             (map of_nat [0 ..< unat (descriptorsNum resourceRange)]) s of
        Inl e \<Rightarrow> Inl e
      | Inr s1 \<Rightarrow> dispatch_ranges w dispatchDesc rs s1)"

text \<open>The loop that issues the sampler updates.\<close>

fun dispatch_samplers :: "NRDWrapper \<Rightarrow> 32 word list \<Rightarrow> DispatchLocals \<Rightarrow> error + DispatchLocals" where
  "dispatch_samplers w [] s = Inr s"
| "dispatch_samplers w (i # is) s =
     (let n = numResourceUpdates s
      in if \<not> n < length (descriptorUpdates s) \<or> \<not> n < length (descriptorImageInfos s)
         then Inl OutOfBounds
         else
           (let update = (descriptorUpdates s ! n)
                           \<lparr>dstBinding := samplerOffset (m_offsets w)
                                           + samplersBaseRegisterIndex (m_iDesc w) + i,
                            descriptorCount := 1,
                            wds_descriptorType := VK_DESCRIPTOR_TYPE_SAMPLER,
                            pImageInfo := Some n\<rparr>
            in dispatch_samplers w is
                 (s\<lparr>descriptorUpdates := (descriptorUpdates s)[n := update],
                    numResourceUpdates := n + 1\<rparr>)))"

text \<open>
  \<open>nvvk::make<VkWriteDescriptorSet>()\<close> and a value-initialised
  \<open>VkDescriptorImageInfo\<close>: all fields zero (the descriptor type with the value 0 is
  \<open>VK_DESCRIPTOR_TYPE_SAMPLER\<close>).
\<close>

definition make_VkWriteDescriptorSet :: VkWriteDescriptorSet where
  "make_VkWriteDescriptorSet =
     \<lparr>dstBinding = 0, descriptorCount = 0, wds_descriptorType = VK_DESCRIPTOR_TYPE_SAMPLER,
      pImageInfo = None, pBufferInfo = None\<rparr>"

definition zero_VkDescriptorImageInfo :: VkDescriptorImageInfo where
  "zero_VkDescriptorImageInfo = \<lparr>imageView = 0, imageLayout = VK_IMAGE_LAYOUT_UNDEFINED\<rparr>"

text \<open>
  The part of \<open>dispatch\<close> from \<open>if(pDesc.hasConstantData)\<close> to the end of that block:
  the descriptor update of the constant buffer and, unless the data match the previous
  dispatch, the upload between its two barriers.
\<close>

definition dispatch_constants ::
  "NRDWrapper \<Rightarrow> PipelineDesc \<Rightarrow> DispatchDesc \<Rightarrow> VkCommand list \<Rightarrow> DispatchLocals \<Rightarrow>
   error + VkCommand list \<times> DispatchLocals" where
  "dispatch_constants w pDesc dispatchDesc commandBuffer s =
     (if hasConstantData pDesc then
        (let constantBufferUpdate = make_VkWriteDescriptorSet
               \<lparr>dstBinding := constantBufferOffset (m_offsets w),
                descriptorCount := 1,
                wds_descriptorType := VK_DESCRIPTOR_TYPE_UNIFORM_BUFFER,
                pBufferInfo := Some (m_constantBuffer w)\<rparr>;
             n = numResourceUpdates s
         in if \<not> n < length (descriptorUpdates s) then Inl OutOfBounds
            else
              (let s = s\<lparr>descriptorUpdates := (descriptorUpdates s)[n := constantBufferUpdate],
                        numResourceUpdates := n + 1\<rparr>
               in if \<not> constantBufferDataMatchesPreviousDispatch dispatchDesc then
                    Inr (commandBuffer @
                         [CmdPipelineBarrier VK_PIPELINE_STAGE_COMPUTE_SHADER_BIT
                            VK_PIPELINE_STAGE_TRANSFER_BIT
                            [\<lparr>bmb_srcAccessMask = VK_ACCESS_SHADER_READ_BIT,
                              bmb_dstAccessMask = VK_ACCESS_TRANSFER_WRITE_BIT,
                              bmb_buffer = m_constantBuffer w\<rparr>] [],
                          CmdUpdateBuffer (m_constantBuffer w) 0
                            (constantBufferDataSize dispatchDesc) (constantBufferData dispatchDesc),
                          CmdPipelineBarrier VK_PIPELINE_STAGE_TRANSFER_BIT
                            VK_PIPELINE_STAGE_COMPUTE_SHADER_BIT
                            [\<lparr>bmb_srcAccessMask = VK_ACCESS_TRANSFER_WRITE_BIT,
                              bmb_dstAccessMask = VK_ACCESS_SHADER_READ_BIT,
                              bmb_buffer = m_constantBuffer w\<rparr>] []], s)
                  else Inr (commandBuffer, s)))
      else Inr (commandBuffer, s))"

text \<open>
  \<open>NRDWrapper::dispatch\<close>: the commands are appended to the command buffer.
\<close>

definition dispatch :: "NRDWrapper \<Rightarrow> VkCommand list \<Rightarrow> DispatchDesc \<Rightarrow> error + VkCommand list" where
  "dispatch w commandBuffer dispatchDesc =
     (let iDesc = m_iDesc w;
          p = unat (pipelineIndex dispatchDesc)
      in if \<not> p < length (pipelines iDesc) \<or> \<not> p < length (m_pipelines w) then Inl OutOfBounds
         else
           (let pDesc = pipelines iDesc ! p;
                pipe = m_pipelines w ! p;
                len = unat (numBindings pipe + of_nat (length (samplers iDesc)));
                s = \<lparr>numResourceUpdates = 0,
                     descriptorUpdates = replicate len make_VkWriteDescriptorSet,
                     descriptorImageInfos = replicate len zero_VkDescriptorImageInfo,
                     imageBarriers = []\<rparr>
            in if \<not> (m_constantBufferSetIndex w = m_resourcesSetIndex w
                      \<and> m_samplersSetIndex w = m_resourcesSetIndex w)
               then Inl AssertSetIndices
               else
                 (case dispatch_ranges w dispatchDesc (resourceRanges pDesc) s of
                    Inl e \<Rightarrow> Inl e
                  | Inr s \<Rightarrow>
                 (case dispatch_samplers w (map of_nat [0 ..< length (samplers iDesc)]) s of
                    Inl e \<Rightarrow> Inl e
                  | Inr s \<Rightarrow>
                 (case dispatch_constants w pDesc dispatchDesc commandBuffer s of
                    Inl e \<Rightarrow> Inl e
                  | Inr (commandBuffer, s) \<Rightarrow>
                      Inr (commandBuffer @
                           [CmdPipelineBarrier VK_PIPELINE_STAGE_COMPUTE_SHADER_BIT
                              VK_PIPELINE_STAGE_COMPUTE_SHADER_BIT [] (imageBarriers s),
                            CmdPushDescriptorSetKHR (pipelineLayout pipe) (m_resourcesSetIndex w)
                              (take (numResourceUpdates s) (descriptorUpdates s))
                              (descriptorImageInfos s),
                            CmdBindPipeline (pipeline pipe),
                            CmdDispatch (gridWidth dispatchDesc) (gridHeight dispatchDesc) 1]))))))"

text \<open>
  \<open>NRDWrapper::denoise\<close>, for the dispatches that \<open>nrd::GetComputeDispatches\<close> returned.
\<close>

fun denoise :: "NRDWrapper \<Rightarrow> DispatchDesc list \<Rightarrow> VkCommand list \<Rightarrow> error + VkCommand list" where
  "denoise w [] commandBuffer = Inr commandBuffer"
| "denoise w (dDesc # ds) commandBuffer =
     (case dispatch w commandBuffer dDesc of
        Inl e \<Rightarrow> Inl e
      | Inr commandBuffer1 \<Rightarrow> denoise w ds commandBuffer1)"

section \<open>The contract of the wrapper, in the words of its description\<close>




definition cleared :: "VkImage \<Rightarrow> VkImage" where
  "cleared i = i\<lparr>img_layout := VK_IMAGE_LAYOUT_GENERAL, img_content := Colour (Vec4 0 0 0 0)\<rparr>"

text \<open>
  The upload of the constants between its two barriers: from shader read to transfer
  write before the transfer, from transfer write to shader read after it.
\<close>

definition bracketed_upload :: "nat \<Rightarrow> DispatchDesc \<Rightarrow> VkCommand list" where
  "bracketed_upload buf dispatchDesc =
     [CmdPipelineBarrier VK_PIPELINE_STAGE_COMPUTE_SHADER_BIT VK_PIPELINE_STAGE_TRANSFER_BIT
        [\<lparr>bmb_srcAccessMask = VK_ACCESS_SHADER_READ_BIT,
          bmb_dstAccessMask = VK_ACCESS_TRANSFER_WRITE_BIT, bmb_buffer = buf\<rparr>] [],
      CmdUpdateBuffer buf 0 (constantBufferDataSize dispatchDesc) (constantBufferData dispatchDesc),
      CmdPipelineBarrier VK_PIPELINE_STAGE_TRANSFER_BIT VK_PIPELINE_STAGE_COMPUTE_SHADER_BIT
        [\<lparr>bmb_srcAccessMask = VK_ACCESS_TRANSFER_WRITE_BIT,
          bmb_dstAccessMask = VK_ACCESS_SHADER_READ_BIT, bmb_buffer = buf\<rparr>] []]"

text \<open>No descriptor update of the vector is one of a uniform buffer.\<close>

definition noUniformWrite :: "DispatchLocals \<Rightarrow> bool" where
  "noUniformWrite s \<longleftrightarrow>
     (\<forall>u \<in> set (descriptorUpdates s). wds_descriptorType u \<noteq> VK_DESCRIPTOR_TYPE_UNIFORM_BUFFER)"

text \<open>
  The kinds that a pipeline expects of the resource entries of a dispatch, in the order in
  which the two loops of \<open>dispatch\<close> visit them: the kind of each resource range, once
  for each of its descriptors. The entries of a dispatch match the pipeline when there is
  one for each expected kind and each is of the kind expected at its index.
\<close>

definition expectedKinds :: "PipelineDesc \<Rightarrow> DescriptorType list" where
  "expectedKinds pDesc =
     concat (map (\<lambda>r. replicate (unat (descriptorsNum r)) (range_descriptorType r))
               (resourceRanges pDesc))"

definition kindsMatch :: "PipelineDesc \<Rightarrow> DispatchDesc \<Rightarrow> bool" where
  "kindsMatch pDesc dispatchDesc \<longleftrightarrow>
     length (expectedKinds pDesc) \<le> length (resources dispatchDesc)
     \<and> map res_descriptorType (take (length (expectedKinds pDesc)) (resources dispatchDesc))
         = expectedKinds pDesc"

text \<open>
  The two nested loops of \<open>dispatch\<close> as one loop over the pairs of a resource range and
  an index \<open>d\<close> into it, and the list of these pairs in the order of the source.
\<close>

fun dispatch_each ::
  "NRDWrapper \<Rightarrow> DispatchDesc \<Rightarrow> (ResourceRangeDesc \<times> 32 word) list \<Rightarrow> DispatchLocals \<Rightarrow>
   error + DispatchLocals" where
  "dispatch_each w dispatchDesc [] s = Inr s"
| "dispatch_each w dispatchDesc ((r, d) # xs) s =
     (case dispatch_descriptor w dispatchDesc r d s of
        Inl e \<Rightarrow> Inl e
      | Inr s1 \<Rightarrow> dispatch_each w dispatchDesc xs s1)"

definition flatRanges :: "ResourceRangeDesc list \<Rightarrow> (ResourceRangeDesc \<times> 32 word) list" where
  "flatRanges rs = concat (map (\<lambda>r. map (\<lambda>d. (r, of_nat d)) [0 ..< unat (descriptorsNum r)]) rs)"

text \<open>
  An instance for instantiating the theorems about the wrapper: two permanent textures,
  one transient texture, two samplers, and two pipelines, the first with constant data.
  \<open>wrapper_test\<close> holds the handles that the constructor hands out for it on an empty
  device.
\<close>

definition iDesc_test :: InstanceDesc where
  "iDesc_test =
     \<lparr>permanentPool = [\<lparr>tex_format = 27, downsampleFactor = 1\<rparr>, \<lparr>tex_format = 17, downsampleFactor = 2\<rparr>],
      transientPool = [\<lparr>tex_format = 8, downsampleFactor = 4\<rparr>],
      pipelines =
        [\<lparr>resourceRanges =
            [\<lparr>range_descriptorType = TEXTURE, baseRegisterIndex = 0, descriptorsNum = 2\<rparr>,
             \<lparr>range_descriptorType = STORAGE_TEXTURE, baseRegisterIndex = 0, descriptorsNum = 1\<rparr>],
          hasConstantData = True\<rparr>,
         \<lparr>resourceRanges =
            [\<lparr>range_descriptorType = STORAGE_TEXTURE, baseRegisterIndex = 0, descriptorsNum = 1\<rparr>],
          hasConstantData = False\<rparr>],
      samplers = [0, 1],
      constantBufferMaxDataSize = 4,
      constantBufferSpaceIndex = 0, samplersSpaceIndex = 0, resourcesSpaceIndex = 0,
      samplersBaseRegisterIndex = 0\<rparr>"

definition offsets_test :: SPIRVBindingOffsets where
  "offsets_test = \<lparr>samplerOffset = 100, textureOffset = 200, constantBufferOffset = 300,
                   storageTextureAndBufferOffset = 400\<rparr>"

definition userPool_test :: "Texture list" where
  "userPool_test = [\<lparr>tex_image = 1001, tex_imageView = 1002\<rparr>, \<lparr>tex_image = 1003, tex_imageView = 1004\<rparr>]"


definition wrapper_test :: NRDWrapper where
  "wrapper_test =
     \<lparr>m_iDesc = iDesc_test, m_offsets = offsets_test,
      m_permanentTextures = [\<lparr>tex_image = 1, tex_imageView = 2\<rparr>, \<lparr>tex_image = 3, tex_imageView = 4\<rparr>],
      m_transientTextures = [\<lparr>tex_image = 5, tex_imageView = 6\<rparr>],
      m_userTexturePool = userPool_test,
      m_samplers = [7, 8],
      m_constantBuffer = 9,
      m_pipelines = [\<lparr>numBindings = 6, pipeline = 11, pipelineLayout = 10\<rparr>,
                     \<lparr>numBindings = 3, pipeline = 13, pipelineLayout = 12\<rparr>],
      m_constantBufferSetIndex = 0, m_samplersSetIndex = 0, m_resourcesSetIndex = 0\<rparr>"

definition dispatch_test :: DispatchDesc where
  "dispatch_test =
     \<lparr>dispatch_name = ''test'',
      resources = [\<lparr>res_descriptorType = TEXTURE, res_type = USER_RESOURCE 0, indexInPool = 0\<rparr>,
                   \<lparr>res_descriptorType = TEXTURE, res_type = PERMANENT_POOL, indexInPool = 1\<rparr>,
                   \<lparr>res_descriptorType = STORAGE_TEXTURE, res_type = TRANSIENT_POOL, indexInPool = 0\<rparr>],
      constantBufferData = [1, 2, 3, 4],
      constantBufferDataSize = 4,
      pipelineIndex = 0, gridWidth = 16, gridHeight = 9,
      constantBufferDataMatchesPreviousDispatch = False\<rparr>"


definition dispatch_tail_test :: "VkCommand list" where
  "dispatch_tail_test =
     [CmdPipelineBarrier VK_PIPELINE_STAGE_COMPUTE_SHADER_BIT VK_PIPELINE_STAGE_COMPUTE_SHADER_BIT []
        [transitionToShaderRead 1001, transitionToShaderRead 3, transitionToShaderWrite 5],
      CmdPushDescriptorSetKHR 10 0
        [\<lparr>dstBinding = 200, descriptorCount = 1, wds_descriptorType = VK_DESCRIPTOR_TYPE_SAMPLED_IMAGE,
          pImageInfo = Some 0, pBufferInfo = None\<rparr>,
         \<lparr>dstBinding = 201, descriptorCount = 1, wds_descriptorType = VK_DESCRIPTOR_TYPE_SAMPLED_IMAGE,
          pImageInfo = Some 1, pBufferInfo = None\<rparr>,
         \<lparr>dstBinding = 400, descriptorCount = 1, wds_descriptorType = VK_DESCRIPTOR_TYPE_STORAGE_IMAGE,
          pImageInfo = Some 2, pBufferInfo = None\<rparr>,
         \<lparr>dstBinding = 100, descriptorCount = 1, wds_descriptorType = VK_DESCRIPTOR_TYPE_SAMPLER,
          pImageInfo = Some 3, pBufferInfo = None\<rparr>,
         \<lparr>dstBinding = 101, descriptorCount = 1, wds_descriptorType = VK_DESCRIPTOR_TYPE_SAMPLER,
          pImageInfo = Some 4, pBufferInfo = None\<rparr>,
         \<lparr>dstBinding = 300, descriptorCount = 1, wds_descriptorType = VK_DESCRIPTOR_TYPE_UNIFORM_BUFFER,
          pImageInfo = None, pBufferInfo = Some 9\<rparr>]
        [\<lparr>imageView = 1002, imageLayout = VK_IMAGE_LAYOUT_GENERAL\<rparr>,
         \<lparr>imageView = 4, imageLayout = VK_IMAGE_LAYOUT_GENERAL\<rparr>,
         \<lparr>imageView = 6, imageLayout = VK_IMAGE_LAYOUT_GENERAL\<rparr>,
         zero_VkDescriptorImageInfo, zero_VkDescriptorImageInfo, zero_VkDescriptorImageInfo,
         zero_VkDescriptorImageInfo, zero_VkDescriptorImageInfo],
      CmdBindPipeline 11, CmdDispatch 16 9 1]"

definition device_test :: Device where
  "device_test = \<lparr>images = Map.empty, buffers = [9 \<mapsto> [0, 0, 0, 0, 7]], nextHandle = 13\<rparr>"

text \<open>
  The dispatch \<open>dispatch_test\<close> with a storage texture as its second resource entry, where
  the first pipeline declares a texture.
\<close>

definition dispatch_mismatch :: DispatchDesc where
  "dispatch_mismatch =
     dispatch_test\<lparr>resources :=
       [\<lparr>res_descriptorType = TEXTURE, res_type = USER_RESOURCE 0, indexInPool = 0\<rparr>,
        \<lparr>res_descriptorType = STORAGE_TEXTURE, res_type = PERMANENT_POOL, indexInPool = 1\<rparr>,
        \<lparr>res_descriptorType = STORAGE_TEXTURE, res_type = TRANSIENT_POOL, indexInPool = 0\<rparr>]\<rparr>"

section \<open>Preconditions and a test scene\<close>

text \<open>
  The materials of a scene have unit shading normals when every material the evaluation
  returns has a normal of length one.
\<close>

definition unitNormals :: "'x externals \<Rightarrow> bool" where
  "unitNormals ex \<longleftrightarrow>
     (\<forall>i n t b u. dot (N (evaluateMaterial ex i n t b u)) (N (evaluateMaterial ex i n t b u)) = 1)"

text \<open>
  A concrete scene for instantiating the theorems. In \<open>scene_sky\<close> no ray hits geometry
  and every BSDF sample is an absorption; \<open>mul\<close> is the row vector times the matrix. The
  material is a grey dielectric of roughness 0 whose shading normal \<open>(3/5, 0, -4/5)\<close>
  points away from a viewer on the positive z axis.
\<close>

definition mat_grey :: "unit PbrMaterial" where
  "mat_grey =
     \<lparr>baseColor = Vec3 (1/2) (1/2) (1/2), specularColor = Vec3 1 1 1, emissive = Vec3 0 0 0,
      roughness = Vec2 0 0, metallic = 0, N = Vec3 (3/5) 0 (- 4/5), Ng = Vec3 0 0 1, rest = ()\<rparr>"

definition sample_absorb :: BsdfSampleData where
  "sample_absorb = \<lparr>k2 = Vec3 0 0 1, pdf = 1, bsdf_over_pdf = Vec3 1 1 1, event_type = 0\<rparr>"

definition sample_reflect :: BsdfSampleData where
  "sample_reflect = \<lparr>k2 = Vec3 0 0 1, pdf = 1, bsdf_over_pdf = Vec3 1 1 1, event_type = 1\<rparr>"

definition scene_sky :: "unit externals" where
  "scene_sky =
     \<lparr>NRD_INF = 1000000,
      MICROFACET_MIN_ROUGHNESS = 0.0014142,
      BSDF_EVENT_ABSORB = 0,
      LOBE_DIFFUSE_REFLECTION = 0,
      mul2 = (\<lambda>M v. vec_mat2 v M),
      mul3 = (\<lambda>M v. vec_mat3 v M),
      xxhash32 = (\<lambda>a b c. 0),
      rand = (\<lambda>s. (1/2, s + 1)),
      intersect = (\<lambda>r. None),
      evaluateMaterial = (\<lambda>i n t b u. mat_grey),
      offsetRay = (\<lambda>p n. p),
      bsdfSample = (\<lambda>k xi m. sample_absorb),
      brdf_diffuse_sample = (\<lambda>k xi m c. sample_absorb),
      bsdfEvaluate = (\<lambda>k l xi m. \<lparr>bsdf_diffuse = Vec3 0 0 0, bsdf_glossy = Vec3 0 0 0, ev_pdf = 0\<rparr>),
      computeLobeWeights = (\<lambda>m v c i. 1/2),
      lib_powerHeuristic = powerHeuristic,
      environmentSample = (\<lambda>xi. (Vec4 1 1 1 1, Vec3 0 1 0)),
      rotate_y = (\<lambda>v axis a. v),
      getSphericalUv = (\<lambda>d. Vec2 0 0),
      envTexture = (\<lambda>t. Vec4 1 1 1 1),
      toSrgb = (\<lambda>c. c),
      toLinear = (\<lambda>c. c),
      NRD_FrontEnd_PackNormalAndRoughness = (\<lambda>n r m. vec4_xyz_w n r),
      NRD_FrontEnd_UnpackNormalAndRoughness = (\<lambda>v. v),
      REBLUR_FrontEnd_GetNormHitDist = (\<lambda>d z p r. d),
      REBLUR_FrontEnd_PackRadianceAndNormHitDist = (\<lambda>c d b. vec4_xyz_w c d),
      RELAX_FrontEnd_PackRadianceAndHitDist = (\<lambda>c d b. vec4_xyz_w c d),
      REBLUR_BackEnd_UnpackRadianceAndNormHitDist = (\<lambda>v. v),
      RELAX_BackEnd_UnpackRadiance = (\<lambda>v. v)\<rparr>"

definition mat4_identity :: mat4 where
  "mat4_identity = Mat4 (Vec4 1 0 0 0) (Vec4 0 1 0 0) (Vec4 0 0 1 0) (Vec4 0 0 0 1)"

text \<open>
  A camera at the origin that looks down the negative z axis: the inverse projection
  sends the clip-space point \<open>(x, y, z, 1)\<close> to \<open>(x, y, -1, 1)\<close>.
\<close>

definition frame_test :: FrameInfo where
  "frame_test =
     \<lparr>view = mat4_identity, proj = mat4_identity, viewInv = mat4_identity,
      projInv = Mat4 (Vec4 1 0 0 0) (Vec4 0 1 0 0) (Vec4 0 0 0 0) (Vec4 0 0 (- 1) 1),
      clearColor = Vec4 1 1 1 1, jitter = Vec2 0 0, envRotation = 0\<rparr>"

definition pc_test :: RtxPushConstant where
  "pc_test =
     \<lparr>frame = 0, maxLuminance = 10, maxDepth = 5, pc_method = NRD_REFERENCE,
      meterToUnitsMultiplier = 1, overrideRoughness = - 1, overrideMetallic = - 1,
      mouseCoord = (0, 0)\<rparr>"

definition result_test :: ShadingResult where
  "result_test =
     \<lparr>sr_weight = Vec3 0 0 0, sr_contrib = Vec3 0 0 0, sr_rayOrigin = Vec3 0 0 0,
      sr_rayDirection = Vec3 0 0 0, sr_bsdfPDF = 0\<rparr>"

definition hitState_test :: HitState where
  "hitState_test =
     \<lparr>pos = Vec3 0 0 (- 2), nrm = Vec3 (3/5) 0 (- 4/5), geonrm = Vec3 0 0 1, uv = Vec2 0 0,
      tangent = Vec3 0 1 0, bitangent = Vec3 1 0 0, bitangentSign = 1\<rparr>"

definition payload_test :: HitPayload where
  "payload_test =
     \<lparr>seed = 0, hitT = 0, contrib = Vec3 0 0 0, weight = Vec3 0 0 0, rayOrigin = Vec3 0 0 0,
      rayDirection = Vec3 0 0 0, bsdfPDF = 0\<rparr>"

definition payloadNrd_test :: HitPayloadNrd where
  "payloadNrd_test =
     \<lparr>nrd_renderNodeIndex = 0, nrd_renderPrimIndex = 0, nrd_hitT = 0, nrd_tangent = Vec3 0 0 0,
      normal_envmapRadiance = Vec3 0 0 0, nrd_uv = Vec2 0 0, nrd_bitangentSign = 0\<rparr>"

text \<open>
  Variants of the scene: in \<open>scene_bounce\<close> every BSDF sample is a reflection; in
  \<open>scene_hit\<close> and \<open>scene_hit_bounce\<close> every ray hits a surface at the distance 2.
\<close>

definition scene_bounce :: "unit externals" where
  "scene_bounce = scene_sky\<lparr>bsdfSample := (\<lambda>k xi m. sample_reflect),
                             brdf_diffuse_sample := (\<lambda>k xi m c. sample_reflect)\<rparr>"

definition hit_test :: Hit where
  "hit_test = \<lparr>gl_HitTEXT = 2, gl_InstanceID = 0, gl_InstanceCustomIndexEXT = 0,
               hitState = hitState_test\<rparr>"

definition scene_hit :: "unit externals" where
  "scene_hit = scene_sky\<lparr>intersect := (\<lambda>r. Some hit_test)\<rparr>"

definition scene_hit_bounce :: "unit externals" where
  "scene_hit_bounce = scene_bounce\<lparr>intersect := (\<lambda>r. Some hit_test)\<rparr>"

definition gpu_test :: GpuState where
  "gpu_test = \<lparr>payload = payload_test, payloadNrd = payloadNrd_test, traced = [], stored = []\<rparr>"

text \<open>
  A surface seen near its silhouette: the camera looks down the negative z axis at a
  front-facing triangle with the geometric normal \<open>(4/5, 0, 3/5)\<close>, whose interpolated
  shading normal \<open>(4/5, 0, -3/5)\<close> lies on the same side as the geometric normal but
  points away from the viewer. The material is a grey dielectric of roughness 1. Only the
  primary ray hits the triangle; the environment sample arrives along the x axis with
  diffuse and glossy BSDF values 1. \<open>scene_edge\<close> takes the two readings of \<open>mul\<close> as
  parameters.
\<close>

definition mat_rough :: "unit PbrMaterial" where
  "mat_rough =
     \<lparr>baseColor = Vec3 (1/2) (1/2) (1/2), specularColor = Vec3 1 1 1, emissive = Vec3 0 0 0,
      roughness = Vec2 1 1, metallic = 0, N = Vec3 (4/5) 0 (- 3/5), Ng = Vec3 (4/5) 0 (3/5), rest = ()\<rparr>"

definition hit_edge :: Hit where
  "hit_edge = \<lparr>gl_HitTEXT = 2, gl_InstanceID = 0, gl_InstanceCustomIndexEXT = 0,
               hitState = \<lparr>pos = Vec3 0 0 (- 2), nrm = Vec3 (4/5) 0 (- 3/5), geonrm = Vec3 (4/5) 0 (3/5),
                            uv = Vec2 0 0, tangent = Vec3 0 1 0, bitangent = Vec3 (3/5) 0 (4/5),
                            bitangentSign = 1\<rparr>\<rparr>"

definition scene_edge :: "(mat2 \<Rightarrow> vec2 \<Rightarrow> vec2) \<Rightarrow> (mat3 \<Rightarrow> vec3 \<Rightarrow> vec3) \<Rightarrow> unit externals" where
  "scene_edge m2 m3 =
     scene_sky\<lparr>mul2 := m2, mul3 := m3,
               intersect := (\<lambda>r. if ray_direction r = Vec3 0 0 (- 1) then Some hit_edge else None),
               evaluateMaterial := (\<lambda>i n t b u. mat_rough),
               environmentSample := (\<lambda>xi. (Vec4 1 1 1 1, Vec3 1 0 0)),
               bsdfEvaluate := (\<lambda>k l xi m. \<lparr>bsdf_diffuse = Vec3 1 1 1, bsdf_glossy = Vec3 1 1 1,
                                               ev_pdf = 1\<rparr>)\<rparr>"

text \<open>The push constants with \<open>maxDepth\<close> set to 1 and to 2.\<close>

definition pc_depth1 :: RtxPushConstant where
  "pc_depth1 = pc_test\<lparr>maxDepth := 1\<rparr>"

definition pc_depth2 :: RtxPushConstant where
  "pc_depth2 = pc_test\<lparr>maxDepth := 2\<rparr>"

section \<open>Properties of the power heuristic\<close>

text \<open>
  C7. The power heuristic computes \<open>a\<^sup>2 / (a\<^sup>2 + b\<^sup>2)\<close>. Equal positive densities
  get the weight one half; a density of zero against a positive one gets the weight 0 and
  leaves the weight 1 to the other strategy; and as the density of one strategy tends to
  zero while the other stays positive, its weight tends to 0 and the weight of the other
  strategy tends to 1.
\<close>

theorem powerHeuristic_weight:
  "powerHeuristic a b = a\<^sup>2 / (a\<^sup>2 + b\<^sup>2)
   \<and> (0 < p \<longrightarrow> powerHeuristic p p = 1 / 2)
   \<and> (0 < b \<longrightarrow> powerHeuristic 0 b = 0)
   \<and> (0 < a \<longrightarrow> powerHeuristic a 0 = 1)
   \<and> (0 < b \<longrightarrow> ((\<lambda>x. powerHeuristic x b) \<longlongrightarrow> 0) (at 0))
   \<and> (0 < b \<longrightarrow> ((\<lambda>x. powerHeuristic b x) \<longlongrightarrow> 1) (at 0))"
proof (intro conjI impI)
  show "powerHeuristic a b = a\<^sup>2 / (a\<^sup>2 + b\<^sup>2)"
    by (simp add: powerHeuristic_def Let_def power2_eq_square add.commute)
  show "powerHeuristic p p = 1 / 2" if "0 < p"
    using that by (simp add: powerHeuristic_def Let_def)
  show "powerHeuristic 0 b = 0"
    by (simp add: powerHeuristic_def Let_def)
  show "powerHeuristic a 0 = 1" if "0 < a"
    using that by (simp add: powerHeuristic_def Let_def)
  show "((\<lambda>x. powerHeuristic x b) \<longlongrightarrow> 0) (at 0)" if "0 < b"
  proof -
    have "((\<lambda>x::real. x * x / (b * b + x * x)) \<longlongrightarrow> 0 * 0 / (b * b + 0 * 0)) (at 0)"
      using that by (intro tendsto_intros) simp_all
    then show ?thesis by (simp add: powerHeuristic_def Let_def)
  qed
  show "((\<lambda>x. powerHeuristic b x) \<longlongrightarrow> 1) (at 0)" if "0 < b"
  proof -
    have "((\<lambda>x::real. b * b / (x * x + b * b)) \<longlongrightarrow> b * b / (0 * 0 + b * b)) (at 0)"
      using that by (intro tendsto_intros) simp_all
    then show ?thesis using that by (simp add: powerHeuristic_def Let_def)
  qed
qed

theorem powerHeuristic_weight_witness:
  "powerHeuristic 3 4 = 9 / 25
   \<and> powerHeuristic 2 2 = 1 / 2
   \<and> powerHeuristic 0 4 = 0
   \<and> powerHeuristic 3 0 = 1
   \<and> ((\<lambda>x. powerHeuristic x 4) \<longlongrightarrow> 0) (at 0)
   \<and> ((\<lambda>x. powerHeuristic 4 x) \<longlongrightarrow> 1) (at 0)"
  using powerHeuristic_weight [of 3 4 2] by simp

section \<open>Vectors, reflections and the mirror matrix\<close>

lemmas vec_defs = plus_vec3_def minus_vec3_def times_vec3_def uminus_vec3_def zero_vec3_def
  smul_def vec3_of_def dot_def

lemma buildMirrorMatrix_entries:
  "buildMirrorMatrix n =
     Mat3 (Vec3 (1 - 2 * vx n * vx n) (- 2 * vx n * vy n) (- 2 * vx n * vz n))
          (Vec3 (- 2 * vy n * vx n) (1 - 2 * vy n * vy n) (- 2 * vy n * vz n))
          (Vec3 (- 2 * vz n * vx n) (- 2 * vz n * vy n) (1 - 2 * vz n * vz n))"
  by (simp add: buildMirrorMatrix_def vec_defs)

lemma buildMirrorMatrix_symmetric: "transpose3 (buildMirrorMatrix n) = buildMirrorMatrix n"
  by (simp add: buildMirrorMatrix_entries transpose3_def mult.commute mult.left_commute)

lemma buildMirrorMatrix_reflect: "mat3_vec (buildMirrorMatrix n) d = reflect d n"
  by (simp add: buildMirrorMatrix_entries mat3_vec_def reflect_def vec_defs algebra_simps)

lemma reflect_involution:
  assumes "dot n n = 1"
  shows "reflect (reflect d n) n = d"
proof -
  have u: "vx n * vx n + vy n * vy n + vz n * vz n = 1"
    using assms by (simp add: dot_def)
  have d: "dot n (reflect d n) = - dot n d"
  proof -
    have "dot n (reflect d n) = dot n d - 2 * dot n d * (vx n * vx n + vy n * vy n + vz n * vz n)"
      by (simp add: reflect_def vec_defs algebra_simps)
    then show ?thesis by (simp add: u)
  qed
  show ?thesis
    unfolding reflect_def [of "reflect d n" n] d
    by (cases d) (simp add: reflect_def vec_defs algebra_simps)
qed

lemma reflect_dot:
  assumes "dot n n = 1"
  shows "dot (reflect a n) (reflect b n) = dot a b"
proof -
  have u: "vx n * vx n + vy n * vy n + vz n * vz n = 1"
    using assms by (simp add: dot_def)
  have "dot (reflect a n) (reflect b n) =
          dot a b - 4 * dot n a * dot n b
            + 4 * dot n a * dot n b * (vx n * vx n + vy n * vy n + vz n * vz n)"
    by (simp add: reflect_def vec_defs algebra_simps)
  then show ?thesis by (simp add: u)
qed

lemma mat3_vec_mul: "mat3_vec (mat3_mul A B) v = mat3_vec A (mat3_vec B v)"
  by (simp add: mat3_mul_def mat3_vec_def vec_defs algebra_simps)

lemma mat3_eqI:
  assumes "\<And>v. mat3_vec A v = mat3_vec B v"
  shows "A = B"
proof -
  have "mat3_vec A (Vec3 1 0 0) = mat3_vec B (Vec3 1 0 0)"
       "mat3_vec A (Vec3 0 1 0) = mat3_vec B (Vec3 0 1 0)"
       "mat3_vec A (Vec3 0 0 1) = mat3_vec B (Vec3 0 0 1)"
    using assms by blast+
  then show ?thesis
    by (cases A; cases B) (simp add: mat3_vec_def vec_defs vec3.expand)
qed

lemma mat3_vec_id: "mat3_vec (mat3_of 1) v = v"
  by (simp add: mat3_vec_def mat3_of_def vec_defs)

lemma buildMirrorMatrix_involution:
  assumes "dot n n = 1"
  shows "mat3_mul (buildMirrorMatrix n) (buildMirrorMatrix n) = mat3_of 1"
  by (rule mat3_eqI)
     (simp add: mat3_vec_mul buildMirrorMatrix_reflect reflect_involution assms mat3_vec_id)

section \<open>The primary-surface-replacement loop\<close>

text \<open>A ray of STEP 1 runs one of the two NRD shaders and touches only \<open>payloadNrd\<close>.\<close>

lemma traceRayEXT_psrRay:
  "traceRayEXT (Suc d) ex frameInfo pc res (psrRay org dir) g =
     g\<lparr>traced := traced g @ [psrRay org dir],
       payloadNrd := (case intersect ex (psrRay org dir) of
                        None \<Rightarrow> nrd_rmiss_main ex frameInfo dir (payloadNrd g)
                      | Some h \<Rightarrow> nrd_rchit_main h (payloadNrd g))\<rparr>"
  by (simp add: traceRayEXT.simps psrRay_def Let_def SBTOFFSET_NRD_def MISSINDEX_NRD_def
      gl_RayFlagsCullBackFacingTrianglesEXT_def gl_RayFlagsSkipClosestHitShaderEXT_def
      split: option.splits)

lemma psr_trace_fields [simp]:
  "traced (gpu (psr_trace ex frameInfo pc res v)) = traced (gpu v) @ [psrRay (origin v) (direction v)]"
  "stored (gpu (psr_trace ex frameInfo pc res v)) = stored (gpu v)"
  "payload (gpu (psr_trace ex frameInfo pc res v)) = payload (gpu v)"
  "origin (psr_trace ex frameInfo pc res v) = origin v"
  "direction (psr_trace ex frameInfo pc res v) = direction v"
  "pbrMat (psr_trace ex frameInfo pc res v) = pbrMat v"
  "isPsr (psr_trace ex frameInfo pc res v) = isPsr v"
  "psrThroughput (psr_trace ex frameInfo pc res v) = psrThroughput v"
  "psrDirectRadiance (psr_trace ex frameInfo pc res v) = psrDirectRadiance v"
  "psrMirror (psr_trace ex frameInfo pc res v) = psrMirror v"
  "hitSky (psr_trace ex frameInfo pc res v) \<longleftrightarrow>
     nrd_hitT (payloadNrd (gpu (psr_trace ex frameInfo pc res v))) = NRD_INF ex"
  by (simp_all add: psr_trace_def maxPipelineRayRecursionDepth_def numeral_2_eq_2
      traceRayEXT_psrRay Let_def)

lemma psr_hit_fields [simp]:
  "gpu (psr_hit ex pc v) = gpu v"
  "direction (psr_hit ex pc v) = direction v"
  "hitSky (psr_hit ex pc v) = hitSky v"
  "isPsr (psr_hit ex pc v) = isPsr v"
  "psrThroughput (psr_hit ex pc v) = psrThroughput v"
  "psrDirectRadiance (psr_hit ex pc v) = psrDirectRadiance v"
  "psrMirror (psr_hit ex pc v) = psrMirror v"
  by (simp_all add: psr_hit_def Let_def split: prod.splits)

lemma psr_hit_N:
  "N (pbrMat (psr_hit ex pc v)) =
     N (evaluateMaterial ex (nrd_renderNodeIndex (payloadNrd (gpu v)))
          (normal_envmapRadiance (payloadNrd (gpu v))) (nrd_tangent (payloadNrd (gpu v)))
          (cross (normal_envmapRadiance (payloadNrd (gpu v))) (nrd_tangent (payloadNrd (gpu v))))
          (nrd_uv (payloadNrd (gpu v))))"
  by (simp add: psr_hit_def buildHitInfo_def Let_def)

lemma psr_mirror_fields [simp]:
  "traced (gpu (psr_mirror ex v)) = traced (gpu v)"
  "stored (gpu (psr_mirror ex v)) = stored (gpu v)"
  "payloadNrd (gpu (psr_mirror ex v)) = payloadNrd (gpu v)"
  "pbrMat (psr_mirror ex v) = pbrMat v"
  "hitSky (psr_mirror ex v) = hitSky v"
  "isPsr (psr_mirror ex v) = True"
  "psrMirror (psr_mirror ex v) = mat3_mul (psrMirror v) (buildMirrorMatrix (N (pbrMat v)))"
  "direction (psr_mirror ex v) = reflect (direction v) (N (pbrMat v))"
  by (simp_all add: psr_mirror_def Let_def split: prod.splits)

lemma psr_sky_fields [simp]:
  "gpu (psr_sky v) = gpu v"
  "hitSky (psr_sky v) = hitSky v"
  "isPsr (psr_sky v) = isPsr v"
  "psrDepth (psr_sky v) = psrDepth v"
  "pbrMat (psr_sky v) = pbrMat v"
  "psrMirror (psr_sky v) = psrMirror v"
  "direction (psr_sky v) = direction v"
  "psrThroughput (psr_sky v) = psrThroughput v"
  "psrDirectRadiance (psr_sky v) =
     psrDirectRadiance v + psrThroughput v * normal_envmapRadiance (payloadNrd (gpu v))"
  by (simp_all add: psr_sky_def)

lemma rgen_init_fields [simp]:
  "psrDepth (rgen_init ex frameInfo pc pm hs pl pln lid lsz) = 0"
  "traced (gpu (rgen_init ex frameInfo pc pm hs pl pln lid lsz)) = []"
  "stored (gpu (rgen_init ex frameInfo pc pm hs pl pln lid lsz)) = []"
  "psrMirror (rgen_init ex frameInfo pc pm hs pl pln lid lsz) = mat3_of 1"
  "isPsr (rgen_init ex frameInfo pc pm hs pl pln lid lsz) = False"
  "psrThroughput (rgen_init ex frameInfo pc pm hs pl pln lid lsz) = vec3_of 1"
  "psrDirectRadiance (rgen_init ex frameInfo pc pm hs pl pln lid lsz) = vec3_of 0"
  "direction (rgen_init ex frameInfo pc pm hs pl pln lid lsz) = rgen_camera_direction frameInfo lid lsz"
  "origin (rgen_init ex frameInfo pc pm hs pl pln lid lsz) = rgen_camera_origin frameInfo"
  by (simp_all add: rgen_init_def)

text \<open>
  Induction along the loop: to show \<open>P\<close> for every state in which the loop may be entered,
  show it for a state from the fact that it holds for the state in which the loop is
  entered again, if it is.
\<close>

lemma psr_loop_pieces_induct [case_names step]:
  assumes "\<And>v0.
             (\<not> hitSky (psr_trace ex frameInfo pc res v0) \<Longrightarrow>
              \<not> notMirror ex (pbrMat (psr_hit ex pc (psr_trace ex frameInfo pc res v0))) \<Longrightarrow>
              psrDepth v0 < 4 \<Longrightarrow>
              P (psr_mirror ex (psr_hit ex pc (psr_trace ex frameInfo pc res v0))))
             \<Longrightarrow> P v0"
  shows "P v"
proof (induction "nat (5 - psrDepth v)" arbitrary: v rule: less_induct)
  case less
  show ?case
  proof (rule assms)
    assume "psrDepth v < 4"
    then show "P (psr_mirror ex (psr_hit ex pc (psr_trace ex frameInfo pc res v)))"
      by (intro less) simp
  qed
qed

lemma psr_loop_sky_step:
  "hitSky (psr_trace ex frameInfo pc res v) \<Longrightarrow>
   psr_loop ex frameInfo pc res v = psr_sky (psr_trace ex frameInfo pc res v)"
  by (subst psr_loop.simps) (simp add: Let_def)

lemma psr_loop_count:
  "psrDepth v \<le> 4 \<Longrightarrow>
   (let vf = psr_loop ex frameInfo pc res v
    in psrDepth v \<le> psrDepth vf \<and> psrDepth vf \<le> 5
       \<and> (hitSky vf \<or> notMirror ex (pbrMat vf) \<or> psrDepth vf = 5)
       \<and> int (length (traced (gpu vf))) =
           int (length (traced (gpu v))) + (psrDepth vf - psrDepth v)
             + (if psrDepth vf = 5 \<and> \<not> hitSky vf \<and> \<not> notMirror ex (pbrMat vf) then 0 else 1)
       \<and> (hitSky vf \<or> notMirror ex (pbrMat vf) \<longrightarrow> psrDepth vf \<le> 4))"
proof (induction v rule: psr_loop_pieces_induct [where ex = ex and frameInfo = frameInfo and pc = pc and res = res])
  case (step v0)
  let ?v1 = "psr_trace ex frameInfo pc res v0"
  let ?v2 = "psr_hit ex pc ?v1"
  let ?v3 = "psr_mirror ex ?v2"
  show ?case
  proof (cases "hitSky ?v1")
    case True
    then show ?thesis using step.prems
      by (subst psr_loop.simps) (simp add: Let_def)
  next
    case sky: False
    show ?thesis
    proof (cases "notMirror ex (pbrMat ?v2)")
      case True
      then show ?thesis using sky step.prems
        by (subst psr_loop.simps) (simp add: Let_def)
    next
      case mir: False
      show ?thesis
      proof (cases "psrDepth v0 < 4")
        case True
        have ih: "let vf = psr_loop ex frameInfo pc res ?v3
                  in psrDepth ?v3 \<le> psrDepth vf \<and> psrDepth vf \<le> 5
                     \<and> (hitSky vf \<or> notMirror ex (pbrMat vf) \<or> psrDepth vf = 5)
                     \<and> int (length (traced (gpu vf))) =
                         int (length (traced (gpu ?v3))) + (psrDepth vf - psrDepth ?v3)
                           + (if psrDepth vf = 5 \<and> \<not> hitSky vf \<and> \<not> notMirror ex (pbrMat vf) then 0 else 1)
                     \<and> (hitSky vf \<or> notMirror ex (pbrMat vf) \<longrightarrow> psrDepth vf \<le> 4)"
          using step.IH [OF sky mir True] True by simp
        have eq: "psr_loop ex frameInfo pc res v0 = psr_loop ex frameInfo pc res ?v3"
          using sky mir True by (subst psr_loop.simps) (simp add: Let_def)
        show ?thesis
          unfolding eq using ih by (simp add: Let_def)
      next
        case False
        with step.prems have d: "psrDepth v0 = 4" by simp
        have eq: "psr_loop ex frameInfo pc res v0 = ?v3"
          using sky mir d by (subst psr_loop.simps) (simp add: Let_def)
        show ?thesis
          unfolding eq using sky mir d by (simp add: Let_def)
      qed
    qed
  qed
qed

lemma psr_loop_isPsr_bound:
  "psrDepth v \<le> 4 \<Longrightarrow>
   (let vf = psr_loop ex frameInfo pc res v
    in hitSky vf \<or> notMirror ex (pbrMat vf) \<or> (psrDepth vf = 5 \<and> isPsr vf))"
proof (induction v rule: psr_loop_pieces_induct [where ex = ex and frameInfo = frameInfo and pc = pc and res = res])
  case (step v0)
  let ?v1 = "psr_trace ex frameInfo pc res v0"
  let ?v2 = "psr_hit ex pc ?v1"
  let ?v3 = "psr_mirror ex ?v2"
  show ?case
  proof (cases "hitSky ?v1 \<or> notMirror ex (pbrMat ?v2)")
    case True
    then show ?thesis
      by (subst psr_loop.simps) (auto simp add: Let_def)
  next
    case False
    then have sky: "\<not> hitSky ?v1" and mir: "\<not> notMirror ex (pbrMat ?v2)" by auto
    show ?thesis
    proof (cases "psrDepth v0 < 4")
      case True
      have eq: "psr_loop ex frameInfo pc res v0 = psr_loop ex frameInfo pc res ?v3"
        using sky mir True by (subst psr_loop.simps) (simp add: Let_def)
      show ?thesis
        unfolding eq using step.IH [OF sky mir True] True by simp
    next
      case False
      with step.prems have d: "psrDepth v0 = 4" by simp
      have eq: "psr_loop ex frameInfo pc res v0 = ?v3"
        using sky mir d by (subst psr_loop.simps) (simp add: Let_def)
      show ?thesis
        unfolding eq using d by (simp add: Let_def)
    qed
  qed
qed

text \<open>
  C4. The primary-surface-replacement loop of \<open>main\<close> is a total function of the scene
  and the inputs, whatever materials the scene returns: it traces at least one and at
  most five rays, \<open>psrDepth\<close> ends between 0 and 5, and it ends because the ray reached
  the sky, or the surface hit is not a mirror, or five mirrors have been followed; in
  the last case the result is an ordinary state (with \<open>isPsr\<close> set), not an error.
\<close>

theorem psr_loop_bounded:
  "let v0 = rgen_init ex frameInfo pc pbrMatU hitStateU payloadU payloadNrdU gl_LaunchID gl_LaunchSize;
       vf = psr_loop ex frameInfo pc resultU v0;
       n = length (traced (gpu vf))
   in 1 \<le> n \<and> n \<le> 5 \<and> 0 \<le> psrDepth vf \<and> psrDepth vf \<le> 5 \<and> psrDepth vf \<le> int n
      \<and> (hitSky vf \<or> notMirror ex (pbrMat vf) \<or> (psrDepth vf = 5 \<and> isPsr vf))"
proof -
  let ?v0 = "rgen_init ex frameInfo pc pbrMatU hitStateU payloadU payloadNrdU gl_LaunchID gl_LaunchSize"
  have d: "psrDepth ?v0 \<le> 4" by simp
  from psr_loop_count [OF d, of ex frameInfo pc resultU]
       psr_loop_isPsr_bound [OF d, of ex frameInfo pc resultU]
  show ?thesis
    by (simp add: Let_def split: if_splits) (auto)
qed

theorem psr_loop_bounded_witness:
  "let v0 = rgen_init scene_sky frame_test pc_test mat_grey hitState_test payload_test
              payloadNrd_test (0, 0) (1, 1);
       vf = psr_loop scene_sky frame_test pc_test result_test v0;
       n = length (traced (gpu vf))
   in 1 \<le> n \<and> n \<le> 5 \<and> 0 \<le> psrDepth vf \<and> psrDepth vf \<le> 5 \<and> psrDepth vf \<le> int n
      \<and> (hitSky vf \<or> notMirror scene_sky (pbrMat vf) \<or> (psrDepth vf = 5 \<and> isPsr vf))"
  by (rule psr_loop_bounded)

section \<open>The early out for a background pixel\<close>

lemma psr_trace_miss:
  assumes "intersect ex (psrRay (origin v) (direction v)) = None"
  shows "payloadNrd (gpu (psr_trace ex frameInfo pc res v)) =
           nrd_rmiss_main ex frameInfo (direction v) ((payloadNrd (gpu v))\<lparr>nrd_hitT := 0\<rparr>)"
  using assms
  by (simp add: psr_trace_def maxPipelineRayRecursionDepth_def numeral_2_eq_2
      traceRayEXT_psrRay Let_def)

lemma nrd_rmiss_main_fields [simp]:
  "nrd_hitT (nrd_rmiss_main ex frameInfo dir p) = NRD_INF ex"
  "normal_envmapRadiance (nrd_rmiss_main ex frameInfo dir p) =
     xyz (envTexture ex (getSphericalUv ex (rotate_y ex dir (Vec3 0 1 0) (- envRotation frameInfo))))
       * xyz (clearColor frameInfo)"
  by (simp_all add: nrd_rmiss_main_def Let_def)

lemma psr_loop_miss:
  assumes "intersect ex (psrRay (origin v) (direction v)) = None"
  shows "psr_loop ex frameInfo pc res v = psr_sky (psr_trace ex frameInfo pc res v)"
    and "hitSky (psr_trace ex frameInfo pc res v)"
proof -
  show "hitSky (psr_trace ex frameInfo pc res v)"
    by (simp add: psr_trace_miss [OF assms])
  then show "psr_loop ex frameInfo pc res v = psr_sky (psr_trace ex frameInfo pc res v)"
    by (rule psr_loop_sky_step)
qed

text \<open>What the loop leaves alone, and what every ray it traces looks like.\<close>

lemma psr_loop_effects:
  "let vf = psr_loop ex frameInfo pc res v
   in stored (gpu vf) = stored (gpu v)
      \<and> (\<exists>rs. traced (gpu vf) = traced (gpu v) @ rs
                \<and> (\<forall>r \<in> set rs. sbtRecordOffset r = SBTOFFSET_NRD \<and> missIndex r = MISSINDEX_NRD))
      \<and> (hitSky vf \<longleftrightarrow> nrd_hitT (payloadNrd (gpu vf)) = NRD_INF ex)"
proof (induction v rule: psr_loop_pieces_induct [where ex = ex and frameInfo = frameInfo and pc = pc and res = res])
  case (step v0)
  let ?v1 = "psr_trace ex frameInfo pc res v0"
  let ?v2 = "psr_hit ex pc ?v1"
  let ?v3 = "psr_mirror ex ?v2"
  have ray: "sbtRecordOffset (psrRay (origin v0) (direction v0)) = SBTOFFSET_NRD
             \<and> missIndex (psrRay (origin v0) (direction v0)) = MISSINDEX_NRD"
    by (simp add: psrRay_def)
  show ?case
  proof (cases "hitSky ?v1")
    case True
    then show ?thesis using ray
      by (subst psr_loop.simps) (simp add: Let_def)
  next
    case sky: False
    show ?thesis
    proof (cases "notMirror ex (pbrMat ?v2)")
      case True
      then show ?thesis using sky ray
        by (subst psr_loop.simps) (simp add: Let_def)
    next
      case mir: False
      show ?thesis
      proof (cases "psrDepth v0 < 4")
        case True
        have eq: "psr_loop ex frameInfo pc res v0 = psr_loop ex frameInfo pc res ?v3"
          using sky mir True by (subst psr_loop.simps) (simp add: Let_def)
        from step.IH [OF sky mir True] obtain rs where
          st: "stored (gpu (psr_loop ex frameInfo pc res ?v3)) = stored (gpu v0)"
          and tr: "traced (gpu (psr_loop ex frameInfo pc res ?v3))
                   = (traced (gpu v0) @ [psrRay (origin v0) (direction v0)]) @ rs"
          and rs: "\<forall>r \<in> set rs. sbtRecordOffset r = SBTOFFSET_NRD \<and> missIndex r = MISSINDEX_NRD"
          and hs: "hitSky (psr_loop ex frameInfo pc res ?v3) \<longleftrightarrow>
                   nrd_hitT (payloadNrd (gpu (psr_loop ex frameInfo pc res ?v3))) = NRD_INF ex"
          by (auto simp add: Let_def)
        have "\<exists>rs'. traced (gpu (psr_loop ex frameInfo pc res ?v3)) = traced (gpu v0) @ rs'
                 \<and> (\<forall>r \<in> set rs'. sbtRecordOffset r = SBTOFFSET_NRD \<and> missIndex r = MISSINDEX_NRD)"
          using tr rs ray by (intro exI [of _ "psrRay (origin v0) (direction v0) # rs"]) simp
        then show ?thesis
          unfolding eq using st hs by (simp add: Let_def)
      next
        case False
        have eq: "psr_loop ex frameInfo pc res v0 = ?v3"
          using sky mir False by (subst psr_loop.simps) (simp add: Let_def)
        show ?thesis
          unfolding eq using sky ray by (simp add: Let_def)
      qed
    qed
  qed
qed

lemma imageStore_fields [simp]:
  "stored (imageStore img val g) = stored g @ [(img, val)]"
  "traced (imageStore img val g) = traced g"
  "payload (imageStore img val g) = payload g"
  "payloadNrd (imageStore img val g) = payloadNrd g"
  by (simp_all add: imageStore_def)

lemma rgen_sky_out_fields:
  "stored (rgen_sky_out ex v) =
     stored (gpu v) @
       [(nrdDirectLighting, vec4_xyz_w (psrDirectRadiance v) 0),
        (nrdUDiff, vec4_of 0), (nrdUSpec, vec4_of 0), (nrdNormalRoughness, vec4_of 0),
        (nrdViewZ, vec4_of (- NRD_INF ex))]"
  "traced (rgen_sky_out ex v) = traced (gpu v)"
  "payload (rgen_sky_out ex v) = payload (gpu v)"
  by (simp_all add: rgen_sky_out_def Let_def)

text \<open>
  C6. First, the pass of the loop whose ray misses all geometry: the loop ends there with
  \<open>hitSky\<close>, the throughput unchanged, and the radiance of the environment (the texel
  times the clear colour, as nrd.rmiss returns it) times the accumulated throughput added
  to \<open>psrDirectRadiance\<close>. Second, \<open>main\<close> when the loop ended at the sky, which is when
  \<open>payloadNrd.hitT\<close> equals \<open>NRD_INF\<close>: it stores exactly five values, the accumulated
  radiance with alpha 0 to the direct-lighting image, zeros to the unfiltered diffuse,
  unfiltered specular and normal/roughness images, and \<open>-NRD_INF\<close>, whose magnitude is
  that of \<open>NRD_INF\<close>, to the ViewZ image; the only rays of the invocation are the at most
  five rays of the loop, all traced with the NRD shaders, and the path-tracing payload is
  as the loop left it.
\<close>

theorem background_pixel_early_out:
  "(intersect ex (psrRay (origin v) (direction v)) = None \<longrightarrow>
      hitSky (psr_loop ex frameInfo pc resultU v)
      \<and> psrThroughput (psr_loop ex frameInfo pc resultU v) = psrThroughput v
      \<and> psrDirectRadiance (psr_loop ex frameInfo pc resultU v) =
          psrDirectRadiance v + psrThroughput v *
            (xyz (envTexture ex (getSphericalUv ex
                    (rotate_y ex (direction v) (Vec3 0 1 0) (- envRotation frameInfo))))
               * xyz (clearColor frameInfo)))
   \<and> (let vf = psr_loop ex frameInfo pc resultU
                  (rgen_init ex frameInfo pc pbrMatU hitStateU payloadU payloadNrdU gl_LaunchID gl_LaunchSize);
           g = rgen_main ex frameInfo pc resultU pbrMatU hitStateU payloadU payloadNrdU
                 gl_LaunchID gl_LaunchSize
       in hitSky vf \<longrightarrow>
            nrd_hitT (payloadNrd (gpu vf)) = NRD_INF ex
            \<and> stored g =
                [(nrdDirectLighting, vec4_xyz_w (psrDirectRadiance vf) 0),
                 (nrdUDiff, Vec4 0 0 0 0), (nrdUSpec, Vec4 0 0 0 0),
                 (nrdNormalRoughness, Vec4 0 0 0 0),
                 (nrdViewZ, Vec4 (- NRD_INF ex) (- NRD_INF ex) (- NRD_INF ex) (- NRD_INF ex))]
            \<and> \<bar>x4 (snd (last (stored g)))\<bar> = \<bar>NRD_INF ex\<bar>
            \<and> traced g = traced (gpu vf)
            \<and> length (traced g) \<le> 5
            \<and> (\<forall>r \<in> set (traced g). sbtRecordOffset r = SBTOFFSET_NRD \<and> missIndex r = MISSINDEX_NRD)
            \<and> payload g = payload (gpu vf))"
proof (intro conjI impI)
  assume miss: "intersect ex (psrRay (origin v) (direction v)) = None"
  note eq = psr_loop_miss(1) [OF miss, of frameInfo pc resultU]
  show "hitSky (psr_loop ex frameInfo pc resultU v)"
    unfolding eq using psr_loop_miss(2) [OF miss, of frameInfo pc resultU] by simp
  show "psrThroughput (psr_loop ex frameInfo pc resultU v) = psrThroughput v"
    unfolding eq by simp
  show "psrDirectRadiance (psr_loop ex frameInfo pc resultU v) =
          psrDirectRadiance v + psrThroughput v *
            (xyz (envTexture ex (getSphericalUv ex
                    (rotate_y ex (direction v) (Vec3 0 1 0) (- envRotation frameInfo))))
               * xyz (clearColor frameInfo))"
    unfolding eq by (simp add: psr_trace_miss [OF miss])
next
  let ?v0 = "rgen_init ex frameInfo pc pbrMatU hitStateU payloadU payloadNrdU gl_LaunchID gl_LaunchSize"
  let ?vf = "psr_loop ex frameInfo pc resultU ?v0"
  let ?g = "rgen_main ex frameInfo pc resultU pbrMatU hitStateU payloadU payloadNrdU
              gl_LaunchID gl_LaunchSize"
  have main: "hitSky ?vf \<Longrightarrow> ?g = rgen_sky_out ex ?vf"
    by (simp add: rgen_main_def Let_def)
  from psr_loop_effects [of ex frameInfo pc resultU ?v0] obtain rs where
    st: "stored (gpu ?vf) = []" and tr: "traced (gpu ?vf) = rs"
    and rs: "\<forall>r \<in> set rs. sbtRecordOffset r = SBTOFFSET_NRD \<and> missIndex r = MISSINDEX_NRD"
    and hs: "hitSky ?vf \<longleftrightarrow> nrd_hitT (payloadNrd (gpu ?vf)) = NRD_INF ex"
    by (auto simp add: Let_def)
  have "psrDepth ?v0 \<le> 4" by simp
  from psr_loop_count [OF this, of ex frameInfo pc resultU]
  have n: "length (traced (gpu ?vf)) \<le> 5"
    by (simp add: Let_def split: if_splits) (auto)
  show "let vf = ?vf; g = ?g
        in hitSky vf \<longrightarrow>
            nrd_hitT (payloadNrd (gpu vf)) = NRD_INF ex
            \<and> stored g =
                [(nrdDirectLighting, vec4_xyz_w (psrDirectRadiance vf) 0),
                 (nrdUDiff, Vec4 0 0 0 0), (nrdUSpec, Vec4 0 0 0 0),
                 (nrdNormalRoughness, Vec4 0 0 0 0),
                 (nrdViewZ, Vec4 (- NRD_INF ex) (- NRD_INF ex) (- NRD_INF ex) (- NRD_INF ex))]
            \<and> \<bar>x4 (snd (last (stored g)))\<bar> = \<bar>NRD_INF ex\<bar>
            \<and> traced g = traced (gpu vf)
            \<and> length (traced g) \<le> 5
            \<and> (\<forall>r \<in> set (traced g). sbtRecordOffset r = SBTOFFSET_NRD \<and> missIndex r = MISSINDEX_NRD)
            \<and> payload g = payload (gpu vf)"
    using st tr rs hs n
    by (simp add: Let_def main rgen_sky_out_fields vec4_of_def)
qed

text \<open>
  In the test scene no ray hits geometry: the first ray of the loop reaches the sky, and
  the pixel gets the radiance of the environment, which is \<open>(1, 1, 1)\<close> there.
\<close>

theorem background_pixel_early_out_witness:
  "intersect scene_sky
     (psrRay (origin (rgen_init scene_sky frame_test pc_test mat_grey hitState_test payload_test
                        payloadNrd_test (0, 0) (1, 1)))
             (direction (rgen_init scene_sky frame_test pc_test mat_grey hitState_test payload_test
                           payloadNrd_test (0, 0) (1, 1)))) = None
   \<and> hitSky (psr_loop scene_sky frame_test pc_test result_test
               (rgen_init scene_sky frame_test pc_test mat_grey hitState_test payload_test
                  payloadNrd_test (0, 0) (1, 1)))
   \<and> stored (rgen_main scene_sky frame_test pc_test result_test mat_grey hitState_test payload_test
               payloadNrd_test (0, 0) (1, 1)) =
       [(nrdDirectLighting, Vec4 1 1 1 0),
        (nrdUDiff, Vec4 0 0 0 0), (nrdUSpec, Vec4 0 0 0 0), (nrdNormalRoughness, Vec4 0 0 0 0),
        (nrdViewZ, Vec4 (- 1000000) (- 1000000) (- 1000000) (- 1000000))]
   \<and> length (traced (rgen_main scene_sky frame_test pc_test result_test mat_grey hitState_test
                        payload_test payloadNrd_test (0, 0) (1, 1))) \<le> 5"
proof -
  let ?v0 = "rgen_init scene_sky frame_test pc_test mat_grey hitState_test payload_test
               payloadNrd_test (0, 0) (1, 1)"
  have miss: "intersect scene_sky (psrRay (origin ?v0) (direction ?v0)) = None"
    by (simp add: scene_sky_def)
  have vals: "NRD_INF scene_sky = 1000000"
    "envTexture scene_sky = (\<lambda>t. Vec4 1 1 1 1)" "clearColor frame_test = Vec4 1 1 1 1"
    by (simp_all add: scene_sky_def frame_test_def)
  note th = background_pixel_early_out [of scene_sky ?v0 frame_test pc_test result_test
      mat_grey hitState_test payload_test payloadNrd_test "(0, 0)" "(1, 1)"]
  from th miss have sky: "hitSky (psr_loop scene_sky frame_test pc_test result_test ?v0)"
    by simp
  from th miss have rad: "psrDirectRadiance (psr_loop scene_sky frame_test pc_test result_test ?v0)
                          = Vec3 1 1 1"
    by (simp add: vals vec_defs xyz_def)
  from th sky have
    "stored (rgen_main scene_sky frame_test pc_test result_test mat_grey hitState_test payload_test
               payloadNrd_test (0, 0) (1, 1)) =
       [(nrdDirectLighting, Vec4 1 1 1 0),
        (nrdUDiff, Vec4 0 0 0 0), (nrdUSpec, Vec4 0 0 0 0), (nrdNormalRoughness, Vec4 0 0 0 0),
        (nrdViewZ, Vec4 (- 1000000) (- 1000000) (- 1000000) (- 1000000))]"
    and "length (traced (rgen_main scene_sky frame_test pc_test result_test mat_grey hitState_test
                           payload_test payloadNrd_test (0, 0) (1, 1))) \<le> 5"
    by (auto simp add: Let_def rad vals vec4_xyz_w_def)
  with miss sky show ?thesis
    by simp
qed

section \<open>The composed mirror matrix\<close>

lemma psr_loop_keeps_isPsr:
  "isPsr v \<Longrightarrow> isPsr (psr_loop ex frameInfo pc res v)"
proof (induction v rule: psr_loop_pieces_induct [where ex = ex and frameInfo = frameInfo and pc = pc and res = res])
  case (step v0)
  then show ?case
    by (subst psr_loop.simps) (simp add: Let_def)
qed

lemma psr_loop_mirror:
  assumes un: "unitNormals ex"
  shows "let vf = psr_loop ex frameInfo pc res v
         in mat3_vec (psrMirror vf) (direction vf) = mat3_vec (psrMirror v) (direction v)
            \<and> ((\<forall>a b. dot (mat3_vec (psrMirror v) a) (mat3_vec (psrMirror v) b) = dot a b) \<longrightarrow>
                (\<forall>a b. dot (mat3_vec (psrMirror vf) a) (mat3_vec (psrMirror vf) b) = dot a b))
            \<and> (isPsr vf \<or> psrMirror vf = psrMirror v)"
proof (induction v rule: psr_loop_pieces_induct [where ex = ex and frameInfo = frameInfo and pc = pc and res = res])
  case (step v0)
  let ?v1 = "psr_trace ex frameInfo pc res v0"
  let ?v2 = "psr_hit ex pc ?v1"
  let ?v3 = "psr_mirror ex ?v2"
  let ?n = "N (pbrMat ?v2)"
  have unit: "dot ?n ?n = 1"
    using un by (simp add: psr_hit_N unitNormals_def)
  have inv3: "mat3_vec (psrMirror ?v3) (direction ?v3) = mat3_vec (psrMirror v0) (direction v0)"
    by (simp add: mat3_vec_mul buildMirrorMatrix_reflect reflect_involution [OF unit])
  have orth3: "(\<forall>a b. dot (mat3_vec (psrMirror ?v3) a) (mat3_vec (psrMirror ?v3) b) = dot a b)"
    if "\<forall>a b. dot (mat3_vec (psrMirror v0) a) (mat3_vec (psrMirror v0) b) = dot a b"
    using that by (simp add: mat3_vec_mul buildMirrorMatrix_reflect reflect_dot [OF unit])
  show ?case
  proof (cases "hitSky ?v1")
    case True
    then show ?thesis
      by (subst psr_loop.simps) (simp add: Let_def)
  next
    case sky: False
    show ?thesis
    proof (cases "notMirror ex (pbrMat ?v2)")
      case True
      then show ?thesis using sky
        by (subst psr_loop.simps) (simp add: Let_def)
    next
      case mir: False
      show ?thesis
      proof (cases "psrDepth v0 < 4")
        case True
        have eq: "psr_loop ex frameInfo pc res v0 = psr_loop ex frameInfo pc res ?v3"
          using sky mir True by (subst psr_loop.simps) (simp add: Let_def)
        have "isPsr (psr_loop ex frameInfo pc res ?v3)"
          by (rule psr_loop_keeps_isPsr) simp
        then show ?thesis
          unfolding eq using step.IH [OF sky mir True] inv3 orth3 by (simp add: Let_def)
      next
        case False
        have eq: "psr_loop ex frameInfo pc res v0 = ?v3"
          using sky mir False by (subst psr_loop.simps) (simp add: Let_def)
        show ?thesis
          unfolding eq using inv3 orth3 by (simp add: Let_def)
      qed
    qed
  qed
qed

text \<open>
  C10. For every vector \<open>n\<close>, \<open>buildMirrorMatrix n\<close> is the matrix \<open>I - 2 n n\<^sup>T\<close>, it is
  symmetric, and applied to a direction \<open>d\<close> it gives \<open>d - 2 (d \<cdot> n) n\<close>, which is
  \<open>reflect(d, n)\<close>. For a unit vector \<open>n\<close> it is its own inverse and orthogonal. In a scene
  whose materials have unit shading normals, the product \<open>psrMirror\<close> that the loop of
  STEP 1 composes takes the direction in which the loop left the last mirror back to the
  direction of the camera ray, it preserves the dot product (so it takes unit normals to
  unit normals), and it is the identity when no mirror was hit (\<open>isPsr\<close> is false).
\<close>

theorem mirror_matrix_householder:
  "buildMirrorMatrix n =
     Mat3 (Vec3 (1 - 2 * vx n * vx n) (- 2 * vx n * vy n) (- 2 * vx n * vz n))
          (Vec3 (- 2 * vy n * vx n) (1 - 2 * vy n * vy n) (- 2 * vy n * vz n))
          (Vec3 (- 2 * vz n * vx n) (- 2 * vz n * vy n) (1 - 2 * vz n * vz n))
   \<and> transpose3 (buildMirrorMatrix n) = buildMirrorMatrix n
   \<and> mat3_vec (buildMirrorMatrix n) d = d - smul (2 * dot d n) n
   \<and> mat3_vec (buildMirrorMatrix n) d = reflect d n
   \<and> (dot n n = 1 \<longrightarrow>
        mat3_mul (buildMirrorMatrix n) (buildMirrorMatrix n) = mat3_of 1
        \<and> mat3_mul (transpose3 (buildMirrorMatrix n)) (buildMirrorMatrix n) = mat3_of 1)
   \<and> (unitNormals ex \<longrightarrow>
        (let v0 = rgen_init ex frameInfo pc pbrMatU hitStateU payloadU payloadNrdU gl_LaunchID gl_LaunchSize;
             vf = psr_loop ex frameInfo pc resultU v0
         in mat3_vec (psrMirror vf) (direction vf) = direction v0
            \<and> (\<forall>a b. dot (mat3_vec (psrMirror vf) a) (mat3_vec (psrMirror vf) b) = dot a b)
            \<and> (isPsr vf \<or> psrMirror vf = mat3_of 1)))"
proof (intro conjI impI)
  show "buildMirrorMatrix n =
     Mat3 (Vec3 (1 - 2 * vx n * vx n) (- 2 * vx n * vy n) (- 2 * vx n * vz n))
          (Vec3 (- 2 * vy n * vx n) (1 - 2 * vy n * vy n) (- 2 * vy n * vz n))
          (Vec3 (- 2 * vz n * vx n) (- 2 * vz n * vy n) (1 - 2 * vz n * vz n))"
    by (rule buildMirrorMatrix_entries)
  show "transpose3 (buildMirrorMatrix n) = buildMirrorMatrix n"
    by (rule buildMirrorMatrix_symmetric)
  show "mat3_vec (buildMirrorMatrix n) d = reflect d n"
    by (rule buildMirrorMatrix_reflect)
  show "mat3_vec (buildMirrorMatrix n) d = d - smul (2 * dot d n) n"
    by (simp add: buildMirrorMatrix_reflect reflect_def dot_def mult.commute)
next
  assume u: "dot n n = 1"
  show "mat3_mul (buildMirrorMatrix n) (buildMirrorMatrix n) = mat3_of 1"
    by (rule buildMirrorMatrix_involution [OF u])
  then show "mat3_mul (transpose3 (buildMirrorMatrix n)) (buildMirrorMatrix n) = mat3_of 1"
    by (simp add: buildMirrorMatrix_symmetric)
next
  assume un: "unitNormals ex"
  let ?v0 = "rgen_init ex frameInfo pc pbrMatU hitStateU payloadU payloadNrdU gl_LaunchID gl_LaunchSize"
  show "let v0 = ?v0; vf = psr_loop ex frameInfo pc resultU v0
         in mat3_vec (psrMirror vf) (direction vf) = direction v0
            \<and> (\<forall>a b. dot (mat3_vec (psrMirror vf) a) (mat3_vec (psrMirror vf) b) = dot a b)
            \<and> (isPsr vf \<or> psrMirror vf = mat3_of 1)"
    using psr_loop_mirror [OF un, of frameInfo pc resultU ?v0]
    by (simp add: Let_def mat3_vec_id)
qed

text \<open>
  The normal \<open>(3/5, 0, -4/5)\<close> of the test material has length one, and the test scene
  has unit shading normals.
\<close>

theorem mirror_matrix_householder_witness:
  "dot (Vec3 (3/5) 0 (- 4/5)) (Vec3 (3/5) 0 (- 4/5)) = 1
   \<and> unitNormals scene_sky
   \<and> mat3_mul (buildMirrorMatrix (Vec3 (3/5) 0 (- 4/5))) (buildMirrorMatrix (Vec3 (3/5) 0 (- 4/5)))
       = mat3_of 1
   \<and> mat3_vec (buildMirrorMatrix (Vec3 (3/5) 0 (- 4/5))) (Vec3 0 0 1)
       = reflect (Vec3 0 0 1) (Vec3 (3/5) 0 (- 4/5))
   \<and> (let v0 = rgen_init scene_sky frame_test pc_test mat_grey hitState_test payload_test
                  payloadNrd_test (0, 0) (1, 1);
           vf = psr_loop scene_sky frame_test pc_test result_test v0
       in mat3_vec (psrMirror vf) (direction vf) = direction v0)"
proof -
  have u: "dot (Vec3 (3/5) 0 (- 4/5)) (Vec3 (3/5) 0 (- 4/5)) = 1"
    by (simp add: dot_def)
  have un: "unitNormals scene_sky"
    by (simp add: unitNormals_def scene_sky_def mat_grey_def dot_def)
  from mirror_matrix_householder [of "Vec3 (3/5) 0 (- 4/5)" "Vec3 0 0 1" scene_sky frame_test pc_test
      mat_grey hitState_test payload_test payloadNrd_test "(0, 0)" "(1, 1)" result_test] u un
  show ?thesis
    by (auto simp add: Let_def)
qed

section \<open>The sign of the hit distance\<close>

lemma pathRay_fields [simp]:
  "sbtRecordOffset (pathRay ex p) = SBTOFFSET_PATHTRACE"
  "missIndex (pathRay ex p) = MISSINDEX_PATHTRACE"
  "rayFlags (pathRay ex p) = gl_RayFlagsCullBackFacingTrianglesEXT"
  "Tmin (pathRay ex p) = 0.001"
  "Tmax (pathRay ex p) = NRD_INF ex"
  "ray_direction (pathRay ex p) = rayDirection p"
  "ray_origin (pathRay ex p) = rayOrigin p"
  by (simp_all add: pathRay_def)

lemma pathRay_hitT [simp]: "pathRay ex (p\<lparr>hitT := t\<rparr>) = pathRay ex p"
  by (simp add: pathRay_def)

text \<open>A ray traced with the path-tracing shaders that does not skip the closest-hit shader.\<close>

lemma traceRayEXT_path:
  assumes "sbtRecordOffset r = SBTOFFSET_PATHTRACE" "missIndex r = MISSINDEX_PATHTRACE"
    "rayFlags r AND gl_RayFlagsSkipClosestHitShaderEXT = 0"
  shows "traceRayEXT (Suc d) ex frameInfo pc res r st =
     (case intersect ex r of
        None \<Rightarrow> st\<lparr>traced := traced st @ [r],
                    payload := pathtrace_rmiss_main ex frameInfo (ray_direction r) (payload st)\<rparr>
      | Some h \<Rightarrow> pathtrace_rchit_main (traceRayEXT d ex frameInfo pc res) ex frameInfo pc res r h
                    (st\<lparr>traced := traced st @ [r]\<rparr>))"
  using assms
  by (simp add: traceRayEXT.simps Let_def SBTOFFSET_NRD_def MISSINDEX_NRD_def
      SBTOFFSET_PATHTRACE_def MISSINDEX_PATHTRACE_def split: option.splits)

lemma shading_light_hitT:
  "hitT (payload st0) = t \<Longrightarrow>
   hitT (payload (snd (shading_light trace ex frameInfo res dir t pm hit st0))) = t"
  by (simp add: shading_light_def sampleLights_def Let_def split: prod.splits)

lemma shading_hitT:
  assumes "hitT (payload st0) = t"
  shows "hitT (payload (snd (shading trace ex frameInfo res dir t pm hit st0))) =
           (if event_type (fst (shading_sample ex dir pm
                                  (snd (shading_light trace ex frameInfo res dir t pm hit st0))))
               = BSDF_EVENT_ABSORB ex
            then - t else t)"
  using shading_light_hitT [OF assms, of trace ex frameInfo res dir pm hit]
  by (simp add: shading_def Let_def case_prod_unfold)

lemma pathtrace_rchit_main_hitT:
  "hitT (payload (pathtrace_rchit_main trace ex frameInfo pc res r h st)) =
     (if event_type (fst (shading_sample ex (ray_direction r) (rchit_material ex pc h)
                            (snd (shading_light trace ex frameInfo res (ray_direction r) (gl_HitTEXT h)
                                    (rchit_material ex pc h) (hitState h)
                                    (st\<lparr>payload := (payload st)\<lparr>hitT := gl_HitTEXT h\<rparr>\<rparr>)))))
         = BSDF_EVENT_ABSORB ex
      then - gl_HitTEXT h else gl_HitTEXT h)"
proof -
  let ?st = "st\<lparr>payload := (payload st)\<lparr>hitT := gl_HitTEXT h\<rparr>\<rparr>"
  have "hitT (payload ?st) = gl_HitTEXT h" by simp
  from shading_hitT [OF this, of trace ex frameInfo res "ray_direction r" "rchit_material ex pc h" "hitState h"]
  show ?thesis
    by (simp add: pathtrace_rchit_main_def Let_def case_prod_unfold)
qed

lemma pathtrace_rmiss_main_hitT [simp]:
  "hitT (pathtrace_rmiss_main ex frameInfo dir p) = NRD_INF ex"
  by (simp add: pathtrace_rmiss_main_def Let_def)

text \<open>
  C3. For a ray of an indirect path (traced with pathtrace.rchit and pathtrace.rmiss):
  if it misses all geometry, the payload reports \<open>hitT = NRD_INF\<close>, set by the miss
  shader. If it hits a surface at a distance within the ray's interval (so at least
  \<open>Tmin\<close>), the magnitude of the reported \<open>hitT\<close> is the traced distance
  \<open>gl_HitTEXT\<close>; when the BSDF sample that \<open>shading\<close> draws there is an absorption the
  closest-hit shader has negated it, so \<open>hitT = -gl_HitTEXT \<le> 0\<close>, and otherwise
  \<open>hitT = gl_HitTEXT\<close>; hence the test \<open>hitT < 0\<close> of the caller holds exactly for an
  absorption.
\<close>

theorem hit_distance_sign_convention:
  "let r = pathRay ex p;
       st' = traceRayEXT maxPipelineRayRecursionDepth ex frameInfo pc resultU r st
   in (intersect ex r = None \<longrightarrow>
         hitT (payload st') = NRD_INF ex \<and> \<bar>hitT (payload st')\<bar> = \<bar>NRD_INF ex\<bar>)
      \<and> (\<forall>h. intersect ex r = Some h \<and> Tmin r \<le> gl_HitTEXT h \<longrightarrow>
           (let pm = rchit_material ex pc h;
                lit = snd (shading_light (traceRayEXT (Suc 0) ex frameInfo pc resultU) ex frameInfo
                             resultU (ray_direction r) (gl_HitTEXT h) pm (hitState h)
                             (st\<lparr>traced := traced st @ [r],
                                 payload := (payload st)\<lparr>hitT := gl_HitTEXT h\<rparr>\<rparr>));
                sampleData = fst (shading_sample ex (ray_direction r) pm lit)
            in \<bar>hitT (payload st')\<bar> = gl_HitTEXT h
               \<and> (event_type sampleData = BSDF_EVENT_ABSORB ex \<longrightarrow>
                     hitT (payload st') = - gl_HitTEXT h \<and> hitT (payload st') \<le> 0)
               \<and> (event_type sampleData \<noteq> BSDF_EVENT_ABSORB ex \<longrightarrow>
                     hitT (payload st') = gl_HitTEXT h)
               \<and> (hitT (payload st') < 0 \<longleftrightarrow> event_type sampleData = BSDF_EVENT_ABSORB ex)))"
proof -
  let ?r = "pathRay ex p"
  have flags: "gl_RayFlagsCullBackFacingTrianglesEXT AND gl_RayFlagsSkipClosestHitShaderEXT = 0"
    by (simp add: gl_RayFlagsCullBackFacingTrianglesEXT_def gl_RayFlagsSkipClosestHitShaderEXT_def)
  have tr: "traceRayEXT (Suc (Suc 0)) ex frameInfo pc resultU ?r st =
     (case intersect ex ?r of
        None \<Rightarrow> st\<lparr>traced := traced st @ [?r],
                    payload := pathtrace_rmiss_main ex frameInfo (ray_direction ?r) (payload st)\<rparr>
      | Some h \<Rightarrow> pathtrace_rchit_main (traceRayEXT (Suc 0) ex frameInfo pc resultU) ex frameInfo pc
                    resultU ?r h (st\<lparr>traced := traced st @ [?r]\<rparr>))"
    by (rule traceRayEXT_path) (simp_all add: flags)
  have miss: "hitT (payload (traceRayEXT (Suc (Suc 0)) ex frameInfo pc resultU ?r st)) = NRD_INF ex"
    if "intersect ex ?r = None"
    unfolding tr using that by simp
  have hit: "hitT (payload (traceRayEXT (Suc (Suc 0)) ex frameInfo pc resultU ?r st)) =
               (if event_type (fst (shading_sample ex (ray_direction ?r) (rchit_material ex pc h)
                       (snd (shading_light (traceRayEXT (Suc 0) ex frameInfo pc resultU) ex frameInfo
                               resultU (ray_direction ?r) (gl_HitTEXT h) (rchit_material ex pc h)
                               (hitState h)
                               (st\<lparr>traced := traced st @ [?r],
                                   payload := (payload st)\<lparr>hitT := gl_HitTEXT h\<rparr>\<rparr>)))))
                   = BSDF_EVENT_ABSORB ex
                then - gl_HitTEXT h else gl_HitTEXT h)"
    if "intersect ex ?r = Some h" for h
    unfolding tr using that by (simp add: pathtrace_rchit_main_hitT)
  show ?thesis
    unfolding Let_def maxPipelineRayRecursionDepth_def numeral_2_eq_2
  proof (intro conjI impI allI)
    assume "intersect ex ?r = None"
    then show "hitT (payload (traceRayEXT (Suc (Suc 0)) ex frameInfo pc resultU ?r st)) = NRD_INF ex"
      and "\<bar>hitT (payload (traceRayEXT (Suc (Suc 0)) ex frameInfo pc resultU ?r st))\<bar> = \<bar>NRD_INF ex\<bar>"
      by (simp_all add: miss)
  next
    fix h assume a: "intersect ex ?r = Some h \<and> Tmin ?r \<le> gl_HitTEXT h"
    then have pos: "0 < gl_HitTEXT h" by simp
    note h = hit [of h, OF a [THEN conjunct1]]
    show "\<bar>hitT (payload (traceRayEXT (Suc (Suc 0)) ex frameInfo pc resultU ?r st))\<bar> = gl_HitTEXT h"
      unfolding h using pos by simp
    show "hitT (payload (traceRayEXT (Suc (Suc 0)) ex frameInfo pc resultU ?r st)) < 0 \<longleftrightarrow>
          event_type (fst (shading_sample ex (ray_direction ?r) (rchit_material ex pc h)
                       (snd (shading_light (traceRayEXT (Suc 0) ex frameInfo pc resultU) ex frameInfo
                               resultU (ray_direction ?r) (gl_HitTEXT h) (rchit_material ex pc h)
                               (hitState h)
                               (st\<lparr>traced := traced st @ [?r],
                                   payload := (payload st)\<lparr>hitT := gl_HitTEXT h\<rparr>\<rparr>)))))
            = BSDF_EVENT_ABSORB ex"
      unfolding h using pos by simp
    {
      assume "event_type (fst (shading_sample ex (ray_direction ?r) (rchit_material ex pc h)
                       (snd (shading_light (traceRayEXT (Suc 0) ex frameInfo pc resultU) ex frameInfo
                               resultU (ray_direction ?r) (gl_HitTEXT h) (rchit_material ex pc h)
                               (hitState h)
                               (st\<lparr>traced := traced st @ [?r],
                                   payload := (payload st)\<lparr>hitT := gl_HitTEXT h\<rparr>\<rparr>)))))
            = BSDF_EVENT_ABSORB ex"
      then show "hitT (payload (traceRayEXT (Suc (Suc 0)) ex frameInfo pc resultU ?r st)) = - gl_HitTEXT h"
        and "hitT (payload (traceRayEXT (Suc (Suc 0)) ex frameInfo pc resultU ?r st)) \<le> 0"
        unfolding h using pos by simp_all
    }
    {
      assume "event_type (fst (shading_sample ex (ray_direction ?r) (rchit_material ex pc h)
                       (snd (shading_light (traceRayEXT (Suc 0) ex frameInfo pc resultU) ex frameInfo
                               resultU (ray_direction ?r) (gl_HitTEXT h) (rchit_material ex pc h)
                               (hitState h)
                               (st\<lparr>traced := traced st @ [?r],
                                   payload := (payload st)\<lparr>hitT := gl_HitTEXT h\<rparr>\<rparr>)))))
            \<noteq> BSDF_EVENT_ABSORB ex"
      then show "hitT (payload (traceRayEXT (Suc (Suc 0)) ex frameInfo pc resultU ?r st)) = gl_HitTEXT h"
        unfolding h by simp
    }
  qed
qed

theorem hit_distance_sign_convention_witness:
  "intersect scene_hit (pathRay scene_hit payload_test) = Some hit_test
   \<and> Tmin (pathRay scene_hit payload_test) \<le> gl_HitTEXT hit_test
   \<and> hitT (payload (traceRayEXT maxPipelineRayRecursionDepth scene_hit frame_test pc_test
                       result_test (pathRay scene_hit payload_test) gpu_test)) = - 2
   \<and> hitT (payload (traceRayEXT maxPipelineRayRecursionDepth scene_hit_bounce frame_test pc_test
                       result_test (pathRay scene_hit_bounce payload_test) gpu_test)) = 2
   \<and> intersect scene_sky (pathRay scene_sky payload_test) = None
   \<and> hitT (payload (traceRayEXT maxPipelineRayRecursionDepth scene_sky frame_test pc_test
                       result_test (pathRay scene_sky payload_test) gpu_test)) = 1000000"
proof -
  note absorb = hit_distance_sign_convention [where ex = scene_hit and p = payload_test
      and frameInfo = frame_test and pc = pc_test and resultU = result_test and st = gpu_test]
  note bounce = hit_distance_sign_convention [where ex = scene_hit_bounce and p = payload_test
      and frameInfo = frame_test and pc = pc_test and resultU = result_test and st = gpu_test]
  note sky = hit_distance_sign_convention [where ex = scene_sky and p = payload_test
      and frameInfo = frame_test and pc = pc_test and resultU = result_test and st = gpu_test]
  have hitv: "intersect scene_hit = (\<lambda>r. Some hit_test)" "BSDF_EVENT_ABSORB scene_hit = 0"
    "bsdfSample scene_hit = (\<lambda>k xi m. sample_absorb)"
    by (simp_all add: scene_hit_def scene_sky_def)
  have bouncev: "intersect scene_hit_bounce = (\<lambda>r. Some hit_test)"
    "BSDF_EVENT_ABSORB scene_hit_bounce = 0"
    "bsdfSample scene_hit_bounce = (\<lambda>k xi m. sample_reflect)"
    by (simp_all add: scene_hit_bounce_def scene_bounce_def scene_sky_def)
  have skyv: "intersect scene_sky = (\<lambda>r. None)" "NRD_INF scene_sky = 1000000"
    by (simp_all add: scene_sky_def)
  have t: "gl_HitTEXT hit_test = 2"
    by (simp add: hit_test_def)
  from absorb have a: "hitT (payload (traceRayEXT maxPipelineRayRecursionDepth scene_hit frame_test pc_test
                       result_test (pathRay scene_hit payload_test) gpu_test)) = - 2"
    by (simp add: Let_def hitv t shading_sample_def case_prod_unfold sample_absorb_def)
  from bounce have b: "hitT (payload (traceRayEXT maxPipelineRayRecursionDepth scene_hit_bounce frame_test pc_test
                       result_test (pathRay scene_hit_bounce payload_test) gpu_test)) = 2"
    by (simp add: Let_def bouncev t shading_sample_def case_prod_unfold sample_reflect_def)
  from sky have c: "hitT (payload (traceRayEXT maxPipelineRayRecursionDepth scene_sky frame_test pc_test
                       result_test (pathRay scene_sky payload_test) gpu_test)) = 1000000"
    by (simp add: Let_def skyv)
  from a b c show ?thesis
    by (simp add: hitv skyv t)
qed

section \<open>The hit-distance proxy\<close>

lemma word_inc_unat:
  "(depth :: 32 word) < m \<Longrightarrow> unat (depth + 1) = Suc (unat depth)"
  by (metis add.commute add_neg_numeral_special(8) add_right_cancel unatSuc
      word_order.extremum_strict)

text \<open>From the second pass on, the loop leaves \<open>pathLength\<close> alone.\<close>

lemma pathtrace_loop_later:
  "2 \<le> unat depth \<Longrightarrow>
   snd (snd (snd (pathtrace_loop ex frameInfo pc res resetT depth (g, accum, throughput, pathLength))))
     = pathLength"
proof (induction "unat (maxDepth pc) - unat depth" arbitrary: depth g accum throughput rule: less_induct)
  case less
  show ?case
  proof (cases "depth < maxDepth pc")
    case False
    then show ?thesis
      by (subst pathtrace_loop.simps) simp
  next
    case True
    have ne: "depth \<noteq> 1"
      using less.prems by auto
    have inc: "unat (depth + 1) = Suc (unat depth)"
      by (rule word_inc_unat [OF True])
    have lt: "unat depth < unat (maxDepth pc)"
      using True by (simp add: word_less_nat_alt)
    have ih: "snd (snd (snd (pathtrace_loop ex frameInfo pc res resetT (depth + 1) (g', a', t', pathLength))))
              = pathLength" for g' a' t'
      by (rule less.hyps) (use inc lt less.prems in simp_all)
    show ?thesis
      using True ne ih
      by (subst pathtrace_loop.simps) (simp add: Let_def)
  qed
qed

text \<open>The first pass sets \<open>pathLength\<close> to the magnitude of the distance it traced.\<close>

lemma pathtrace_loop_first:
  assumes "1 < maxDepth pc"
  shows "snd (snd (snd (pathtrace_loop ex frameInfo pc res resetT 1 (g, accum, throughput, pathLength))))
     = \<bar>hitT (payload (traceRayEXT maxPipelineRayRecursionDepth ex frameInfo pc res
                          (pathRay ex (payload g)) (g\<lparr>payload := (payload g)\<lparr>hitT := resetT\<rparr>\<rparr>)))\<bar>"
proof -
  have two: "2 \<le> unat (2 :: 32 word)" by simp
  note later = pathtrace_loop_later [OF two, of ex frameInfo pc res resetT]
  show ?thesis
    using assms
    by (subst pathtrace_loop.simps) (simp add: Let_def later)
qed

lemma pathtrace_loop_none:
  assumes "\<not> 1 < maxDepth pc"
  shows "pathtrace_loop ex frameInfo pc res resetT 1 s = s"
  using assms by (cases s) (simp add: pathtrace_loop.simps)

lemma resetPayload_fields [simp]:
  "traced (resetPayload ex org smp g) = traced g"
  "stored (resetPayload ex org smp g) = stored g"
  "hitT (payload (resetPayload ex org smp g)) = NRD_INF ex"
  by (simp_all add: resetPayload_def)

lemma traceRayEXT_pathRay_miss:
  assumes "intersect ex (pathRay ex p) = None"
  shows "hitT (payload (traceRayEXT maxPipelineRayRecursionDepth ex frameInfo pc res (pathRay ex p) st))
           = NRD_INF ex"
proof -
  have flags: "gl_RayFlagsCullBackFacingTrianglesEXT AND gl_RayFlagsSkipClosestHitShaderEXT = 0"
    by (simp add: gl_RayFlagsCullBackFacingTrianglesEXT_def gl_RayFlagsSkipClosestHitShaderEXT_def)
  have "traceRayEXT (Suc (Suc 0)) ex frameInfo pc res (pathRay ex p) st =
     (case intersect ex (pathRay ex p) of
        None \<Rightarrow> st\<lparr>traced := traced st @ [pathRay ex p],
                    payload := pathtrace_rmiss_main ex frameInfo (ray_direction (pathRay ex p)) (payload st)\<rparr>
      | Some h \<Rightarrow> pathtrace_rchit_main (traceRayEXT (Suc 0) ex frameInfo pc res) ex frameInfo pc
                    res (pathRay ex p) h (st\<lparr>traced := traced st @ [pathRay ex p]\<rparr>))"
    by (rule traceRayEXT_path) (simp_all add: flags)
  then show ?thesis
    using assms by (simp add: maxPipelineRayRecursionDepth_def numeral_2_eq_2)
qed

text \<open>The first pass of the loop, when there is one.\<close>

lemma pathtrace_loop_first_pass:
  assumes "1 < maxDepth pc"
  shows "pathtrace_loop ex frameInfo pc res resetT 1 (g, accum, throughput, pathLength) =
     (let g1 = traceRayEXT maxPipelineRayRecursionDepth ex frameInfo pc res
                 (pathRay ex (payload g)) (g\<lparr>payload := (payload g)\<lparr>hitT := resetT\<rparr>\<rparr>);
          a1 = accum + contrib (payload g1) * throughput;
          t1 = throughput * weight (payload g1)
      in if hitT (payload g1) < 0 then (g1, a1, t1, \<bar>hitT (payload g1)\<bar>)
         else pathtrace_loop ex frameInfo pc res resetT 2 (g1, a1, t1, \<bar>hitT (payload g1)\<bar>))"
  using assms by (subst pathtrace_loop.simps) (simp add: Let_def)

text \<open>
  C5. In the loop of STEP 3.3 and of STEP 4.3, a pass with \<open>depth\<close> of 2 or more leaves
  \<open>pathLength\<close> as it is. For the diffuse lobe and for the specular lobe: when the
  initial BSDF sample is an absorption, \<open>pathLength\<close> is 0, the accumulated radiance is
  the direct environment term it started with, and no ray is traced. When it is not and
  \<open>1 < maxDepth\<close>, \<open>pathLength\<close> is the magnitude of \<open>payload.hitT\<close> after the first
  trace, and the magnitude of \<open>NRD_INF\<close> when that first ray misses; the radiance is the
  direct term plus the contribution of the first bounce, carried through the passes from
  \<open>depth = 2\<close> on when the first bounce did not end the path, and then clamped to
  \<open>maxLuminance\<close>. When it is not an absorption and \<open>maxDepth\<close> is 0 or 1, the loop has no
  pass: \<open>pathLength\<close> is 0, no ray is traced, and the radiance is the clamped direct term.
\<close>

theorem hit_distance_proxy_first_bounce:
  "(2 \<le> unat depth \<longrightarrow>
      snd (snd (snd (pathtrace_loop ex frameInfo pc resultU resetT depth
                       (g, accum, throughput, pathLength)))) = pathLength)
   \<and> (let (xi, seed1) = rand3 ex (seed (payload gIn));
           diffBsdfSample = brdf_diffuse_sample ex toEye xi pm (baseColor pm);
           gp = resetPayload ex org diffBsdfSample (gIn\<lparr>payload := (payload gIn)\<lparr>seed := seed1\<rparr>\<rparr>);
           g1 = traceRayEXT maxPipelineRayRecursionDepth ex frameInfo pc resultU
                  (pathRay ex (payload gp)) (gp\<lparr>payload := (payload gp)\<lparr>hitT := NRD_INF ex\<rparr>\<rparr>);
           throughput1 = smul diffuseRatio (bsdf_over_pdf diffBsdfSample);
           a1 = hdrDiffuseRadiance + contrib (payload g1) * throughput1;
           t1 = throughput1 * weight (payload g1);
           rest = (if hitT (payload g1) < 0 then (g1, a1, t1, \<bar>hitT (payload g1)\<bar>)
                   else pathtrace_loop ex frameInfo pc resultU (NRD_INF ex) 2
                          (g1, a1, t1, \<bar>hitT (payload g1)\<bar>));
           lum = dot (fst (snd rest)) (Vec3 0.212671 0.715160 0.072169);
           lum0 = dot hdrDiffuseRadiance (Vec3 0.212671 0.715160 0.072169);
           (gd, diffuseAccum, pathLengthD) =
              diffuse_path ex frameInfo pc resultU pm org toEye diffuseRatio hdrDiffuseRadiance gIn
       in (event_type diffBsdfSample = BSDF_EVENT_ABSORB ex \<longrightarrow>
             pathLengthD = 0 \<and> diffuseAccum = hdrDiffuseRadiance \<and> traced gd = traced gIn)
          \<and> (event_type diffBsdfSample \<noteq> BSDF_EVENT_ABSORB ex \<and> 1 < maxDepth pc \<longrightarrow>
               pathLengthD = \<bar>hitT (payload g1)\<bar>
               \<and> (intersect ex (pathRay ex (payload gp)) = None \<longrightarrow> pathLengthD = \<bar>NRD_INF ex\<bar>)
               \<and> gd = fst rest
               \<and> diffuseAccum = (if lum > maxLuminance pc
                                  then smul (maxLuminance pc / lum) (fst (snd rest)) else fst (snd rest)))
          \<and> (event_type diffBsdfSample \<noteq> BSDF_EVENT_ABSORB ex \<and> \<not> 1 < maxDepth pc \<longrightarrow>
               pathLengthD = 0 \<and> traced gd = traced gIn
               \<and> diffuseAccum = (if lum0 > maxLuminance pc
                                  then smul (maxLuminance pc / lum0) hdrDiffuseRadiance
                                  else hdrDiffuseRadiance)))
   \<and> (let (xi, seed1) = rand3 ex (seed (payload gIn));
           xi = Vec3 (vx xi) (vy xi) ((1 - lobeWeights (LOBE_DIFFUSE_REFLECTION ex)) * vz xi);
           specBsdfSample = bsdfSample ex toEye xi pm;
           gp = resetPayload ex org specBsdfSample (gIn\<lparr>payload := (payload gIn)\<lparr>seed := seed1\<rparr>\<rparr>);
           g1 = traceRayEXT maxPipelineRayRecursionDepth ex frameInfo pc resultU
                  (pathRay ex (payload gp)) (gp\<lparr>payload := (payload gp)\<lparr>hitT := - NRD_INF ex\<rparr>\<rparr>);
           throughput1 = smul specularRatio (bsdf_over_pdf specBsdfSample);
           a1 = hdrSpecularRadiance + contrib (payload g1) * throughput1;
           t1 = throughput1 * weight (payload g1);
           rest = (if hitT (payload g1) < 0 then (g1, a1, t1, \<bar>hitT (payload g1)\<bar>)
                   else pathtrace_loop ex frameInfo pc resultU (- NRD_INF ex) 2
                          (g1, a1, t1, \<bar>hitT (payload g1)\<bar>));
           lum = dot (fst (snd rest)) (Vec3 0.212671 0.715160 0.072169);
           lum0 = dot hdrSpecularRadiance (Vec3 0.212671 0.715160 0.072169);
           (gs, specularAccum, pathLengthS) =
              specular_path ex frameInfo pc resultU pm org toEye lobeWeights specularRatio
                hdrSpecularRadiance gIn
       in (event_type specBsdfSample = BSDF_EVENT_ABSORB ex \<longrightarrow>
             pathLengthS = 0 \<and> specularAccum = hdrSpecularRadiance \<and> traced gs = traced gIn)
          \<and> (event_type specBsdfSample \<noteq> BSDF_EVENT_ABSORB ex \<and> 1 < maxDepth pc \<longrightarrow>
               pathLengthS = \<bar>hitT (payload g1)\<bar>
               \<and> (intersect ex (pathRay ex (payload gp)) = None \<longrightarrow> pathLengthS = \<bar>NRD_INF ex\<bar>)
               \<and> gs = fst rest
               \<and> specularAccum = (if lum > maxLuminance pc
                                   then smul (maxLuminance pc / lum) (fst (snd rest)) else fst (snd rest)))
          \<and> (event_type specBsdfSample \<noteq> BSDF_EVENT_ABSORB ex \<and> \<not> 1 < maxDepth pc \<longrightarrow>
               pathLengthS = 0 \<and> traced gs = traced gIn
               \<and> specularAccum = (if lum0 > maxLuminance pc
                                   then smul (maxLuminance pc / lum0) hdrSpecularRadiance
                                   else hdrSpecularRadiance)))"
proof -
  have two: "2 \<le> unat (2 :: 32 word)" by simp
  note later = pathtrace_loop_later [OF two]
  have A: "2 \<le> unat depth \<longrightarrow>
      snd (snd (snd (pathtrace_loop ex frameInfo pc resultU resetT depth
                       (g, accum, throughput, pathLength)))) = pathLength"
    by (simp add: pathtrace_loop_later)
  show ?thesis
    apply (intro conjI)
      apply (rule A)
     apply (cases "1 < maxDepth pc")
      apply (simp add: diffuse_path_def Let_def case_prod_unfold pathtrace_loop_first_pass later
        traceRayEXT_pathRay_miss)
     apply (simp add: diffuse_path_def Let_def case_prod_unfold pathtrace_loop_none)
    apply (cases "1 < maxDepth pc")
     apply (simp add: specular_path_def Let_def case_prod_unfold pathtrace_loop_first_pass later
        traceRayEXT_pathRay_miss)
    apply (simp add: specular_path_def Let_def case_prod_unfold pathtrace_loop_none)
    done
qed

text \<open>In \<open>scene_bounce\<close> every ray of the loop misses and brings the radiance 1/2.\<close>

lemma scene_bounce_vals:
  "BSDF_EVENT_ABSORB scene_bounce = 0"
  "brdf_diffuse_sample scene_bounce = (\<lambda>k xi m c. sample_reflect)"
  "bsdfSample scene_bounce = (\<lambda>k xi m. sample_reflect)"
  "intersect scene_bounce = (\<lambda>r. None)" "NRD_INF scene_bounce = 1000000"
  "rotate_y scene_bounce = (\<lambda>v axis a. v)" "getSphericalUv scene_bounce = (\<lambda>d. Vec2 0 0)"
  "envTexture scene_bounce = (\<lambda>t. Vec4 1 1 1 1)"
  by (simp_all add: scene_bounce_def scene_sky_def)

lemma traceRayEXT_scene_bounce:
  "traceRayEXT maxPipelineRayRecursionDepth scene_bounce frame_test pc res (pathRay scene_bounce p) st =
     st\<lparr>traced := traced st @ [pathRay scene_bounce p],
        payload := (payload st)\<lparr>contrib := smul (powerHeuristic (bsdfPDF (payload st)) 1) (Vec3 1 1 1),
                                 hitT := 1000000\<rparr>\<rparr>"
proof -
  have flags: "gl_RayFlagsCullBackFacingTrianglesEXT AND gl_RayFlagsSkipClosestHitShaderEXT = 0"
    by (simp add: gl_RayFlagsCullBackFacingTrianglesEXT_def gl_RayFlagsSkipClosestHitShaderEXT_def)
  have "traceRayEXT (Suc (Suc 0)) scene_bounce frame_test pc res (pathRay scene_bounce p) st =
     (case intersect scene_bounce (pathRay scene_bounce p) of
        None \<Rightarrow> st\<lparr>traced := traced st @ [pathRay scene_bounce p],
                    payload := pathtrace_rmiss_main scene_bounce frame_test
                                 (ray_direction (pathRay scene_bounce p)) (payload st)\<rparr>
      | Some h \<Rightarrow> pathtrace_rchit_main (traceRayEXT (Suc 0) scene_bounce frame_test pc res)
                    scene_bounce frame_test pc res (pathRay scene_bounce p) h
                    (st\<lparr>traced := traced st @ [pathRay scene_bounce p]\<rparr>))"
    by (rule traceRayEXT_path) (simp_all add: flags)
  then show ?thesis
    by (simp add: maxPipelineRayRecursionDepth_def numeral_2_eq_2 scene_bounce_vals
        pathtrace_rmiss_main_def Let_def frame_test_def xyz_def smul_def times_vec3_def)
qed

lemma pc_depths:
  "maxDepth pc_test = 5" "maxDepth pc_depth2 = 2" "maxDepth pc_depth1 = 1"
  "maxLuminance pc_test = 10" "maxLuminance pc_depth2 = 10" "maxLuminance pc_depth1 = 10"
  by (simp_all add: pc_test_def pc_depth2_def pc_depth1_def)

text \<open>
  In \<open>scene_sky\<close> both samples are absorptions. In \<open>scene_bounce\<close> neither is: with
  \<open>maxDepth = 2\<close> the one bounce adds 1/4 to the radiance, with \<open>maxDepth = 5\<close> the four
  bounces add 1, and the distance is that of the first bounce in both cases; with
  \<open>maxDepth = 1\<close> nothing is traced.
\<close>

theorem hit_distance_proxy_first_bounce_witness:
  "2 \<le> unat (2 :: 32 word)
   \<and> snd (snd (snd (pathtrace_loop scene_bounce frame_test pc_test result_test 1000000 2
                       (gpu_test, Vec3 0 0 0, Vec3 1 1 1, 7)))) = 7
   \<and> snd (diffuse_path scene_sky frame_test pc_test result_test mat_grey (Vec3 0 0 0)
              (Vec3 0 0 1) (1/2) (Vec3 1 1 1) gpu_test) = (Vec3 1 1 1, 0)
   \<and> snd (specular_path scene_sky frame_test pc_test result_test mat_grey (Vec3 0 0 0)
              (Vec3 0 0 1) (\<lambda>i. 1/2) (1/2) (Vec3 1 1 1) gpu_test) = (Vec3 1 1 1, 0)
   \<and> 1 < maxDepth pc_depth2 \<and> 1 < maxDepth pc_test \<and> \<not> 1 < maxDepth pc_depth1
   \<and> snd (diffuse_path scene_bounce frame_test pc_depth2 result_test mat_grey (Vec3 0 0 0)
              (Vec3 0 0 1) (1/2) (Vec3 1 1 1) gpu_test) = (Vec3 (5/4) (5/4) (5/4), 1000000)
   \<and> snd (diffuse_path scene_bounce frame_test pc_test result_test mat_grey (Vec3 0 0 0)
              (Vec3 0 0 1) (1/2) (Vec3 1 1 1) gpu_test) = (Vec3 2 2 2, 1000000)
   \<and> snd (diffuse_path scene_bounce frame_test pc_depth1 result_test mat_grey (Vec3 0 0 0)
              (Vec3 0 0 1) (1/2) (Vec3 1 1 1) gpu_test) = (Vec3 1 1 1, 0)
   \<and> snd (specular_path scene_bounce frame_test pc_depth2 result_test mat_grey (Vec3 0 0 0)
              (Vec3 0 0 1) (\<lambda>i. 1/2) (1/2) (Vec3 1 1 1) gpu_test) = (Vec3 (5/4) (5/4) (5/4), 1000000)
   \<and> snd (specular_path scene_bounce frame_test pc_test result_test mat_grey (Vec3 0 0 0)
              (Vec3 0 0 1) (\<lambda>i. 1/2) (1/2) (Vec3 1 1 1) gpu_test) = (Vec3 2 2 2, 1000000)
   \<and> snd (specular_path scene_bounce frame_test pc_depth1 result_test mat_grey (Vec3 0 0 0)
              (Vec3 0 0 1) (\<lambda>i. 1/2) (1/2) (Vec3 1 1 1) gpu_test) = (Vec3 1 1 1, 0)"
proof -
  note sky = hit_distance_proxy_first_bounce [where ex = scene_sky and frameInfo = frame_test
      and pc = pc_test and resultU = result_test and pm = mat_grey and org = "Vec3 0 0 0"
      and toEye = "Vec3 0 0 1" and diffuseRatio = "1/2" and hdrDiffuseRadiance = "Vec3 1 1 1"
      and gIn = gpu_test and lobeWeights = "\<lambda>i. 1/2" and specularRatio = "1/2"
      and hdrSpecularRadiance = "Vec3 1 1 1" and depth = 2 and resetT = 1000000
      and g = gpu_test and accum = "Vec3 0 0 0" and throughput = "Vec3 1 1 1" and pathLength = 7]
  note bounce = hit_distance_proxy_first_bounce [where ex = scene_bounce and frameInfo = frame_test
      and resultU = result_test and pm = mat_grey and org = "Vec3 0 0 0"
      and toEye = "Vec3 0 0 1" and diffuseRatio = "1/2" and hdrDiffuseRadiance = "Vec3 1 1 1"
      and gIn = gpu_test and lobeWeights = "\<lambda>i. 1/2" and specularRatio = "1/2"
      and hdrSpecularRadiance = "Vec3 1 1 1" and depth = 2 and resetT = 1000000
      and g = gpu_test and accum = "Vec3 0 0 0" and throughput = "Vec3 1 1 1" and pathLength = 7]
  have skyv: "BSDF_EVENT_ABSORB scene_sky = 0" "brdf_diffuse_sample scene_sky = (\<lambda>k xi m c. sample_absorb)"
    "bsdfSample scene_sky = (\<lambda>k xi m. sample_absorb)"
    by (simp_all add: scene_sky_def)
  note ev = Let_def case_prod_unfold scene_bounce_vals sample_reflect_def pc_depths
    pathtrace_loop.simps traceRayEXT_scene_bounce resetPayload_def powerHeuristic_def
    smul_def dot_def plus_vec3_def times_vec3_def vec3_of_def prod_eq_iff
  from bounce [where pc = pc_test] have a:
    "snd (snd (snd (pathtrace_loop scene_bounce frame_test pc_test result_test 1000000 2
                       (gpu_test, Vec3 0 0 0, Vec3 1 1 1, 7)))) = 7"
    by simp
  from sky have b: "snd (diffuse_path scene_sky frame_test pc_test result_test mat_grey (Vec3 0 0 0)
              (Vec3 0 0 1) (1/2) (Vec3 1 1 1) gpu_test) = (Vec3 1 1 1, 0)"
    and c: "snd (specular_path scene_sky frame_test pc_test result_test mat_grey (Vec3 0 0 0)
              (Vec3 0 0 1) (\<lambda>i. 1/2) (1/2) (Vec3 1 1 1) gpu_test) = (Vec3 1 1 1, 0)"
    by (simp_all add: Let_def case_prod_unfold skyv sample_absorb_def prod_eq_iff)
  from bounce [where pc = pc_depth2]
  have d2: "snd (diffuse_path scene_bounce frame_test pc_depth2 result_test mat_grey (Vec3 0 0 0)
              (Vec3 0 0 1) (1/2) (Vec3 1 1 1) gpu_test) = (Vec3 (5/4) (5/4) (5/4), 1000000)"
    and s2: "snd (specular_path scene_bounce frame_test pc_depth2 result_test mat_grey (Vec3 0 0 0)
              (Vec3 0 0 1) (\<lambda>i. 1/2) (1/2) (Vec3 1 1 1) gpu_test) = (Vec3 (5/4) (5/4) (5/4), 1000000)"
    by (simp_all add: ev)
  from bounce [where pc = pc_test]
  have d5: "snd (diffuse_path scene_bounce frame_test pc_test result_test mat_grey (Vec3 0 0 0)
              (Vec3 0 0 1) (1/2) (Vec3 1 1 1) gpu_test) = (Vec3 2 2 2, 1000000)"
    and s5: "snd (specular_path scene_bounce frame_test pc_test result_test mat_grey (Vec3 0 0 0)
              (Vec3 0 0 1) (\<lambda>i. 1/2) (1/2) (Vec3 1 1 1) gpu_test) = (Vec3 2 2 2, 1000000)"
    by (simp_all add: ev)
  from bounce [where pc = pc_depth1]
  have d1: "snd (diffuse_path scene_bounce frame_test pc_depth1 result_test mat_grey (Vec3 0 0 0)
              (Vec3 0 0 1) (1/2) (Vec3 1 1 1) gpu_test) = (Vec3 1 1 1, 0)"
    and s1: "snd (specular_path scene_bounce frame_test pc_depth1 result_test mat_grey (Vec3 0 0 0)
              (Vec3 0 0 1) (\<lambda>i. 1/2) (1/2) (Vec3 1 1 1) gpu_test) = (Vec3 1 1 1, 0)"
    by (simp_all add: ev)
  from a b c d2 s2 d5 s5 d1 s1 show ?thesis
    by (simp add: pc_depths)
qed

text \<open>
  With \<open>maxDepth = 1\<close>, the least value the depth slider of RealtimeDenoiser.cpp allows,
  neither sample of \<open>scene_bounce\<close> is an absorption, yet both lobes report the distance 0
  and trace no ray; the first bounce, had it been traced, would have reported
  \<open>NRD_INF = 1000000\<close>.
\<close>

theorem hit_distance_proxy_without_bounce:
  "event_type (brdf_diffuse_sample scene_bounce (Vec3 0 0 1)
                 (fst (rand3 scene_bounce (seed (payload gpu_test)))) mat_grey (baseColor mat_grey))
     \<noteq> BSDF_EVENT_ABSORB scene_bounce
   \<and> event_type (bsdfSample scene_bounce (Vec3 0 0 1)
                 (fst (rand3 scene_bounce (seed (payload gpu_test)))) mat_grey)
     \<noteq> BSDF_EVENT_ABSORB scene_bounce
   \<and> maxDepth pc_depth1 = 1
   \<and> snd (diffuse_path scene_bounce frame_test pc_depth1 result_test mat_grey (Vec3 0 0 0)
              (Vec3 0 0 1) (1/2) (Vec3 1 1 1) gpu_test) = (Vec3 1 1 1, 0)
   \<and> traced (fst (diffuse_path scene_bounce frame_test pc_depth1 result_test mat_grey (Vec3 0 0 0)
              (Vec3 0 0 1) (1/2) (Vec3 1 1 1) gpu_test)) = []
   \<and> snd (specular_path scene_bounce frame_test pc_depth1 result_test mat_grey (Vec3 0 0 0)
              (Vec3 0 0 1) (\<lambda>i. 1/2) (1/2) (Vec3 1 1 1) gpu_test) = (Vec3 1 1 1, 0)
   \<and> traced (fst (specular_path scene_bounce frame_test pc_depth1 result_test mat_grey (Vec3 0 0 0)
              (Vec3 0 0 1) (\<lambda>i. 1/2) (1/2) (Vec3 1 1 1) gpu_test)) = []
   \<and> \<bar>hitT (payload (traceRayEXT maxPipelineRayRecursionDepth scene_bounce frame_test pc_depth1
                         result_test
                         (pathRay scene_bounce
                            (payload (resetPayload scene_bounce (Vec3 0 0 0) sample_reflect gpu_test)))
                         (resetPayload scene_bounce (Vec3 0 0 0) sample_reflect gpu_test)))\<bar> = 1000000"
  by (simp add: diffuse_path_def specular_path_def Let_def case_prod_unfold scene_bounce_vals
      sample_reflect_def pc_depths pathtrace_loop.simps traceRayEXT_scene_bounce resetPayload_def
      dot_def vec3_of_def prod_eq_iff gpu_test_def)

section \<open>De-modulation and re-modulation\<close>

text \<open>
  Multiplying by the factor \<open>0.99 f + 0.01\<close> undoes the division by it when \<open>f\<close> has
  no negative component. The environment term is saturated, so this covers the
  specular factor as long as nrd.rgen and the compositor give \<open>EnvironmentTerm_Rtg\<close> the
  same arguments, which they do when \<open>VdotN\<close> is not negative.
\<close>

lemma EnvironmentTerm_Rtg_range:
  "0 \<le> vx (EnvironmentTerm_Rtg m2 m3 Rf0 NoV r)" "0 \<le> vy (EnvironmentTerm_Rtg m2 m3 Rf0 NoV r)"
  "0 \<le> vz (EnvironmentTerm_Rtg m2 m3 Rf0 NoV r)"
  by (simp_all add: EnvironmentTerm_Rtg_def Let_def saturate3_def saturate_def clamp_def)

lemma remodulate_demodulate:
  assumes "0 \<le> vx f" "0 \<le> vy f" "0 \<le> vz f"
  shows "(x / (smul 0.99 f + vec3_of 0.01)) * (smul 0.99 f + vec3_of 0.01) = x"
proof -
  have "99 * vx f / 100 + 1 / 100 \<noteq> 0" "99 * vy f / 100 + 1 / 100 \<noteq> 0" "99 * vz f / 100 + 1 / 100 \<noteq> 0"
    using assms by auto
  then show ?thesis
    by (cases x) (simp add: divide_vec3_def vec_defs)
qed

lemma specular_remodulation_front_facing:
  assumes "0 \<le> VdotN"
  shows "(x / (smul 0.99 (EnvironmentTerm_Rtg m2 m3 Rf0 (max VdotN 0.0) r) + vec3_of 0.01))
           * (smul 0.99 (EnvironmentTerm_Rtg m2 m3 Rf0 VdotN r) + vec3_of 0.01) = x"
proof -
  from assms have "max VdotN 0.0 = VdotN"
    by simp
  then show ?thesis
    by (simp only:) (rule remodulate_demodulate, (rule EnvironmentTerm_Rtg_range)+)
qed

text \<open>The pixel of \<open>scene_edge\<close>, stage by stage.\<close>

lemma init_dir: "rgen_camera_direction frame_test (0, 0) (1, 1) = Vec3 0 0 (- 1)"
  by (simp add: rgen_camera_direction_def frame_test_def Let_def mat4_vec_def mat3_vec_def
      mat3_of_mat4_def mat4_identity_def normalize3_def length3_def dot_def xyz_def sdiv_def smul_def vec_defs)

lemma init_org: "rgen_camera_origin frame_test = Vec3 0 0 0"
  by (simp add: rgen_camera_origin_def frame_test_def Let_def mat4_vec_def 
      mat4_identity_def xyz_def)

lemma edge_vals:
  "NRD_INF (scene_edge m2 m3) = 1000000"
  "MICROFACET_MIN_ROUGHNESS (scene_edge m2 m3) = 0.0014142"
  "BSDF_EVENT_ABSORB (scene_edge m2 m3) = 0"
  "LOBE_DIFFUSE_REFLECTION (scene_edge m2 m3) = 0"
  "mul2 (scene_edge m2 m3) = m2"
  "mul3 (scene_edge m2 m3) = m3"
  "rand (scene_edge m2 m3) = (\<lambda>s. (1/2, s + 1))"
  "xxhash32 (scene_edge m2 m3) = (\<lambda>a b c. 0)"
  "intersect (scene_edge m2 m3) = (\<lambda>r. if ray_direction r = Vec3 0 0 (- 1) then Some hit_edge else None)"
  "evaluateMaterial (scene_edge m2 m3) = (\<lambda>i n t b u. mat_rough)"
  "offsetRay (scene_edge m2 m3) = (\<lambda>p n. p)"
  "bsdfSample (scene_edge m2 m3) = (\<lambda>k xi m. sample_absorb)"
  "brdf_diffuse_sample (scene_edge m2 m3) = (\<lambda>k xi m c. sample_absorb)"
  "bsdfEvaluate (scene_edge m2 m3) = (\<lambda>k l xi m. \<lparr>bsdf_diffuse = Vec3 1 1 1, bsdf_glossy = Vec3 1 1 1, ev_pdf = 1\<rparr>)"
  "computeLobeWeights (scene_edge m2 m3) = (\<lambda>m v c i. 1/2)"
  "lib_powerHeuristic (scene_edge m2 m3) = powerHeuristic"
  "environmentSample (scene_edge m2 m3) = (\<lambda>xi. (Vec4 1 1 1 1, Vec3 1 0 0))"
  "rotate_y (scene_edge m2 m3) = (\<lambda>v axis a. v)"
  "getSphericalUv (scene_edge m2 m3) = (\<lambda>d. Vec2 0 0)"
  "envTexture (scene_edge m2 m3) = (\<lambda>t. Vec4 1 1 1 1)"
  "toSrgb (scene_edge m2 m3) = (\<lambda>c. c)"
  "toLinear (scene_edge m2 m3) = (\<lambda>c. c)"
  "NRD_FrontEnd_PackNormalAndRoughness (scene_edge m2 m3) = (\<lambda>n r m. vec4_xyz_w n r)"
  "NRD_FrontEnd_UnpackNormalAndRoughness (scene_edge m2 m3) = (\<lambda>v. v)"
  by (simp_all add: scene_edge_def scene_sky_def)

lemma psrRay_dir: "ray_direction (psrRay org dir) = dir"
  by (simp add: psrRay_def)

lemma psr_edge:
  fixes m2 m3
  defines "v \<equiv> psr_loop (scene_edge m2 m3) frame_test pc_test result_test
              (rgen_init (scene_edge m2 m3) frame_test pc_test mat_grey hitState_test payload_test
                 payloadNrd_test (0, 0) (1, 1))"
  shows "hitSky v = False" "pbrMat v = mat_rough" "origin v = Vec3 0 0 (- 2)"
  "direction v = Vec3 0 0 (- 1)" "psrHitDist v = 2" "psrThroughput v = Vec3 1 1 1"
  "psrDirectRadiance v = Vec3 0 0 0" "psrMirror v = mat3_of 1" "isPsr v = False"
  "pos (hitSt v) = Vec3 0 0 (- 2)" "stored (gpu v) = []"
  unfolding v_def
  by (subst psr_loop.simps,
      simp add: Let_def init_dir init_org psr_trace_def psr_hit_def buildHitInfo_def notMirror_def
        traceRayEXT_psrRay maxPipelineRayRecursionDepth_def numeral_2_eq_2 rgen_init_def
        edge_vals psrRay_dir hit_edge_def nrd_rchit_main_def mat_rough_def pc_test_def
        smul_def vec_defs vec3_of_def payload_test_def)+

lemma diffuse_path_absorb:
  assumes "event_type (brdf_diffuse_sample ex toEye (fst (rand3 ex (seed (payload g0)))) pm (baseColor pm))
             = BSDF_EVENT_ABSORB ex"
  shows "diffuse_path ex frameInfo pc res pm org toEye diffuseRatio hdr g0 =
           (g0\<lparr>payload := (payload g0)\<lparr>seed := snd (rand3 ex (seed (payload g0)))\<rparr>\<rparr>, hdr, 0)"
  using assms by (simp add: diffuse_path_def Let_def case_prod_unfold)

lemma specular_path_absorb:
  assumes "\<And>xi. event_type (bsdfSample ex toEye xi pm) = BSDF_EVENT_ABSORB ex"
  shows "specular_path ex frameInfo pc res pm org toEye lobeWeights specularRatio hdr g0 =
           (g0\<lparr>payload := (payload g0)\<lparr>seed := snd (rand3 ex (seed (payload g0)))\<rparr>\<rparr>, hdr, 0)"
  using assms by (simp add: specular_path_def Let_def case_prod_unfold)

lemma traceRayEXT_shadow_miss:
  assumes "intersect ex r = None" "missIndex r = MISSINDEX_PATHTRACE"
  shows "traceRayEXT maxPipelineRayRecursionDepth ex frameInfo pc res r st =
           st\<lparr>traced := traced st @ [r],
              payload := pathtrace_rmiss_main ex frameInfo (ray_direction r) (payload st)\<rparr>"
  using assms
  by (simp add: maxPipelineRayRecursionDepth_def numeral_2_eq_2 traceRayEXT.simps Let_def
      MISSINDEX_PATHTRACE_def MISSINDEX_NRD_def)

lemma hdr_edge:
  assumes "N pm = Vec3 (4/5) 0 (- 3/5)"
  shows "HdrContrib (traceRayEXT maxPipelineRayRecursionDepth (scene_edge m2 m3) frame_test pc_test result_test)
           (scene_edge m2 m3) frame_test pm p k g =
         (Vec3 (1/2) (1/2) (1/2), Vec3 (1/2) (1/2) (1/2),
          g\<lparr>payload := pathtrace_rmiss_main (scene_edge m2 m3) frame_test (Vec3 1 0 0)
                          ((payload g)\<lparr>seed := snd (rand3 (scene_edge m2 m3) (seed (payload g))), hitT := 0\<rparr>),
            traced := traced g @
              [\<lparr>rayFlags = gl_RayFlagsTerminateOnFirstHitEXT OR gl_RayFlagsSkipClosestHitShaderEXT
                            OR gl_RayFlagsCullBackFacingTrianglesEXT,
                sbtRecordOffset = SBTOFFSET_PATHTRACE, missIndex = MISSINDEX_PATHTRACE,
                ray_origin = p, Tmin = 0.001, ray_direction = Vec3 1 0 0, Tmax = 1000000\<rparr>]\<rparr>)"
  using assms
  by (simp add: HdrContrib_def Let_def case_prod_unfold edge_vals traceRayEXT_shadow_miss
      frame_test_def dot_def xyz_def powerHeuristic_def sdiv_def smul_def vec_defs)

lemma env_rgen_row:
  "EnvironmentTerm_Rtg (\<lambda>M v. vec_mat2 v M) (\<lambda>M v. vec_mat3 v M) (Vec3 (1/25) (1/25) (1/25)) 0 1
     = Vec3 (4872897081997/123912687025000) (4872897081997/123912687025000) (4872897081997/123912687025000)"
  by code_simp

lemma env_comp_row:
  "EnvironmentTerm_Rtg (\<lambda>M v. vec_mat2 v M) (\<lambda>M v. vec_mat3 v M) (Vec3 (1/25) (1/25) (1/25)) (- (3/5)) 1
     = Vec3 1 1 1"
  by code_simp

lemma env_rgen_col:
  "EnvironmentTerm_Rtg mat2_vec mat3_vec (Vec3 (1/25) (1/25) (1/25)) 0 1 = Vec3 (94634086925267/2556751671292500) (94634086925267/2556751671292500) (94634086925267/2556751671292500)"
  by code_simp

lemma env_comp_col:
  "EnvironmentTerm_Rtg mat2_vec mat3_vec (Vec3 (1/25) (1/25) (1/25)) (- (3/5)) 1 = Vec3 0 0 0"
  by code_simp

lemma rf0_edge:
  "ConvertBaseColorMetalnessToAlbedoRf0 (Vec3 (1/2) (1/2) (1/2)) 0
     = (Vec3 (1/2) (1/2) (1/2), Vec3 (1/25) (1/25) (1/25))"
  by (simp add: ConvertBaseColorMetalnessToAlbedoRf0_def Let_def saturate_def clamp_def mix_def
      STL_RF0_DIELECTRICS_def smul_def vec3_of_def vec_defs)

text \<open>The stores of the pixel, with the environment term of STEP 4.4 still symbolic.\<close>

lemma rgen_edge_stored:
  "stored (rgen_main (scene_edge m2 m3) frame_test pc_test result_test mat_grey hitState_test payload_test
             payloadNrd_test (0, 0) (1, 1)) =
     [(nrdViewZ, Vec4 (- 2) (- 2) (- 2) (- 2)),
      (nrdNormalRoughness, Vec4 (4/5) 0 (- 3/5) 1),
      (nrdObjectMotion, Vec4 0 0 0 0),
      (nrdBaseColorMetalness, Vec4 (1/2) (1/2) (1/2) 0),
      (nrdDirectLighting, Vec4 0 0 0 1),
      (nrdUDiff, Vec4 (100/101) (100/101) (100/101) 1),
      (nrdUSpec, vec4_xyz_w (Vec3 (1/2) (1/2) (1/2) /
                  (smul 0.99 (EnvironmentTerm_Rtg m2 m3 (Vec3 (1/25) (1/25) (1/25)) 0 1) + vec3_of 0.01)) 1)]"
proof -
  have m: "N mat_rough = Vec3 (4/5) 0 (- 3/5)" "baseColor mat_rough = Vec3 (1/2) (1/2) (1/2)"
    "metallic mat_rough = 0" "roughness mat_rough = Vec2 1 1" "emissive mat_rough = Vec3 0 0 0"
    "specularColor mat_rough = Vec3 1 1 1"
    by (simp_all add: mat_rough_def)
  have pcv: "pc_method pc_test = NRD_REFERENCE" "NRD_REFERENCE \<noteq> NRD_REBLUR" "NRD_REFERENCE \<noteq> NRD_RELAX"
    by (simp_all add: pc_test_def NRD_REFERENCE_def NRD_REBLUR_def NRD_RELAX_def)
  have fr: "view frame_test = mat4_identity"
    by (simp add: frame_test_def)
  show ?thesis
    apply (simp add: rgen_main_def Let_def psr_edge init_org init_dir)
    apply (simp add: rgen_surface_def Let_def psr_edge m mat3_vec_id hdr_edge edge_vals
        indirectDiffuse_def diffuse_path_absorb indirectSpecular_def specular_path_absorb
        sample_absorb_def rf0_edge pcv imageStore_def DirectLight_def
        fr mat4_identity_def mat4_vec_def vec4_of_def MATERIAL_ID_DEFAULT_def)
    apply (simp add: vec4_xyz_w_def divide_vec3_def vec_defs rf0_edge)
    done
qed


lemma comp_edge:
  "compositing_main (scene_edge m2 m3) frame_test pc_test (1, 1) (0, 0)
     (\<lambda>c. Vec4 0 0 0 1)
     (\<lambda>c. Vec4 (100/101) (100/101) (100/101) 1)
     (\<lambda>c. spec)
     (\<lambda>c. Vec4 (1/2) (1/2) (1/2) 0)
     (\<lambda>c. Vec4 (4/5) 0 (- (3/5)) 1)
     (\<lambda>c. Vec4 (- 2) (- 2) (- 2) (- 2))
   = Some ((0, 0), vec4_xyz_w (Vec3 (1/2) (1/2) (1/2) + xyz spec *
        (smul 0.99 (EnvironmentTerm_Rtg m2 m3 (Vec3 (1/25) (1/25) (1/25)) (- (3/5)) 1) + vec3_of 0.01)) 1)"
proof -
  have pcv: "pc_method pc_test = NRD_REFERENCE" "NRD_REFERENCE \<noteq> NRD_REBLUR" "NRD_REFERENCE \<noteq> NRD_RELAX"
    by (simp_all add: pc_test_def NRD_REFERENCE_def NRD_REBLUR_def NRD_RELAX_def)
  have fr: "viewInv frame_test = mat4_identity" "jitter frame_test = Vec2 0 0"
    "projInv frame_test = Mat4 (Vec4 1 0 0 0) (Vec4 0 1 0 0) (Vec4 0 0 0 0) (Vec4 0 0 (- 1) 1)"
    by (simp_all add: frame_test_def)
  have pw: "ReconstructViewPosition frame_test (Vec2 (1/2) (1/2)) (- 2) = Vec3 0 0 (- 2)"
    by (simp add: ReconstructViewPosition_def Let_def fr mat4_vec_def mat4_identity_def xyz_def)
  have v: "normalize3 (Vec3 0 0 2) = Vec3 0 0 1"
    by (simp add: normalize3_def length3_def sdiv_def vec_defs)
  show ?thesis
    by (simp add: compositing_main_def Let_def pcv fr pw v edge_vals xyz_def mat4_identity_def
        rf0_edge dot_def vec4_xyz_w_def vec_defs)
qed

text \<open>
  C1. The re-modulation of the compositor does not invert the de-modulation of nrd.rgen
  at a pixel whose shading normal points away from the viewer. nrd.rgen divides the
  specular radiance by \<open>0.99 * EnvironmentTerm_Rtg(Rf0, max(VdotN, 0), roughness) + 0.01\<close>,
  the compositor multiplies by \<open>0.99 * EnvironmentTerm_Rtg(Rf0, NoV, roughness) + 0.01\<close>
  with \<open>NoV\<close> not clamped. At the pixel of \<open>scene_edge\<close>, \<open>VdotN = NoV = -3/5\<close>, the
  direct lighting is 0 and the diffuse and the specular radiance are \<open>1/2\<close> each, so the
  radiance is 1 in every channel. The images nrd.rgen stores are handed to the
  compositor unchanged. The diffuse part comes back as \<open>1/2\<close>; the specular part does
  not: with \<open>mul\<close> read as row vector times matrix the compositor writes about 10.718,
  with \<open>mul\<close> read as matrix times column vector about 0.607.
\<close>

theorem specular_remodulation_mismatch:
  "(let ex = scene_edge (\<lambda>M v. vec_mat2 v M) (\<lambda>M v. vec_mat3 v M);
        g = rgen_main ex frame_test pc_test result_test mat_grey hitState_test payload_test
              payloadNrd_test (0, 0) (1, 1);
        img = (\<lambda>i c. the (map_of (stored g) i))
    in stored g =
         [(nrdViewZ, Vec4 (- 2) (- 2) (- 2) (- 2)),
          (nrdNormalRoughness, Vec4 (4/5) 0 (- 3/5) 1),
          (nrdObjectMotion, Vec4 0 0 0 0),
          (nrdBaseColorMetalness, Vec4 (1/2) (1/2) (1/2) 0),
          (nrdDirectLighting, Vec4 0 0 0 1),
          (nrdUDiff, Vec4 (100/101) (100/101) (100/101) 1),
          (nrdUSpec, Vec4 (6195634351250000/606329498142703) (6195634351250000/606329498142703) (6195634351250000/606329498142703) 1)]
       \<and> compositing_main ex frame_test pc_test (1, 1) (0, 0) (img nrdDirectLighting) (img nrdUDiff)
             (img nrdUSpec) (img nrdBaseColorMetalness) (img nrdNormalRoughness) (img nrdViewZ)
           = Some ((0, 0), Vec4 (12997598200642703/1212658996285406) (12997598200642703/1212658996285406) (12997598200642703/1212658996285406) 1))
   \<and> (let ex = scene_edge mat2_vec mat3_vec;
        g = rgen_main ex frame_test pc_test result_test mat_grey hitState_test payload_test
              payloadNrd_test (0, 0) (1, 1);
        img = (\<lambda>i c. the (map_of (stored g) i))
    in stored g =
         [(nrdViewZ, Vec4 (- 2) (- 2) (- 2) (- 2)),
          (nrdNormalRoughness, Vec4 (4/5) 0 (- 3/5) 1),
          (nrdObjectMotion, Vec4 0 0 0 0),
          (nrdBaseColorMetalness, Vec4 (1/2) (1/2) (1/2) 0),
          (nrdDirectLighting, Vec4 0 0 0 1),
          (nrdUDiff, Vec4 (100/101) (100/101) (100/101) 1),
          (nrdUSpec, Vec4 (1291288722875000/120459861382767) (1291288722875000/120459861382767) (1291288722875000/120459861382767) 1)]
       \<and> compositing_main ex frame_test pc_test (1, 1) (0, 0) (img nrdDirectLighting) (img nrdUDiff)
             (img nrdUSpec) (img nrdBaseColorMetalness) (img nrdNormalRoughness) (img nrdViewZ)
           = Some ((0, 0), Vec4 (146285635840267/240919722765534) (146285635840267/240919722765534) (146285635840267/240919722765534) 1))
   \<and> (\<forall>m2 m3 p k g.
         fst (HdrContrib (traceRayEXT maxPipelineRayRecursionDepth (scene_edge m2 m3) frame_test
                            pc_test result_test) (scene_edge m2 m3) frame_test mat_rough p k g)
           = Vec3 (1/2) (1/2) (1/2)
         \<and> fst (snd (HdrContrib (traceRayEXT maxPipelineRayRecursionDepth (scene_edge m2 m3) frame_test
                            pc_test result_test) (scene_edge m2 m3) frame_test mat_rough p k g))
           = Vec3 (1/2) (1/2) (1/2))"
proof (intro conjI)
  show "let ex = scene_edge (\<lambda>M v. vec_mat2 v M) (\<lambda>M v. vec_mat3 v M);
        g = rgen_main ex frame_test pc_test result_test mat_grey hitState_test payload_test
              payloadNrd_test (0, 0) (1, 1);
        img = (\<lambda>i c. the (map_of (stored g) i))
    in stored g =
         [(nrdViewZ, Vec4 (- 2) (- 2) (- 2) (- 2)),
          (nrdNormalRoughness, Vec4 (4/5) 0 (- 3/5) 1),
          (nrdObjectMotion, Vec4 0 0 0 0),
          (nrdBaseColorMetalness, Vec4 (1/2) (1/2) (1/2) 0),
          (nrdDirectLighting, Vec4 0 0 0 1),
          (nrdUDiff, Vec4 (100/101) (100/101) (100/101) 1),
          (nrdUSpec, Vec4 (6195634351250000/606329498142703) (6195634351250000/606329498142703) (6195634351250000/606329498142703) 1)]
       \<and> compositing_main ex frame_test pc_test (1, 1) (0, 0) (img nrdDirectLighting) (img nrdUDiff)
             (img nrdUSpec) (img nrdBaseColorMetalness) (img nrdNormalRoughness) (img nrdViewZ)
           = Some ((0, 0), Vec4 (12997598200642703/1212658996285406) (12997598200642703/1212658996285406) (12997598200642703/1212658996285406) 1)"
    by (simp add: Let_def rgen_edge_stored comp_edge env_rgen_row env_comp_row
        vec4_xyz_w_def divide_vec3_def xyz_def vec_defs)
next
  show "let ex = scene_edge mat2_vec mat3_vec;
        g = rgen_main ex frame_test pc_test result_test mat_grey hitState_test payload_test
              payloadNrd_test (0, 0) (1, 1);
        img = (\<lambda>i c. the (map_of (stored g) i))
    in stored g =
         [(nrdViewZ, Vec4 (- 2) (- 2) (- 2) (- 2)),
          (nrdNormalRoughness, Vec4 (4/5) 0 (- 3/5) 1),
          (nrdObjectMotion, Vec4 0 0 0 0),
          (nrdBaseColorMetalness, Vec4 (1/2) (1/2) (1/2) 0),
          (nrdDirectLighting, Vec4 0 0 0 1),
          (nrdUDiff, Vec4 (100/101) (100/101) (100/101) 1),
          (nrdUSpec, Vec4 (1291288722875000/120459861382767) (1291288722875000/120459861382767) (1291288722875000/120459861382767) 1)]
       \<and> compositing_main ex frame_test pc_test (1, 1) (0, 0) (img nrdDirectLighting) (img nrdUDiff)
             (img nrdUSpec) (img nrdBaseColorMetalness) (img nrdNormalRoughness) (img nrdViewZ)
           = Some ((0, 0), Vec4 (146285635840267/240919722765534) (146285635840267/240919722765534) (146285635840267/240919722765534) 1)"
    by (simp add: Let_def rgen_edge_stored comp_edge env_rgen_col env_comp_col
        vec4_xyz_w_def divide_vec3_def xyz_def vec_defs)
next
  show "\<forall>m2 m3 p k g.
         fst (HdrContrib (traceRayEXT maxPipelineRayRecursionDepth (scene_edge m2 m3) frame_test
                            pc_test result_test) (scene_edge m2 m3) frame_test mat_rough p k g)
           = Vec3 (1/2) (1/2) (1/2)
         \<and> fst (snd (HdrContrib (traceRayEXT maxPipelineRayRecursionDepth (scene_edge m2 m3) frame_test
                            pc_test result_test) (scene_edge m2 m3) frame_test mat_rough p k g))
           = Vec3 (1/2) (1/2) (1/2)"
    by (simp add: hdr_edge mat_rough_def)
qed

section \<open>The textures of the pools\<close>






text \<open>
  The dividend of \<open>DivideRoundUp\<close> has 32 bits and its result 16: a dividend that does
  not fit the 16 bits of a resolution is cut by the cast. \<open>createTexture\<close>, the only
  caller, passes a 16-bit width or height.
\<close>

lemma DivideRoundUp_wide: "DivideRoundUp 65536 1 = Inr 0"
  by (simp add: DivideRoundUp_def)






lemma cleared_idem [simp]: "cleared (cleared i) = cleared i"
  by (simp add: cleared_def)










section \<open>The upload of the constant buffer\<close>

text \<open>
  The loops over the resources and over the samplers keep the length of the vector of
  descriptor updates and write no update of a uniform buffer.
\<close>

lemma NRDDescriptorTypeToVulkan_not_uniform:
  "NRDDescriptorTypeToVulkan k \<noteq> VK_DESCRIPTOR_TYPE_UNIFORM_BUFFER"
  by (cases k) simp_all

lemma noUniformWrite_update:
  assumes "noUniformWrite s" "wds_descriptorType u \<noteq> VK_DESCRIPTOR_TYPE_UNIFORM_BUFFER"
    and "descriptorUpdates s1 = (descriptorUpdates s)[n := u]"
  shows "noUniformWrite s1"
  using assms set_update_subset_insert [of "descriptorUpdates s" n u]
  by (auto simp add: noUniformWrite_def)

lemma dispatch_descriptor_updates:
  assumes "dispatch_descriptor w dd r d s = Inr s1"
  shows "length (descriptorUpdates s1) = length (descriptorUpdates s)"
    and "length (descriptorImageInfos s1) = length (descriptorImageInfos s)"
    and "numResourceUpdates s1 = Suc (numResourceUpdates s)"
    and "noUniformWrite s \<Longrightarrow> noUniformWrite s1"
proof -
  show "length (descriptorUpdates s1) = length (descriptorUpdates s)"
    and "length (descriptorImageInfos s1) = length (descriptorImageInfos s)"
    and "numResourceUpdates s1 = Suc (numResourceUpdates s)"
    using assms
    by (auto simp add: dispatch_descriptor_def Let_def split: if_splits sum.splits)
  have "\<exists>x. descriptorUpdates s1 = (descriptorUpdates s)[numResourceUpdates s := x]
            \<and> wds_descriptorType x \<noteq> VK_DESCRIPTOR_TYPE_UNIFORM_BUFFER"
    using assms
    by (auto simp add: dispatch_descriptor_def Let_def NRDDescriptorTypeToVulkan_not_uniform
        split: if_splits sum.splits)
  then show "noUniformWrite s1" if "noUniformWrite s"
    using that by (auto intro: noUniformWrite_update)
qed

lemma dispatch_range_updates:
  assumes "dispatch_range w dd r ds s = Inr s1"
  shows "length (descriptorUpdates s1) = length (descriptorUpdates s)
         \<and> length (descriptorImageInfos s1) = length (descriptorImageInfos s)
         \<and> numResourceUpdates s1 = numResourceUpdates s + length ds
         \<and> (noUniformWrite s \<longrightarrow> noUniformWrite s1)"
  using assms
proof (induction ds arbitrary: s)
  case Nil
  then show ?case by simp
next
  case (Cons d ds)
  from Cons.prems obtain s0 where a: "dispatch_descriptor w dd r d s = Inr s0"
    and b: "dispatch_range w dd r ds s0 = Inr s1"
    by (auto split: sum.splits)
  from dispatch_descriptor_updates [OF a] Cons.IH [OF b] show ?case
    by simp
qed

lemma dispatch_ranges_updates:
  assumes "dispatch_ranges w dd rs s = Inr s1"
  shows "length (descriptorUpdates s1) = length (descriptorUpdates s)
         \<and> length (descriptorImageInfos s1) = length (descriptorImageInfos s)
         \<and> (noUniformWrite s \<longrightarrow> noUniformWrite s1)"
  using assms
proof (induction rs arbitrary: s)
  case Nil
  then show ?case by simp
next
  case (Cons r rs)
  from Cons.prems obtain s0 where
    a: "dispatch_range w dd r (map of_nat [0 ..< unat (descriptorsNum r)]) s = Inr s0"
    and b: "dispatch_ranges w dd rs s0 = Inr s1"
    by (auto split: sum.splits)
  from dispatch_range_updates [OF a] Cons.IH [OF b] show ?case
    by simp
qed

lemma dispatch_samplers_updates:
  assumes "dispatch_samplers w is s = Inr s1"
  shows "length (descriptorUpdates s1) = length (descriptorUpdates s)
         \<and> (noUniformWrite s \<longrightarrow> noUniformWrite s1)"
  using assms
proof (induction "is" arbitrary: s)
  case Nil
  then show ?case by simp
next
  case (Cons i "is")
  let ?n = "numResourceUpdates s"
  let ?s0 = "s\<lparr>descriptorUpdates := (descriptorUpdates s)[?n :=
                 (descriptorUpdates s ! ?n)
                   \<lparr>dstBinding := samplerOffset (m_offsets w) + samplersBaseRegisterIndex (m_iDesc w) + i,
                    descriptorCount := 1, wds_descriptorType := VK_DESCRIPTOR_TYPE_SAMPLER,
                    pImageInfo := Some ?n\<rparr>],
               numResourceUpdates := ?n + 1\<rparr>"
  from Cons.prems have b: "dispatch_samplers w is ?s0 = Inr s1"
    by (auto simp add: Let_def split: if_splits)
  have "noUniformWrite s \<Longrightarrow> noUniformWrite ?s0"
    by (erule noUniformWrite_update [where n = ?n]) simp_all
  with Cons.IH [OF b] show ?case
    by auto
qed


lemma barrier_layout_buffers: "buffers (fold barrier_layout imgs dev) = buffers dev"
  by (induction imgs arbitrary: dev) (simp_all split: option.splits)

lemma dispatch_tail_buffers:
  "buffers (fold exec_command
              [CmdPipelineBarrier a b [] imgs, CmdPushDescriptorSetKHR lay setIndex writes infos,
               CmdBindPipeline pipe, CmdDispatch gw gh gd] dev) = buffers dev"
  by (simp add: barrier_layout_buffers)

lemma bracketed_upload_buffers:
  "buffers (fold exec_command (bracketed_upload buf dd) dev) =
     (case buffers dev buf of
        None \<Rightarrow> buffers dev
      | Some old \<Rightarrow> (buffers dev)(buf \<mapsto> take (unat (constantBufferDataSize dd)) (constantBufferData dd)
                                          @ drop (unat (constantBufferDataSize dd)) old))"
  by (simp add: bracketed_upload_def split: option.splits)

text \<open>
  C9. A dispatch that returns has appended to the command buffer: the upload of the
  constants between its two buffer barriers exactly when the pipeline has constant data
  and the data do not match the previous dispatch, and nothing in its place otherwise;
  then the barrier of the images (which has no buffer barrier), the push of the
  descriptors, the bind and the dispatch. The pushed descriptors contain an update of a
  uniform buffer exactly when the pipeline has constant data, and then it is the last one
  and names the constant buffer. Submitting the appended commands changes the buffers of
  the device exactly when the upload was recorded: the constant buffer then holds the new
  data in place of its first bytes.
\<close>

theorem constant_buffer_upload:
  assumes "dispatch w commandBuffer dispatchDesc = Inr cb"
  shows "let pDesc = pipelines (m_iDesc w) ! unat (pipelineIndex dispatchDesc);
             pipe = m_pipelines w ! unat (pipelineIndex dispatchDesc);
             buf = m_constantBuffer w;
             upload = (hasConstantData pDesc
                       \<and> \<not> constantBufferDataMatchesPreviousDispatch dispatchDesc)
         in \<exists>imgs writes infos.
              cb = commandBuffer @ (if upload then bracketed_upload buf dispatchDesc else [])
                     @ [CmdPipelineBarrier VK_PIPELINE_STAGE_COMPUTE_SHADER_BIT
                          VK_PIPELINE_STAGE_COMPUTE_SHADER_BIT [] imgs,
                        CmdPushDescriptorSetKHR (pipelineLayout pipe) (m_resourcesSetIndex w) writes infos,
                        CmdBindPipeline (pipeline pipe),
                        CmdDispatch (gridWidth dispatchDesc) (gridHeight dispatchDesc) 1]
              \<and> ((\<exists>u \<in> set writes. wds_descriptorType u = VK_DESCRIPTOR_TYPE_UNIFORM_BUFFER)
                   \<longleftrightarrow> hasConstantData pDesc)
              \<and> (hasConstantData pDesc \<longrightarrow>
                    writes \<noteq> []
                    \<and> last writes = \<lparr>dstBinding = constantBufferOffset (m_offsets w), descriptorCount = 1,
                                     wds_descriptorType = VK_DESCRIPTOR_TYPE_UNIFORM_BUFFER,
                                     pImageInfo = None, pBufferInfo = Some buf\<rparr>)
              \<and> (\<forall>dev. buffers (submitAndWait (drop (length commandBuffer) cb) dev) =
                     (if upload then
                        (case buffers dev buf of
                           None \<Rightarrow> buffers dev
                         | Some old \<Rightarrow>
                             (buffers dev)(buf \<mapsto>
                                take (unat (constantBufferDataSize dispatchDesc))
                                  (constantBufferData dispatchDesc)
                                @ drop (unat (constantBufferDataSize dispatchDesc)) old))
                      else buffers dev))"
proof -
  let ?iDesc = "m_iDesc w"
  let ?p = "unat (pipelineIndex dispatchDesc)"
  let ?pDesc = "pipelines ?iDesc ! ?p"
  let ?pipe = "m_pipelines w ! ?p"
  let ?len = "unat (numBindings ?pipe + of_nat (length (samplers ?iDesc)))"
  let ?s0 = "\<lparr>numResourceUpdates = 0,
               descriptorUpdates = replicate ?len make_VkWriteDescriptorSet,
               descriptorImageInfos = replicate ?len zero_VkDescriptorImageInfo,
               imageBarriers = []\<rparr>"
  let ?buf = "m_constantBuffer w"
  let ?tail = "\<lambda>s. [CmdPipelineBarrier VK_PIPELINE_STAGE_COMPUTE_SHADER_BIT
                          VK_PIPELINE_STAGE_COMPUTE_SHADER_BIT [] (imageBarriers s),
                    CmdPushDescriptorSetKHR (pipelineLayout ?pipe) (m_resourcesSetIndex w)
                      (take (numResourceUpdates s) (descriptorUpdates s)) (descriptorImageInfos s),
                    CmdBindPipeline (pipeline ?pipe),
                    CmdDispatch (gridWidth dispatchDesc) (gridHeight dispatchDesc) 1]"
  from assms obtain s1 s2 s3 cb1 where
    r: "dispatch_ranges w dispatchDesc (resourceRanges ?pDesc) ?s0 = Inr s1"
    and sm: "dispatch_samplers w (map of_nat [0 ..< length (samplers ?iDesc)]) s1 = Inr s2"
    and c: "dispatch_constants w ?pDesc dispatchDesc commandBuffer s2 = Inr (cb1, s3)"
    and cb: "cb = cb1 @ ?tail s3"
    by (auto simp add: dispatch_def Let_def split: if_splits sum.splits prod.splits)
  have "noUniformWrite ?s0"
    by (simp add: noUniformWrite_def make_VkWriteDescriptorSet_def)
  with r have "noUniformWrite s1"
    using dispatch_ranges_updates by blast
  with sm have nu: "noUniformWrite s2"
    using dispatch_samplers_updates by blast
  let ?u = "\<lparr>dstBinding = constantBufferOffset (m_offsets w), descriptorCount = 1,
              wds_descriptorType = VK_DESCRIPTOR_TYPE_UNIFORM_BUFFER,
              pImageInfo = None, pBufferInfo = Some ?buf\<rparr>"
  let ?upload = "hasConstantData ?pDesc \<and> \<not> constantBufferDataMatchesPreviousDispatch dispatchDesc"
  have cb1: "cb1 = commandBuffer @ (if ?upload then bracketed_upload ?buf dispatchDesc else [])"
    using c
    by (auto simp add: dispatch_constants_def Let_def bracketed_upload_def split: if_splits)
  have writes: "(\<exists>u \<in> set (take (numResourceUpdates s3) (descriptorUpdates s3)).
                   wds_descriptorType u = VK_DESCRIPTOR_TYPE_UNIFORM_BUFFER) \<longleftrightarrow> hasConstantData ?pDesc"
    and lst: "hasConstantData ?pDesc \<longrightarrow>
                take (numResourceUpdates s3) (descriptorUpdates s3) \<noteq> []
                \<and> last (take (numResourceUpdates s3) (descriptorUpdates s3)) = ?u"
  proof -
    show "hasConstantData ?pDesc \<longrightarrow>
                take (numResourceUpdates s3) (descriptorUpdates s3) \<noteq> []
                \<and> last (take (numResourceUpdates s3) (descriptorUpdates s3)) = ?u"
    proof
      assume h: "hasConstantData ?pDesc"
      with c have n: "numResourceUpdates s2 < length (descriptorUpdates s2)"
        and s3: "descriptorUpdates s3 = (descriptorUpdates s2)[numResourceUpdates s2 := ?u]"
                "numResourceUpdates s3 = Suc (numResourceUpdates s2)"
        by (auto simp add: dispatch_constants_def Let_def make_VkWriteDescriptorSet_def
            split: if_splits)
      from n have "take (Suc (numResourceUpdates s2)) ((descriptorUpdates s2)[numResourceUpdates s2 := ?u])
                     = take (numResourceUpdates s2) (descriptorUpdates s2) @ [?u]"
        by (simp add: take_Suc_conv_app_nth)
      then show "take (numResourceUpdates s3) (descriptorUpdates s3) \<noteq> []
                \<and> last (take (numResourceUpdates s3) (descriptorUpdates s3)) = ?u"
        by (simp add: s3)
    qed
    then have a: "hasConstantData ?pDesc \<Longrightarrow>
               \<exists>u \<in> set (take (numResourceUpdates s3) (descriptorUpdates s3)).
                   wds_descriptorType u = VK_DESCRIPTOR_TYPE_UNIFORM_BUFFER"
      by (metis last_in_set VkWriteDescriptorSet.select_convs(3))
    have b: "\<not> hasConstantData ?pDesc \<Longrightarrow>
               \<not> (\<exists>u \<in> set (take (numResourceUpdates s3) (descriptorUpdates s3)).
                   wds_descriptorType u = VK_DESCRIPTOR_TYPE_UNIFORM_BUFFER)"
    proof -
      assume "\<not> hasConstantData ?pDesc"
      with c have "s3 = s2"
        by (simp add: dispatch_constants_def)
      with nu show ?thesis
        by (auto simp add: noUniformWrite_def dest: in_set_takeD)
    qed
    from a b show "(\<exists>u \<in> set (take (numResourceUpdates s3) (descriptorUpdates s3)).
                   wds_descriptorType u = VK_DESCRIPTOR_TYPE_UNIFORM_BUFFER) \<longleftrightarrow> hasConstantData ?pDesc"
      by blast
  qed
  have eff: "buffers (submitAndWait (drop (length commandBuffer) cb) dev) =
               (if ?upload then
                  (case buffers dev ?buf of
                     None \<Rightarrow> buffers dev
                   | Some old \<Rightarrow>
                       (buffers dev)(?buf \<mapsto>
                          take (unat (constantBufferDataSize dispatchDesc)) (constantBufferData dispatchDesc)
                          @ drop (unat (constantBufferDataSize dispatchDesc)) old))
                else buffers dev)" for dev
  proof (cases ?upload)
    case True
    then have "drop (length commandBuffer) cb = bracketed_upload ?buf dispatchDesc @ ?tail s3"
      by (simp add: cb cb1)
    with True show ?thesis
      by (simp only: submitAndWait_def fold_append o_apply dispatch_tail_buffers
          bracketed_upload_buffers) simp
  next
    case False
    then have "drop (length commandBuffer) cb = ?tail s3"
      by (auto simp add: cb cb1)
    with False show ?thesis
      by (simp only: submitAndWait_def dispatch_tail_buffers) simp
  qed
  from cb cb1 have full:
    "cb = commandBuffer @ (if ?upload then bracketed_upload ?buf dispatchDesc else []) @ ?tail s3"
    by simp
  show ?thesis
    unfolding Let_def
  proof (intro exI conjI allI)
    show "cb = commandBuffer @ (if ?upload then bracketed_upload ?buf dispatchDesc else []) @ ?tail s3"
      by (rule full)
    show "(\<exists>u \<in> set (take (numResourceUpdates s3) (descriptorUpdates s3)).
                   wds_descriptorType u = VK_DESCRIPTOR_TYPE_UNIFORM_BUFFER) \<longleftrightarrow> hasConstantData ?pDesc"
      by (rule writes)
    show "hasConstantData ?pDesc \<longrightarrow>
                take (numResourceUpdates s3) (descriptorUpdates s3) \<noteq> []
                \<and> last (take (numResourceUpdates s3) (descriptorUpdates s3)) = ?u"
      by (rule lst)
    show "buffers (submitAndWait (drop (length commandBuffer) cb) dev) =
               (if ?upload then
                  (case buffers dev ?buf of
                     None \<Rightarrow> buffers dev
                   | Some old \<Rightarrow>
                       (buffers dev)(?buf \<mapsto>
                          take (unat (constantBufferDataSize dispatchDesc)) (constantBufferData dispatchDesc)
                          @ drop (unat (constantBufferDataSize dispatchDesc)) old))
                else buffers dev)" for dev
      by (rule eff)
  qed
qed

text \<open>
  The first pipeline of \<open>iDesc_test\<close> has constant data: with new data the four bytes of
  the buffer are replaced, with matching data the same descriptors are pushed and the
  buffer keeps its bytes.
\<close>

lemma dispatch_test_upload:
  "dispatch wrapper_test [] dispatch_test = Inr (bracketed_upload 9 dispatch_test @ dispatch_tail_test)"
  by code_simp

lemma dispatch_test_same:
  "dispatch wrapper_test [] (dispatch_test\<lparr>constantBufferDataMatchesPreviousDispatch := True\<rparr>)
     = Inr dispatch_tail_test"
  by code_simp

theorem constant_buffer_upload_witness:
  "dispatch wrapper_test [] dispatch_test = Inr (bracketed_upload 9 dispatch_test @ dispatch_tail_test)
   \<and> buffers (submitAndWait (bracketed_upload 9 dispatch_test @ dispatch_tail_test) device_test)
       = [9 \<mapsto> [1, 2, 3, 4, 7]]
   \<and> dispatch wrapper_test [] (dispatch_test\<lparr>constantBufferDataMatchesPreviousDispatch := True\<rparr>)
       = Inr dispatch_tail_test
   \<and> buffers (submitAndWait dispatch_tail_test device_test) = [9 \<mapsto> [0, 0, 0, 0, 7]]"
proof -
  have vals: "m_constantBuffer wrapper_test = 9"
    "hasConstantData (pipelines (m_iDesc wrapper_test) ! unat (pipelineIndex dispatch_test))"
    "\<not> constantBufferDataMatchesPreviousDispatch dispatch_test"
    "constantBufferDataSize dispatch_test = 4" "constantBufferData dispatch_test = [1, 2, 3, 4]"
    "buffers device_test = [9 \<mapsto> [0, 0, 0, 0, 7]]"
    by (simp_all add: wrapper_test_def iDesc_test_def dispatch_test_def device_test_def)
  note up = constant_buffer_upload [OF dispatch_test_upload]
  note same = constant_buffer_upload [OF dispatch_test_same]
  from up have "\<forall>dev. buffers (submitAndWait (bracketed_upload 9 dispatch_test @ dispatch_tail_test) dev) =
          (case buffers dev 9 of
             None \<Rightarrow> buffers dev
           | Some old \<Rightarrow> (buffers dev)(9 \<mapsto>
                take (unat (constantBufferDataSize dispatch_test)) (constantBufferData dispatch_test)
                @ drop (unat (constantBufferDataSize dispatch_test)) old))"
    by (auto simp add: Let_def vals)
  then have a: "buffers (submitAndWait (bracketed_upload 9 dispatch_test @ dispatch_tail_test) device_test)
                  = [9 \<mapsto> [1, 2, 3, 4, 7]]"
    by (simp add: vals)
  from same have "\<forall>dev. buffers (submitAndWait dispatch_tail_test dev) = buffers dev"
    by (auto simp add: Let_def vals)
  then have b: "buffers (submitAndWait dispatch_tail_test device_test) = [9 \<mapsto> [0, 0, 0, 0, 7]]"
    by (simp add: vals)
  from a b dispatch_test_upload dispatch_test_same show ?thesis
    by simp
qed

section \<open>The kinds of the resources of a dispatch\<close>

text \<open>
  The nested loops of \<open>dispatch\<close> are the loop over the flattened list of pairs, and the
  kinds along that list are the kinds the pipeline expects.
\<close>

lemma dispatch_each_append:
  "dispatch_each w dd (xs @ ys) s =
     (case dispatch_each w dd xs s of Inl e \<Rightarrow> Inl e | Inr s1 \<Rightarrow> dispatch_each w dd ys s1)"
  by (induction xs arbitrary: s) (auto split: sum.splits)

lemma dispatch_range_each:
  "dispatch_range w dd r ds s = dispatch_each w dd (map (Pair r) ds) s"
  by (induction ds arbitrary: s) (auto split: sum.splits)

lemma dispatch_ranges_each:
  "dispatch_ranges w dd rs s = dispatch_each w dd (flatRanges rs) s"
proof (induction rs arbitrary: s)
  case Nil
  then show ?case by (simp add: flatRanges_def)
next
  case (Cons r rs)
  have f: "flatRanges (r # rs) = map (Pair r) (map of_nat [0 ..< unat (descriptorsNum r)]) @ flatRanges rs"
    by (simp add: flatRanges_def comp_def)
  show ?case
    by (simp add: f dispatch_each_append dispatch_range_each Cons.IH split: sum.splits)
qed

lemma flatRanges_kinds:
  "map (\<lambda>x. range_descriptorType (fst x)) (flatRanges (resourceRanges pDesc)) = expectedKinds pDesc"
  by (simp add: flatRanges_def expectedKinds_def map_concat comp_def map_replicate_const)

lemma dispatch_descriptor_Inr:
  assumes "dispatch_descriptor w dd r d s = Inr s1"
  shows "numResourceUpdates s < length (resources dd)"
    and "res_descriptorType (resources dd ! numResourceUpdates s) = range_descriptorType r"
    and "numResourceUpdates s1 = Suc (numResourceUpdates s)"
    and "length (descriptorUpdates s1) = length (descriptorUpdates s)"
    and "length (descriptorImageInfos s1) = length (descriptorImageInfos s)"
  using assms
  by (auto simp add: dispatch_descriptor_def Let_def split: if_splits sum.splits)

lemma dispatch_descriptor_no_assert:
  assumes "numResourceUpdates s < length (resources dd) \<Longrightarrow>
           res_descriptorType (resources dd ! numResourceUpdates s) = range_descriptorType r"
  shows "dispatch_descriptor w dd r d s \<noteq> Inl AssertDescriptorKind"
  using assms
  by (auto simp add: dispatch_descriptor_def Let_def resolveTexture_def
      split: if_splits sum.splits ResourceType.splits)

lemma dispatch_descriptor_assert:
  assumes "numResourceUpdates s < length (resources dd)"
    and "numResourceUpdates s < length (descriptorUpdates s)"
    and "numResourceUpdates s < length (descriptorImageInfos s)"
    and "res_descriptorType (resources dd ! numResourceUpdates s) \<noteq> range_descriptorType r"
  shows "dispatch_descriptor w dd r d s = Inl AssertDescriptorKind"
  using assms by (simp add: dispatch_descriptor_def Let_def)

lemma dispatch_descriptor_ok:
  assumes "numResourceUpdates s < length (resources dd)"
    and "numResourceUpdates s < length (descriptorUpdates s)"
    and "numResourceUpdates s < length (descriptorImageInfos s)"
    and "res_descriptorType (resources dd ! numResourceUpdates s) = range_descriptorType r"
    and "resolveTexture w (resources dd ! numResourceUpdates s) = Inr t"
  shows "\<exists>s1. dispatch_descriptor w dd r d s = Inr s1"
  using assms by (simp add: dispatch_descriptor_def Let_def)


lemma dispatch_each_Inr:
  assumes "dispatch_each w dd xs s = Inr s1"
  shows "\<forall>k < length xs. numResourceUpdates s + k < length (resources dd)
           \<and> res_descriptorType (resources dd ! (numResourceUpdates s + k))
               = range_descriptorType (fst (xs ! k))"
  using assms
proof (induction xs arbitrary: s)
  case Nil
  then show ?case by simp
next
  case (Cons x xs)
  obtain r d where x: "x = (r, d)" by (cases x)
  from Cons.prems x obtain s0 where a: "dispatch_descriptor w dd r d s = Inr s0"
    and b: "dispatch_each w dd xs s0 = Inr s1"
    by (auto split: sum.splits)
  note da = dispatch_descriptor_Inr [OF a]
  note ih = Cons.IH [OF b]
  have "numResourceUpdates s + k < length (resources dd)
        \<and> res_descriptorType (resources dd ! (numResourceUpdates s + k))
          = range_descriptorType (fst ((x # xs) ! k))" if "k < length (x # xs)" for k
  proof (cases k)
    case 0
    with da(1,2) x show ?thesis by simp
  next
    case (Suc j)
    with that ih da(3) show ?thesis by simp
  qed
  then show ?case by blast
qed

lemma dispatch_each_no_assert:
  assumes "\<forall>k < length xs. numResourceUpdates s + k < length (resources dd) \<longrightarrow>
             res_descriptorType (resources dd ! (numResourceUpdates s + k))
               = range_descriptorType (fst (xs ! k))"
  shows "dispatch_each w dd xs s \<noteq> Inl AssertDescriptorKind"
  using assms
proof (induction xs arbitrary: s)
  case Nil
  then show ?case by simp
next
  case (Cons x xs)
  obtain r d where x: "x = (r, d)" by (cases x)
  from Cons.prems [rule_format, of 0] x
  have first: "dispatch_descriptor w dd r d s \<noteq> Inl AssertDescriptorKind"
    by (intro dispatch_descriptor_no_assert) simp
  show ?case
  proof (cases "dispatch_descriptor w dd r d s")
    case (Inl e)
    with first x show ?thesis by auto
  next
    case (Inr s0)
    note da = dispatch_descriptor_Inr [OF Inr]
    have "\<forall>k < length xs. numResourceUpdates s0 + k < length (resources dd) \<longrightarrow>
             res_descriptorType (resources dd ! (numResourceUpdates s0 + k))
               = range_descriptorType (fst (xs ! k))"
    proof (intro allI impI)
      fix k assume k: "k < length xs" and b: "numResourceUpdates s0 + k < length (resources dd)"
      from Cons.prems [rule_format, of "Suc k"] k b da(3)
      show "res_descriptorType (resources dd ! (numResourceUpdates s0 + k))
               = range_descriptorType (fst (xs ! k))"
        by simp
    qed
    from Cons.IH [OF this] Inr x show ?thesis by simp
  qed
qed

lemma dispatch_each_assert:
  assumes "i < length xs"
    and "numResourceUpdates s + i < length (resources dd)"
    and "numResourceUpdates s + i < length (descriptorUpdates s)"
    and "numResourceUpdates s + i < length (descriptorImageInfos s)"
    and "\<forall>k < i. res_descriptorType (resources dd ! (numResourceUpdates s + k))
                      = range_descriptorType (fst (xs ! k))
                  \<and> (\<exists>t. resolveTexture w (resources dd ! (numResourceUpdates s + k)) = Inr t)"
    and "res_descriptorType (resources dd ! (numResourceUpdates s + i))
           \<noteq> range_descriptorType (fst (xs ! i))"
  shows "dispatch_each w dd xs s = Inl AssertDescriptorKind"
  using assms
proof (induction xs arbitrary: s i)
  case Nil
  then show ?case by simp
next
  case (Cons x xs)
  obtain r d where x: "x = (r, d)" by (cases x)
  show ?case
  proof (cases i)
    case 0
    with Cons.prems x have "dispatch_descriptor w dd r d s = Inl AssertDescriptorKind"
      by (intro dispatch_descriptor_assert) simp_all
    with x show ?thesis by simp
  next
    case (Suc j)
    from Cons.prems(5) [rule_format, of 0] Suc x obtain t where
      k0: "res_descriptorType (resources dd ! numResourceUpdates s) = range_descriptorType r"
      and t: "resolveTexture w (resources dd ! numResourceUpdates s) = Inr t"
      by auto
    from Cons.prems(2,3,4) Suc have b: "numResourceUpdates s < length (resources dd)"
      "numResourceUpdates s < length (descriptorUpdates s)"
      "numResourceUpdates s < length (descriptorImageInfos s)"
      by simp_all
    from dispatch_descriptor_ok [OF b k0 t] obtain s0 where
      a: "dispatch_descriptor w dd r d s = Inr s0"
      by blast
    note da = dispatch_descriptor_Inr [OF a]
    have p5: "\<forall>k < j. res_descriptorType (resources dd ! (numResourceUpdates s0 + k))
                      = range_descriptorType (fst (xs ! k))
                  \<and> (\<exists>t. resolveTexture w (resources dd ! (numResourceUpdates s0 + k)) = Inr t)"
    proof (intro allI impI)
      fix k assume "k < j"
      with Cons.prems(5) [rule_format, of "Suc k"] Suc da(3)
      show "res_descriptorType (resources dd ! (numResourceUpdates s0 + k))
                      = range_descriptorType (fst (xs ! k))
                  \<and> (\<exists>t. resolveTexture w (resources dd ! (numResourceUpdates s0 + k)) = Inr t)"
        by simp
    qed
    have "dispatch_each w dd xs s0 = Inl AssertDescriptorKind"
      using Cons.prems(1,2,3,4,6) Suc da
      by (intro Cons.IH [of j] p5) simp_all
    with a x show ?thesis by simp
  qed
qed

lemma dispatch_samplers_no_assert: "dispatch_samplers w is s \<noteq> Inl AssertDescriptorKind"
  by (induction "is" arbitrary: s) (auto simp add: Let_def)

lemma dispatch_constants_no_assert:
  "dispatch_constants w pDesc dd cb s \<noteq> Inl AssertDescriptorKind"
  by (auto simp add: dispatch_constants_def Let_def)


lemma flatRanges_nth:
  assumes "k < length (expectedKinds pDesc)"
  shows "range_descriptorType (fst (flatRanges (resourceRanges pDesc) ! k)) = expectedKinds pDesc ! k"
    and "k < length (flatRanges (resourceRanges pDesc))"
proof -
  have l: "length (flatRanges (resourceRanges pDesc)) = length (expectedKinds pDesc)"
    using flatRanges_kinds [of pDesc] by (metis length_map)
  with assms show k: "k < length (flatRanges (resourceRanges pDesc))"
    by simp
  from nth_map [OF k, of "\<lambda>x. range_descriptorType (fst x)"]
  show "range_descriptorType (fst (flatRanges (resourceRanges pDesc) ! k)) = expectedKinds pDesc ! k"
    by (simp only: flatRanges_kinds)
qed

lemma kindsMatch_iff:
  "kindsMatch pDesc dd \<longleftrightarrow>
     (\<forall>k < length (expectedKinds pDesc). k < length (resources dd)
        \<and> res_descriptorType (resources dd ! k) = expectedKinds pDesc ! k)"
proof
  assume m: "kindsMatch pDesc dd"
  show "\<forall>k < length (expectedKinds pDesc). k < length (resources dd)
        \<and> res_descriptorType (resources dd ! k) = expectedKinds pDesc ! k"
  proof (intro allI impI)
    fix k assume k: "k < length (expectedKinds pDesc)"
    with m have kl: "k < length (resources dd)"
      by (simp add: kindsMatch_def)
    from m have "map res_descriptorType (take (length (expectedKinds pDesc)) (resources dd)) ! k
                   = expectedKinds pDesc ! k"
      by (simp add: kindsMatch_def)
    with k kl show "k < length (resources dd)
        \<and> res_descriptorType (resources dd ! k) = expectedKinds pDesc ! k"
      by simp
  qed
next
  assume a: "\<forall>k < length (expectedKinds pDesc). k < length (resources dd)
        \<and> res_descriptorType (resources dd ! k) = expectedKinds pDesc ! k"
  have l: "length (expectedKinds pDesc) \<le> length (resources dd)"
  proof (cases "length (expectedKinds pDesc)")
    case 0
    then show ?thesis by simp
  next
    case (Suc n)
    with a [rule_format, of n] show ?thesis by simp
  qed
  moreover have "map res_descriptorType (take (length (expectedKinds pDesc)) (resources dd))
                   = expectedKinds pDesc"
    using l a by (intro nth_equalityI) simp_all
  ultimately show "kindsMatch pDesc dd"
    by (simp add: kindsMatch_def)
qed

lemma dispatch_Inr_kindsMatch:
  assumes "dispatch w commandBuffer dispatchDesc = Inr cb"
  shows "kindsMatch (pipelines (m_iDesc w) ! unat (pipelineIndex dispatchDesc)) dispatchDesc"
proof -
  let ?pDesc = "pipelines (m_iDesc w) ! unat (pipelineIndex dispatchDesc)"
  let ?len = "unat (numBindings (m_pipelines w ! unat (pipelineIndex dispatchDesc))
                    + of_nat (length (samplers (m_iDesc w))))"
  let ?s0 = "\<lparr>numResourceUpdates = 0,
               descriptorUpdates = replicate ?len make_VkWriteDescriptorSet,
               descriptorImageInfos = replicate ?len zero_VkDescriptorImageInfo,
               imageBarriers = []\<rparr>"
  let ?xs = "flatRanges (resourceRanges ?pDesc)"
  from assms obtain s1 where "dispatch_ranges w dispatchDesc (resourceRanges ?pDesc) ?s0 = Inr s1"
    by (auto simp add: dispatch_def Let_def split: if_splits sum.splits)
  then have "dispatch_each w dispatchDesc ?xs ?s0 = Inr s1"
    by (simp add: dispatch_ranges_each)
  from dispatch_each_Inr [OF this]
  have "\<forall>k < length ?xs. k < length (resources dispatchDesc)
         \<and> res_descriptorType (resources dispatchDesc ! k) = range_descriptorType (fst (?xs ! k))"
    by simp
  then show ?thesis
    unfolding kindsMatch_iff using flatRanges_nth [of _ ?pDesc] by metis
qed

lemma denoise_Inr:
  assumes "denoise w ds commandBuffer = Inr cb"
  shows "\<forall>k < length ds. \<exists>c c1. dispatch w c (ds ! k) = Inr c1"
  using assms
proof (induction ds arbitrary: commandBuffer)
  case Nil
  then show ?case by simp
next
  case (Cons d ds)
  from Cons.prems obtain c1 where a: "dispatch w commandBuffer d = Inr c1"
    and b: "denoise w ds c1 = Inr cb"
    by (auto split: sum.splits)
  note ih = Cons.IH [OF b]
  have "\<exists>c c1. dispatch w c ((d # ds) ! k) = Inr c1" if "k < length (d # ds)" for k
  proof (cases k)
    case 0
    with a show ?thesis by auto
  next
    case (Suc j)
    with that ih show ?thesis by simp
  qed
  then show ?case by blast
qed

text \<open>
  C2. The resource-kind invariant of \<open>NRDWrapper::dispatch\<close>, with the assertions of the
  source enabled. A dispatch that \<open>dispatch\<close> executes to its end has, for every resource
  entry that the pipeline of its index expects, an entry whose descriptor kind is the kind
  declared for the resource range of that index; so has every dispatch of a list that
  \<open>denoise\<close> executes to its end. When the entries match, the assertion at the comparison
  of the kinds does not fire. When they do not match, \<open>dispatch\<close> ends with an error and
  returns no command buffer; and when the pipeline index is in range, the set indices agree,
  and \<open>i\<close> is the first entry of another kind than expected, within the entries and the
  descriptor updates and after entries whose textures resolve, the run ends at the assertion
  of the kinds. An error of a dispatch is the error of \<open>denoise\<close>: no later dispatch runs
  and nothing recovers from it.
\<close>

theorem resource_kind_invariant:
  "let pDesc = pipelines (m_iDesc w) ! unat (pipelineIndex dispatchDesc);
       kinds = expectedKinds pDesc;
       len = unat (numBindings (m_pipelines w ! unat (pipelineIndex dispatchDesc))
                   + of_nat (length (samplers (m_iDesc w))))
   in (\<forall>cb. dispatch w commandBuffer dispatchDesc = Inr cb \<longrightarrow> kindsMatch pDesc dispatchDesc)
      \<and> (\<forall>cb. denoise w ds commandBuffer = Inr cb \<longrightarrow>
            (\<forall>k < length ds.
               kindsMatch (pipelines (m_iDesc w) ! unat (pipelineIndex (ds ! k))) (ds ! k)))
      \<and> (kindsMatch pDesc dispatchDesc \<longrightarrow>
            dispatch w commandBuffer dispatchDesc \<noteq> Inl AssertDescriptorKind)
      \<and> (\<not> kindsMatch pDesc dispatchDesc \<longrightarrow> (\<exists>e. dispatch w commandBuffer dispatchDesc = Inl e))
      \<and> (\<forall>i. unat (pipelineIndex dispatchDesc) < length (pipelines (m_iDesc w))
               \<and> unat (pipelineIndex dispatchDesc) < length (m_pipelines w)
               \<and> m_constantBufferSetIndex w = m_resourcesSetIndex w
               \<and> m_samplersSetIndex w = m_resourcesSetIndex w
               \<and> i < length kinds \<and> i < length (resources dispatchDesc) \<and> i < len
               \<and> (\<forall>j < i. res_descriptorType (resources dispatchDesc ! j) = kinds ! j
                           \<and> (\<exists>t. resolveTexture w (resources dispatchDesc ! j) = Inr t))
               \<and> res_descriptorType (resources dispatchDesc ! i) \<noteq> kinds ! i
             \<longrightarrow> dispatch w commandBuffer dispatchDesc = Inl AssertDescriptorKind)
      \<and> (\<forall>e. dispatch w commandBuffer dispatchDesc = Inl e \<longrightarrow>
               denoise w (dispatchDesc # ds) commandBuffer = Inl e)"
proof -
  let ?iDesc = "m_iDesc w"
  let ?p = "unat (pipelineIndex dispatchDesc)"
  let ?pDesc = "pipelines ?iDesc ! ?p"
  let ?pipe = "m_pipelines w ! ?p"
  let ?len = "unat (numBindings ?pipe + of_nat (length (samplers ?iDesc)))"
  let ?s0 = "\<lparr>numResourceUpdates = 0,
               descriptorUpdates = replicate ?len make_VkWriteDescriptorSet,
               descriptorImageInfos = replicate ?len zero_VkDescriptorImageInfo,
               imageBarriers = []\<rparr>"
  let ?xs = "flatRanges (resourceRanges ?pDesc)"
  have executed: "kindsMatch ?pDesc dispatchDesc" if "dispatch w commandBuffer dispatchDesc = Inr cb" for cb
    using that by (rule dispatch_Inr_kindsMatch)
  have every: "kindsMatch (pipelines ?iDesc ! unat (pipelineIndex (ds ! k))) (ds ! k)"
    if d: "denoise w ds commandBuffer = Inr cb" and k: "k < length ds" for cb k
  proof -
    from denoise_Inr [OF d] k obtain c c1 where "dispatch w c (ds ! k) = Inr c1"
      by blast
    then show ?thesis by (rule dispatch_Inr_kindsMatch)
  qed
  have holds: "dispatch w commandBuffer dispatchDesc \<noteq> Inl AssertDescriptorKind"
    if m: "kindsMatch ?pDesc dispatchDesc"
  proof -
    have "\<forall>k < length ?xs. numResourceUpdates ?s0 + k < length (resources dispatchDesc) \<longrightarrow>
             res_descriptorType (resources dispatchDesc ! (numResourceUpdates ?s0 + k))
               = range_descriptorType (fst (?xs ! k))"
    proof (intro allI impI)
      fix k assume "k < length ?xs"
      then have k: "k < length (expectedKinds ?pDesc)"
        using flatRanges_kinds [of ?pDesc] by (metis length_map)
      with m have "res_descriptorType (resources dispatchDesc ! k) = expectedKinds ?pDesc ! k"
        by (simp add: kindsMatch_iff)
      with flatRanges_nth(1) [OF k]
      show "res_descriptorType (resources dispatchDesc ! (numResourceUpdates ?s0 + k))
               = range_descriptorType (fst (?xs ! k))"
        by simp
    qed
    from dispatch_each_no_assert [OF this]
    have "dispatch_ranges w dispatchDesc (resourceRanges ?pDesc) ?s0 \<noteq> Inl AssertDescriptorKind"
      by (simp add: dispatch_ranges_each)
    then show ?thesis
      using dispatch_samplers_no_assert dispatch_constants_no_assert
      by (auto simp add: dispatch_def Let_def split: if_splits sum.splits prod.splits)
  qed
  have fatal: "\<exists>e. dispatch w commandBuffer dispatchDesc = Inl e" if "\<not> kindsMatch ?pDesc dispatchDesc"
  proof (cases "dispatch w commandBuffer dispatchDesc")
    case (Inl e)
    then show ?thesis by simp
  next
    case (Inr cb)
    with executed that show ?thesis by simp
  qed
  have fires: "dispatch w commandBuffer dispatchDesc = Inl AssertDescriptorKind"
    if p: "?p < length (pipelines ?iDesc)" "?p < length (m_pipelines w)"
      and sets: "m_constantBufferSetIndex w = m_resourcesSetIndex w"
                "m_samplersSetIndex w = m_resourcesSetIndex w"
      and i: "i < length (expectedKinds ?pDesc)" "i < length (resources dispatchDesc)" "i < ?len"
      and before: "\<forall>j < i. res_descriptorType (resources dispatchDesc ! j) = expectedKinds ?pDesc ! j
                           \<and> (\<exists>t. resolveTexture w (resources dispatchDesc ! j) = Inr t)"
      and bad: "res_descriptorType (resources dispatchDesc ! i) \<noteq> expectedKinds ?pDesc ! i"
    for i
  proof -
    have b5: "\<forall>k < i. res_descriptorType (resources dispatchDesc ! (numResourceUpdates ?s0 + k))
                      = range_descriptorType (fst (?xs ! k))
                  \<and> (\<exists>t. resolveTexture w (resources dispatchDesc ! (numResourceUpdates ?s0 + k)) = Inr t)"
    proof (intro allI impI)
      fix k assume k: "k < i"
      with i(1) have "k < length (expectedKinds ?pDesc)" by simp
      from flatRanges_nth(1) [OF this] before [rule_format, OF k]
      show "res_descriptorType (resources dispatchDesc ! (numResourceUpdates ?s0 + k))
                      = range_descriptorType (fst (?xs ! k))
                  \<and> (\<exists>t. resolveTexture w (resources dispatchDesc ! (numResourceUpdates ?s0 + k)) = Inr t)"
        by simp
    qed
    have "dispatch_each w dispatchDesc ?xs ?s0 = Inl AssertDescriptorKind"
      using flatRanges_nth [OF i(1)] i bad
      by (intro dispatch_each_assert [of i] b5) simp_all
    then have "dispatch_ranges w dispatchDesc (resourceRanges ?pDesc) ?s0 = Inl AssertDescriptorKind"
      by (simp add: dispatch_ranges_each)
    with p sets show ?thesis
      by (simp add: dispatch_def Let_def)
  qed
  have propagated: "denoise w (dispatchDesc # ds) commandBuffer = Inl e"
    if "dispatch w commandBuffer dispatchDesc = Inl e" for e
    using that by simp
  show ?thesis
    unfolding Let_def
  proof (intro conjI allI impI)
    fix cb assume "dispatch w commandBuffer dispatchDesc = Inr cb"
    then show "kindsMatch ?pDesc dispatchDesc" by (rule executed)
  next
    fix cb k assume "denoise w ds commandBuffer = Inr cb" "k < length ds"
    then show "kindsMatch (pipelines ?iDesc ! unat (pipelineIndex (ds ! k))) (ds ! k)"
      by (rule every)
  next
    assume "kindsMatch ?pDesc dispatchDesc"
    then show "dispatch w commandBuffer dispatchDesc \<noteq> Inl AssertDescriptorKind" by (rule holds)
  next
    assume "\<not> kindsMatch ?pDesc dispatchDesc"
    then show "\<exists>e. dispatch w commandBuffer dispatchDesc = Inl e" by (rule fatal)
  next
    fix i
    assume "?p < length (pipelines ?iDesc) \<and> ?p < length (m_pipelines w)
            \<and> m_constantBufferSetIndex w = m_resourcesSetIndex w
            \<and> m_samplersSetIndex w = m_resourcesSetIndex w
            \<and> i < length (expectedKinds ?pDesc) \<and> i < length (resources dispatchDesc) \<and> i < ?len
            \<and> (\<forall>j < i. res_descriptorType (resources dispatchDesc ! j) = expectedKinds ?pDesc ! j
                           \<and> (\<exists>t. resolveTexture w (resources dispatchDesc ! j) = Inr t))
            \<and> res_descriptorType (resources dispatchDesc ! i) \<noteq> expectedKinds ?pDesc ! i"
    then show "dispatch w commandBuffer dispatchDesc = Inl AssertDescriptorKind"
      by (intro fires [of i]) simp_all
  next
    fix e assume "dispatch w commandBuffer dispatchDesc = Inl e"
    then show "denoise w (dispatchDesc # ds) commandBuffer = Inl e" by (rule propagated)
  qed
qed

text \<open>
  The dispatch \<open>dispatch_test\<close> matches its pipeline and passes the assertion; with a
  storage texture where a texture is declared, \<open>dispatch_mismatch\<close> ends at the assertion,
  and so does a \<open>denoise\<close> that starts with it.
\<close>

lemma expectedKinds_test:
  "expectedKinds (pipelines (m_iDesc wrapper_test) ! unat (pipelineIndex dispatch_test))
     = [TEXTURE, TEXTURE, STORAGE_TEXTURE]"
  "expectedKinds (pipelines (m_iDesc wrapper_test) ! unat (pipelineIndex dispatch_mismatch))
     = [TEXTURE, TEXTURE, STORAGE_TEXTURE]"
  by code_simp+

lemma kindsMatch_test:
  "kindsMatch (pipelines (m_iDesc wrapper_test) ! unat (pipelineIndex dispatch_test)) dispatch_test"
  by code_simp

theorem resource_kind_invariant_witness:
  "kindsMatch (pipelines (m_iDesc wrapper_test) ! unat (pipelineIndex dispatch_test)) dispatch_test
   \<and> dispatch wrapper_test [] dispatch_test \<noteq> Inl AssertDescriptorKind
   \<and> res_descriptorType (resources dispatch_mismatch ! 1) = STORAGE_TEXTURE
   \<and> expectedKinds (pipelines (m_iDesc wrapper_test) ! unat (pipelineIndex dispatch_mismatch)) ! 1
       = TEXTURE
   \<and> \<not> kindsMatch (pipelines (m_iDesc wrapper_test) ! unat (pipelineIndex dispatch_mismatch))
          dispatch_mismatch
   \<and> dispatch wrapper_test [] dispatch_mismatch = Inl AssertDescriptorKind
   \<and> denoise wrapper_test [dispatch_mismatch, dispatch_test] [] = Inl AssertDescriptorKind"
proof -
  note ok = resource_kind_invariant [of wrapper_test dispatch_test "[]" "[]"]
  note bad = resource_kind_invariant [of wrapper_test dispatch_mismatch "[]" "[dispatch_test]"]
  from ok kindsMatch_test have a: "dispatch wrapper_test [] dispatch_test \<noteq> Inl AssertDescriptorKind"
    by (simp add: Let_def)
  have pre: "unat (pipelineIndex dispatch_mismatch) < length (pipelines (m_iDesc wrapper_test))"
    "unat (pipelineIndex dispatch_mismatch) < length (m_pipelines wrapper_test)"
    "m_constantBufferSetIndex wrapper_test = m_resourcesSetIndex wrapper_test"
    "m_samplersSetIndex wrapper_test = m_resourcesSetIndex wrapper_test"
    "(1 :: nat) < length (resources dispatch_mismatch)"
    "(1 :: nat) < unat (numBindings (m_pipelines wrapper_test ! unat (pipelineIndex dispatch_mismatch))
                   + of_nat (length (samplers (m_iDesc wrapper_test))))"
    "res_descriptorType (resources dispatch_mismatch ! 0) = TEXTURE"
    "resolveTexture wrapper_test (resources dispatch_mismatch ! 0) = Inr \<lparr>tex_image = 1001, tex_imageView = 1002\<rparr>"
    "res_descriptorType (resources dispatch_mismatch ! 1) = STORAGE_TEXTURE"
    by (simp_all add: wrapper_test_def iDesc_test_def dispatch_mismatch_def dispatch_test_def
        resolveTexture_def userPool_test_def)
  from bad have "unat (pipelineIndex dispatch_mismatch) < length (pipelines (m_iDesc wrapper_test))
               \<and> unat (pipelineIndex dispatch_mismatch) < length (m_pipelines wrapper_test)
               \<and> m_constantBufferSetIndex wrapper_test = m_resourcesSetIndex wrapper_test
               \<and> m_samplersSetIndex wrapper_test = m_resourcesSetIndex wrapper_test
               \<and> 1 < length [TEXTURE, TEXTURE, STORAGE_TEXTURE]
               \<and> 1 < length (resources dispatch_mismatch)
               \<and> 1 < unat (numBindings (m_pipelines wrapper_test ! unat (pipelineIndex dispatch_mismatch))
                   + of_nat (length (samplers (m_iDesc wrapper_test))))
               \<and> (\<forall>j < 1. res_descriptorType (resources dispatch_mismatch ! j)
                              = [TEXTURE, TEXTURE, STORAGE_TEXTURE] ! j
                           \<and> (\<exists>t. resolveTexture wrapper_test (resources dispatch_mismatch ! j) = Inr t))
               \<and> res_descriptorType (resources dispatch_mismatch ! 1)
                    \<noteq> [TEXTURE, TEXTURE, STORAGE_TEXTURE] ! 1
             \<longrightarrow> dispatch wrapper_test [] dispatch_mismatch = Inl AssertDescriptorKind"
    unfolding Let_def expectedKinds_test by (elim conjE allE [of _ 1])
  with pre have b: "dispatch wrapper_test [] dispatch_mismatch = Inl AssertDescriptorKind"
    by simp
  from bad b have c: "\<not> kindsMatch (pipelines (m_iDesc wrapper_test) ! unat (pipelineIndex dispatch_mismatch))
          dispatch_mismatch"
    by (auto simp add: Let_def)
  from bad b have d: "denoise wrapper_test [dispatch_mismatch, dispatch_test] [] = Inl AssertDescriptorKind"
    unfolding Let_def by blast
  from kindsMatch_test a pre(9) expectedKinds_test(2) c b d show ?thesis
    by simp
qed

end
